theory Spec2Isabelle
  imports Main "HOL-Library.AList" "HOL-Library.Sublist" "HOL-Library.Multiset"
begin

section \<open>Values, panics and string primitives\<close>

text \<open>
  A Go panic is a value. The recover barrier of \<open>parse\<close> keeps the panics whose value
  implements \<open>error\<close> (every fault of the Go runtime does: failed type assertions, slice
  bounds, nil dereference) and re-raises the others. The Kotlin port catches
  \<open>Exception\<close> and lets a \<open>java.lang.Error\<close> through; the same two constructors stand
  for the two kinds there.
\<close>

datatype panic_val = RuntimeError string | NonError string

type_synonym 'a outcome = "panic_val + 'a"

definition obind :: "'a outcome \<Rightarrow> ('a \<Rightarrow> 'b outcome) \<Rightarrow> 'b outcome" where
  "obind x f = (case x of Inl e \<Rightarrow> Inl e | Inr a \<Rightarrow> f a)"

text \<open>The dynamically typed payload \<open>value any\<close> of a field state.\<close>

datatype anyval =
    VNil
  | VStr string
  | VBool bool
  | VInts "int list"
  | VSet "anyval list"

definition is_digit :: "char \<Rightarrow> bool" where
  "is_digit c = (48 \<le> (of_char c :: nat) \<and> (of_char c :: nat) \<le> 57)"

definition digit_val :: "char \<Rightarrow> int" where
  "digit_val c = int (of_char c) - 48"

fun digits_val :: "int \<Rightarrow> string \<Rightarrow> int" where
  "digits_val acc [] = acc"
| "digits_val acc (c # cs) = digits_val (acc * 10 + digit_val c) cs"

definition int64_min :: int where "int64_min = - (2 ^ 63)"
definition int64_max :: int where "int64_max = 2 ^ 63 - 1"

definition wrap64 :: "int \<Rightarrow> int" where
  "wrap64 x = (x + 2 ^ 63) mod 2 ^ 64 - 2 ^ 63"

text \<open>Go's \<open>%\<close> truncates towards zero: the remainder has the sign of the dividend.\<close>

definition go_rem :: "int \<Rightarrow> int \<Rightarrow> int" where
  "go_rem a b = sgn a * (\<bar>a\<bar> mod \<bar>b\<bar>)"

text \<open>
  \<open>strconv.Atoi\<close>: an optional sign, then at least one decimal digit and nothing else;
  a value outside the 64-bit range is an error. \<open>None\<close> is the error return.
\<close>

definition Atoi :: "string \<Rightarrow> int option" where
  "Atoi s =
     (let (neg, ds) =
        (case s of
           [] \<Rightarrow> (False, [])
         | c # r \<Rightarrow> if c = CHR ''-'' then (True, r)
                    else if c = CHR ''+'' then (False, r) else (False, s)) in
      if ds = [] \<or> \<not> list_all is_digit ds then None
      else
        (let n = digits_val 0 ds; v = (if neg then - n else n) in
         if v < int64_min \<or> int64_max < v then None else Some v))"

definition digit_char :: "nat \<Rightarrow> char" where
  "digit_char n = char_of (48 + n)"

function nat_digits :: "nat \<Rightarrow> string" where
  "nat_digits n = (if n < 10 then [digit_char n] else nat_digits (n div 10) @ [digit_char (n mod 10)])"
  by pat_completeness auto
termination
  by (relation "measure id") auto

declare nat_digits.simps [simp del]

definition Itoa :: "int \<Rightarrow> string" where
  "Itoa i = (if i < 0 then CHR ''-'' # nat_digits (nat (- i)) else nat_digits (nat i))"

text \<open>\<open>non_digits_regex.Split(s, -1)\<close>: the pieces between the maximal runs of non-digits,
  empty pieces included; the empty string gives one empty piece.\<close>

function split_non_digits :: "string \<Rightarrow> string list" where
  "split_non_digits [] = [[]]"
| "split_non_digits (c # cs) =
     (if is_digit c then
        (case split_non_digits cs of
           [] \<Rightarrow> [[c]]
         | t # ts \<Rightarrow> (c # t) # ts)
      else [] # split_non_digits (dropWhile (\<lambda>x. \<not> is_digit x) cs))"
  by pat_completeness auto
termination
  by (relation "measure length") (auto simp: length_dropWhile_le less_Suc_eq_le)

text \<open>\<open>non_digits_regex.ReplaceAllString(v, " ")\<close>: every maximal run of non-digits
  becomes one space.\<close>

function replace_non_digits :: "string \<Rightarrow> string" where
  "replace_non_digits [] = []"
| "replace_non_digits (c # cs) =
     (if is_digit c then c # replace_non_digits cs
      else CHR '' '' # replace_non_digits (dropWhile (\<lambda>x. \<not> is_digit x) cs))"
  by pat_completeness auto
termination
  by (relation "measure length") (auto simp: length_dropWhile_le less_Suc_eq_le)

text \<open>\<open>strings.Trim(s, " ")\<close> and \<open>strings.Split(s, " ")\<close>.\<close>

definition trim_spaces :: "string \<Rightarrow> string" where
  "trim_spaces s =
     rev (dropWhile (\<lambda>c. c = CHR '' '') (rev (dropWhile (\<lambda>c. c = CHR '' '') s)))"

fun split_on :: "char \<Rightarrow> string \<Rightarrow> string list" where
  "split_on sep [] = [[]]"
| "split_on sep (c # cs) =
     (if c = sep then [] # split_on sep cs
      else (case split_on sep cs of
              [] \<Rightarrow> [[c]]
            | t # ts \<Rightarrow> (c # t) # ts))"

section \<open>Value transforms\<close>

text \<open>
  \<open>make([]int, n)\<close>. The runtime's \<open>makeslice\<close> panics (\<open>len out of range\<close>, a
  runtime error) when \<open>n\<close> is negative or the \<open>n\<close> elements of 8 bytes exceed
  \<open>maxAlloc\<close>, which is \<open>2^48\<close> bytes on the 64-bit targets (amd64, arm64): a slice of
  more than \<open>2^45\<close> integers is refused. An allocation within the limit is taken to
  succeed; when the machine lacks the memory for it the runtime ends the process with
  a fatal error, which is no panic and leaves no Result.
\<close>

definition max_alloc :: int where
  "max_alloc = 2 ^ 48"

definition make_ints :: "int \<Rightarrow> int list outcome" where
  "make_ints n =
     (if n < 0 \<or> max_alloc < 8 * n then Inl (RuntimeError ''makeslice: len out of range'')
      else Inr (replicate (nat n) 0))"

text \<open>
  \<open>to_int_range\<close> on the payload \<open>m.value\<close>. The source fills \<open>nums\<close> with the parsed
  tokens, a token that does not parse leaving its slot at 0; two increasing numbers are
  replaced by the run between them, in a slice that \<open>make\<close> allocates for it; the
  last loop returns at the first neighbour that is not the successor.
\<close>

definition atoi_or_zero :: "string \<Rightarrow> int" where
  "atoi_or_zero part = (case Atoi part of Some num \<Rightarrow> num | None \<Rightarrow> 0)"

fun in_sequence :: "int list \<Rightarrow> bool" where
  "in_sequence [] = True"
| "in_sequence [num] = True"
| "in_sequence (num # nxt # rest) =
     (if wrap64 (num + 1) \<noteq> nxt then False else in_sequence (nxt # rest))"

definition int_range_parts :: "string \<Rightarrow> string list" where
  "int_range_parts v = split_on (CHR '' '') (trim_spaces (replace_non_digits v))"

definition to_int_range_value :: "anyval \<Rightarrow> anyval outcome" where
  "to_int_range_value val =
     (case val of
        VStr v \<Rightarrow>
          (let nums = map atoi_or_zero (int_range_parts v) in
           obind
             (if length nums = 2 \<and> nums ! 0 < nums ! 1 then
                obind (make_ints (wrap64 (nums ! 1 - nums ! 0 + 1))) (\<lambda>seq.
                Inr (map (\<lambda>i. nums ! 0 + int i) [0 ..< length seq]))
              else Inr nums)
             (\<lambda>nums. if in_sequence nums then Inr (VInts nums) else Inr VNil))
      | _ \<Rightarrow> Inr VNil)"

text \<open>
  \<open>to_year\<close> on the payload \<open>m.value\<close>. Only the first two pieces are read. The
  century arithmetic is Go's 64-bit \<open>int\<close>: sum and difference wrap around.
\<close>

definition to_year_value :: "anyval \<Rightarrow> anyval" where
  "to_year_value val =
     (case val of
        VStr vstr \<Rightarrow>
          (let parts = split_non_digits vstr in
           if length parts = 1 then VStr (parts ! 0)
           else
             (let start = parts ! 0; end = parts ! 1 in
              case Atoi end of
                None \<Rightarrow> VStr start
              | Some endYear \<Rightarrow>
                  (case Atoi start of
                     None \<Rightarrow> VStr ''''
                   | Some startYear \<Rightarrow>
                       (let endYear =
                          (if endYear < 100
                           then wrap64 (wrap64 (endYear + startYear) - go_rem startYear 100)
                           else endYear) in
                        if endYear \<le> startYear then VStr ''''
                        else VStr (Itoa startYear @ ''-'' @ Itoa endYear)))))
      | _ \<Rightarrow> VStr '''')"

section \<open>The public record and the normalizer\<close>

text \<open>
  \<open>Result\<close> with its forty public fields, the error slot and the normalization flag.
  The Kotlin data class has the same fields; both parsers are modelled on this record.
\<close>

record Result =
  Audio :: "string list"
  BitDepth :: string
  Channels :: "string list"
  Codec :: string
  Commentary :: bool
  Complete :: bool
  Container :: string
  Convert :: bool
  Date :: string
  Documentary :: bool
  Dubbed :: bool
  Edition :: string
  EpisodeCode :: string
  Episodes :: "int list"
  Extended :: bool
  Extension :: string
  Group :: string
  HDR :: "string list"
  Hardcoded :: bool
  Languages :: "string list"
  Network :: string
  Proper :: bool
  Quality :: string
  Region :: string
  ReleaseTypes :: "string list"
  Remastered :: bool
  Repack :: bool
  Resolution :: string
  Retail :: bool
  Seasons :: "int list"
  Site :: string
  Size :: string
  Subbed :: bool
  ThreeD :: string
  Title :: string
  Uncensored :: bool
  Unrated :: bool
  Upscaled :: bool
  Volumes :: "int list"
  Year :: string
  err :: "panic_val option"
  is_normalized :: bool

definition zero_Result :: Result where
  "zero_Result =
     \<lparr> Audio = [], BitDepth = '''', Channels = [], Codec = '''', Commentary = False,
       Complete = False, Container = '''', Convert = False, Date = '''',
       Documentary = False, Dubbed = False, Edition = '''', EpisodeCode = '''',
       Episodes = [], Extended = False, Extension = '''', Group = '''', HDR = [],
       Hardcoded = False, Languages = [], Network = '''', Proper = False,
       Quality = '''', Region = '''', ReleaseTypes = [], Remastered = False,
       Repack = False, Resolution = '''', Retail = False, Seasons = [], Site = '''',
       Size = '''', Subbed = False, ThreeD = '''', Title = '''', Uncensored = False,
       Unrated = False, Upscaled = False, Volumes = [], Year = '''',
       err = None, is_normalized = False \<rparr>"

text \<open>
  \<open>normalize_audio\<close>: the first loop renames in place and records whether anything
  changed; the second keeps the first occurrence of every item.
\<close>

fun rename_audio :: "string list \<Rightarrow> bool \<Rightarrow> string list \<times> bool" where
  "rename_audio [] isChanged = ([], isChanged)"
| "rename_audio (a # rest) isChanged =
     (if a = ''AC3'' then
        (let (rest', c) = rename_audio rest True in (''DD'' # rest', c))
      else if a = ''EAC3'' then
        (let (rest', c) = rename_audio rest True in (''DDP'' # rest', c))
      else
        (let (rest', c) = rename_audio rest isChanged in (a # rest', c)))"

fun dedup_first :: "string list \<Rightarrow> string list \<Rightarrow> string list" where
  "dedup_first seen [] = []"
| "dedup_first seen (item # rest) =
     (if item \<in> set seen then dedup_first seen rest
      else item # dedup_first (item # seen) rest)"

definition normalize_audio :: "string list \<Rightarrow> string list" where
  "normalize_audio audio =
     (let (audio', isChanged) = rename_audio audio False in
      if \<not> isChanged then audio' else dedup_first [] audio')"

text \<open>
  \<open>strings.ToLower\<close> is library code that knows the Unicode case tables; the
  normalizer takes it as the parameter \<open>lower\<close>.
\<close>

definition normalize_codec :: "(string \<Rightarrow> string) \<Rightarrow> string \<Rightarrow> string" where
  "normalize_codec lower codec0 =
     (let codec = lower codec0 in
      if codec = ''avc'' \<or> codec = ''h264'' \<or> codec = ''x264'' then ''AVC''
      else if codec = ''hevc'' \<or> codec = ''h265'' \<or> codec = ''x265'' then ''HEVC''
      else if codec = ''mpeg2'' then ''MPEG-2''
      else if codec = ''divx'' \<or> codec = ''dvix'' then ''DivX''
      else if codec = ''xvid'' then ''Xvid''
      else codec)"

fun normalize_release_types :: "string list \<Rightarrow> string list" where
  "normalize_release_types [] = []"
| "normalize_release_types (t # rest) =
     (if t = ''OAV'' then ''OVA'' # normalize_release_types rest
      else if t = ''ODA'' then ''OAD'' # normalize_release_types rest
      else t # normalize_release_types rest)"

definition normalize_resolution :: "(string \<Rightarrow> string) \<Rightarrow> string \<Rightarrow> string" where
  "normalize_resolution lower resolution0 =
     (let resolution = lower resolution0 in
      if resolution = ''2160p'' then ''4k''
      else if resolution = ''1440p'' then ''2k''
      else resolution)"

text \<open>\<open>(*Result).Normalize\<close>: the receiver is updated in place and returned.\<close>

definition Normalize :: "(string \<Rightarrow> string) \<Rightarrow> Result \<Rightarrow> Result" where
  "Normalize lower r =
     (if err r \<noteq> None then r
      else if \<not> is_normalized r then
        r\<lparr> Audio := normalize_audio (Audio r),
           Codec := normalize_codec lower (Codec r),
           ReleaseTypes := normalize_release_types (ReleaseTypes r),
           Resolution := normalize_resolution lower (Resolution r),
           is_normalized := True \<rparr>
      else r)"

text \<open>
  The Kotlin port. \<open>normalizeCodec\<close> and \<open>normalizeResolution\<close> compare the lowered
  string and fall back to the string as given; \<open>normalized()\<close> returns the receiver
  when it failed or is already normalized, and otherwise a copy whose error and flag
  start from their defaults before the flag is set.
\<close>

definition kt_normalizeAudio :: "string list \<Rightarrow> string list" where
  "kt_normalizeAudio audio =
     (let normalizedAudio =
        map (\<lambda>item. if item = ''AC3'' then ''DD''
                     else if item = ''EAC3'' then ''DDP'' else item) audio;
          isChanged = list_ex (\<lambda>item. item = ''AC3'' \<or> item = ''EAC3'') audio in
      if \<not> isChanged then audio else dedup_first [] normalizedAudio)"

definition kt_normalizeCodec :: "(string \<Rightarrow> string) \<Rightarrow> string \<Rightarrow> string" where
  "kt_normalizeCodec lower codec =
     (let l = lower codec in
      if l = ''avc'' \<or> l = ''h264'' \<or> l = ''x264'' then ''AVC''
      else if l = ''hevc'' \<or> l = ''h265'' \<or> l = ''x265'' then ''HEVC''
      else if l = ''mpeg2'' then ''MPEG-2''
      else if l = ''divx'' \<or> l = ''dvix'' then ''DivX''
      else if l = ''xvid'' then ''Xvid''
      else codec)"

definition kt_normalizeReleaseTypes :: "string list \<Rightarrow> string list" where
  "kt_normalizeReleaseTypes rtypes =
     map (\<lambda>t. if t = ''OAV'' then ''OVA'' else if t = ''ODA'' then ''OAD'' else t) rtypes"

definition kt_normalizeResolution :: "(string \<Rightarrow> string) \<Rightarrow> string \<Rightarrow> string" where
  "kt_normalizeResolution lower resolution =
     (let l = lower resolution in
      if l = ''2160p'' then ''4k''
      else if l = ''1440p'' then ''2k''
      else resolution)"

definition kt_normalized :: "(string \<Rightarrow> string) \<Rightarrow> Result \<Rightarrow> Result" where
  "kt_normalized lower r =
     (if err r \<noteq> None then r
      else if is_normalized r then r
      else
        r\<lparr> Audio := kt_normalizeAudio (Audio r),
           Codec := kt_normalizeCodec lower (Codec r),
           ReleaseTypes := kt_normalizeReleaseTypes (ReleaseTypes r),
           Resolution := kt_normalizeResolution lower (Resolution r),
           err := None,
           is_normalized := True \<rparr>)"

section \<open>Field states, rules and the Go engine\<close>

record parseMeta =
  mIndex :: int
  mValue :: string
  val :: anyval
  remove :: bool
  processed :: bool

definition new_parseMeta :: parseMeta where
  "new_parseMeta = \<lparr> mIndex = 0, mValue = '''', val = VNil, remove = False, processed = False \<rparr>"

text \<open>
  The field-state map \<open>map[string]*parseMeta\<close> is an association list with distinct
  keys. A \<open>range\<close> over a Go map visits the entries in an order the runtime chooses; the
  engine takes that choice as the parameter \<open>ord\<close>, which rearranges the entries
  before a loop visits them.

  The map holds pointers. The \<open>m\<close> a transform or processor receives is the entry of
  the rule's field whenever the field is in the map, so what they do to \<open>m\<close> is seen
  through the map: they return the new \<open>m\<close> and the new map, and the engine stores
  the returned \<open>m\<close> under the rule's field. Every processor of the rule table returns
  the pointer it was given.
\<close>

type_synonym result_map = "(string \<times> parseMeta) list"
type_synonym order = "result_map \<Rightarrow> result_map"

type_synonym hProcessor = "string \<Rightarrow> parseMeta \<Rightarrow> result_map \<Rightarrow> (parseMeta \<times> result_map) outcome"
type_synonym hTransformer = "string \<Rightarrow> parseMeta \<Rightarrow> result_map \<Rightarrow> (parseMeta \<times> result_map) outcome"
type_synonym hMatchValidator = "string \<Rightarrow> int list \<Rightarrow> bool outcome"

text \<open>
  A rule. \<open>Pattern\<close> is \<open>FindStringSubmatchIndex\<close> of the compiled expression: the
  offsets of the leftmost match and of its groups, \<open>-1\<close> for a group that took no part,
  the empty list when nothing matches.
\<close>

record handler =
  Field :: string
  Pattern :: "(string \<Rightarrow> int list) option"
  ValidateMatch :: "hMatchValidator option"
  Transform :: "hTransformer option"
  Process :: "hProcessor option"
  Remove :: bool
  KeepMatching :: bool
  SkipIfFirst :: bool
  SkipIfBefore :: "string list"
  SkipFromTitle :: bool
  MatchGroup :: int
  ValueGroup :: int

definition has_value_set :: "string \<Rightarrow> bool" where
  "has_value_set field =
     (field \<in> set [''audio'', ''channels'', ''hdr'', ''languages'', ''releaseTypes''])"

text \<open>Slicing and indexing panic out of range.\<close>

definition slice :: "string \<Rightarrow> int \<Rightarrow> int \<Rightarrow> string outcome" where
  "slice s a b =
     (if 0 \<le> a \<and> a \<le> b \<and> b \<le> int (length s)
      then Inr (take (nat (b - a)) (drop (nat a) s))
      else Inl (RuntimeError ''slice bounds out of range''))"

definition at_index :: "int list \<Rightarrow> int \<Rightarrow> int outcome" where
  "at_index xs i =
     (if 0 \<le> i \<and> i < int (length xs) then Inr (xs ! nat i)
      else Inl (RuntimeError ''index out of range''))"

definition group_text :: "string \<Rightarrow> int list \<Rightarrow> int \<Rightarrow> string outcome" where
  "group_text s idxs g =
     obind (at_index idxs (g * 2)) (\<lambda>a.
     obind (at_index idxs (g * 2 + 1)) (\<lambda>b. slice s a b))"

text \<open>\<open>whitespaces_regex\<close> (\<open>\s+\<close>, RE2: tab, newline, form feed, carriage return, space)
  and \<open>underscores_regex\<close>, each run replaced by one space.\<close>

function replace_runs :: "(char \<Rightarrow> bool) \<Rightarrow> string \<Rightarrow> string" where
  "replace_runs P [] = []"
| "replace_runs P (c # cs) =
     (if P c then CHR '' '' # replace_runs P (dropWhile P cs)
      else c # replace_runs P cs)"
  by pat_completeness auto
termination
  by (relation "measure (\<lambda>(P, s). length s)") (auto simp: length_dropWhile_le less_Suc_eq_le)

definition is_space :: "char \<Rightarrow> bool" where
  "is_space c = ((of_char c :: nat) \<in> set [9, 10, 12, 13, 32])"

definition normalize_title :: "string \<Rightarrow> string" where
  "normalize_title title = replace_runs (\<lambda>c. c = CHR ''_'') (replace_runs is_space title)"

text \<open>\<open>before_title_regex\<close> \<open>^\[([^[\]]+)]\<close> through \<open>FindString\<close>: the leading bracket
  group, or the empty string.\<close>

definition before_title :: "string \<Rightarrow> string" where
  "before_title title =
     (case title of
        [] \<Rightarrow> []
      | c # rest \<Rightarrow>
          if c = CHR ''['' then
            (let inner = takeWhile (\<lambda>x. x \<noteq> CHR ''['' \<and> x \<noteq> CHR '']'') rest;
                 after = dropWhile (\<lambda>x. x \<noteq> CHR ''['' \<and> x \<noteq> CHR '']'') rest in
             case after of
               [] \<Rightarrow> []
             | d # _ \<Rightarrow> if inner \<noteq> [] \<and> d = CHR '']'' then c # inner @ [d] else [])
          else [])"

text \<open>\<open>strings.Contains\<close>.\<close>

fun Contains :: "string \<Rightarrow> string \<Rightarrow> bool" where
  "Contains [] substr = (substr = [])"
| "Contains (c # s) substr = (prefix substr (c # s) \<or> Contains s substr)"

text \<open>
  The skip-if-first loop: \<open>hasOther\<close> and \<open>hasBefore\<close> over the entries in the order the
  runtime gives, leaving the loop at the first other field that starts at or before the
  candidate.
\<close>

fun skip_if_first_scan :: "string \<Rightarrow> int \<Rightarrow> result_map \<Rightarrow> bool \<times> bool \<Rightarrow> bool \<times> bool" where
  "skip_if_first_scan field i0 [] (hasOther, hasBefore) = (hasOther, hasBefore)"
| "skip_if_first_scan field i0 ((f, fm) # rest) (hasOther, hasBefore) =
     (if f \<noteq> field then
        (if mIndex fm \<le> i0 then (True, True)
         else skip_if_first_scan field i0 rest (True, hasBefore))
      else skip_if_first_scan field i0 rest (hasOther, hasBefore))"

definition skip_if_first :: "order \<Rightarrow> string \<Rightarrow> int \<Rightarrow> result_map \<Rightarrow> bool" where
  "skip_if_first ord field i0 result =
     (let (hasOther, hasBefore) = skip_if_first_scan field i0 (ord result) (False, False) in
      hasOther \<and> \<not> hasBefore)"

fun skip_if_before :: "string list \<Rightarrow> int \<Rightarrow> result_map \<Rightarrow> bool" where
  "skip_if_before [] i0 result = False"
| "skip_if_before (skipField # rest) i0 result =
     (case map_of result skipField of
        Some fm \<Rightarrow> if i0 < mIndex fm then True else skip_if_before rest i0 result
      | None \<Rightarrow> skip_if_before rest i0 result)"

text \<open>\<open>matchedPart\<close>: group 1 when \<open>ValueGroup\<close> is 0, the named group when the match has
  it, the whole match when the pattern has no group.\<close>

definition value_part :: "handler \<Rightarrow> string \<Rightarrow> int list \<Rightarrow> string \<Rightarrow> string outcome" where
  "value_part h title idxs rawMatchedPart =
     (if 2 < length idxs then
        (if ValueGroup h = 0 then group_text title idxs 1
         else if ValueGroup h * 2 < int (length idxs) then group_text title idxs (ValueGroup h)
         else Inr rawMatchedPart)
      else Inr rawMatchedPart)"

text \<open>
  The pattern branch of the loop body. \<open>None\<close> is \<open>continue\<close>; otherwise the effective
  skip-from-title flag, the field state and the map that now holds it.
\<close>

definition match_pattern ::
  "order \<Rightarrow> handler \<Rightarrow> (string \<Rightarrow> int list) \<Rightarrow> string \<Rightarrow> result_map \<Rightarrow>
   (bool \<times> parseMeta \<times> result_map) option outcome" where
  "match_pattern ord h pat title result =
     (let field = Field h; found = map_of result field in
      if found \<noteq> None \<and> \<not> KeepMatching h then Inr None
      else
        (let idxs = pat title in
         if length idxs = 0 then Inr None
         else
           obind (case ValidateMatch h of None \<Rightarrow> Inr True | Some v \<Rightarrow> v title idxs) (\<lambda>valid.
           if \<not> valid then Inr None
           else if SkipIfFirst h \<and> skip_if_first ord field (idxs ! 0) result then Inr None
           else if skip_if_before (SkipIfBefore h) (idxs ! 0) result then Inr None
           else
             obind (group_text title idxs 0) (\<lambda>rawMatchedPart.
             obind (value_part h title idxs rawMatchedPart) (\<lambda>matchedPart.
             (let skipFromTitle =
                    (if Contains (before_title title) rawMatchedPart then True
                     else SkipFromTitle h);
                  m = (case found of
                         Some m \<Rightarrow> m
                       | None \<Rightarrow>
                           if has_value_set field then new_parseMeta\<lparr>val := VSet []\<rparr>
                           else new_parseMeta);
                  m = m\<lparr>mIndex := idxs ! 0, mValue := rawMatchedPart\<rparr>;
                  m = (if \<not> has_value_set field then m\<lparr>val := VStr matchedPart\<rparr> else m) in
              obind
                (if MatchGroup h \<noteq> 0 then
                   obind (at_index idxs (MatchGroup h * 2)) (\<lambda>a.
                   obind (group_text title idxs (MatchGroup h)) (\<lambda>mv.
                   Inr (m\<lparr>mIndex := a, mValue := mv\<rparr>)))
                 else Inr m)
                (\<lambda>m. Inr (Some (skipFromTitle, m, AList.update field m result)))))))))"

text \<open>
  The processor branch. Without a field state the processor gets a fresh one, which is
  installed only when it comes back with a value; \<open>m\<close> is the returned pointer either
  way. A rule with neither pattern nor processor on a field not in the map leaves
  \<open>m\<close> nil.
\<close>

definition run_process ::
  "handler \<Rightarrow> string \<Rightarrow> parseMeta option \<Rightarrow> result_map \<Rightarrow>
   (parseMeta option \<times> bool \<times> result_map) outcome" where
  "run_process h title mo result =
     (case Process h of
        None \<Rightarrow> Inr (mo, mo \<noteq> None, result)
      | Some p \<Rightarrow>
          (case mo of
             Some m \<Rightarrow>
               obind (p title m result) (\<lambda>(m', result').
               Inr (Some m', True, AList.update (Field h) m' result'))
           | None \<Rightarrow>
               obind (p title new_parseMeta result) (\<lambda>(m', result').
               if val m' \<noteq> VNil then Inr (Some m', True, AList.update (Field h) m' result')
               else Inr (Some m', False, result'))))"

definition run_transform ::
  "handler \<Rightarrow> string \<Rightarrow> parseMeta \<Rightarrow> bool \<Rightarrow> result_map \<Rightarrow> (parseMeta \<times> result_map) outcome" where
  "run_transform h title m mFound result =
     (case Transform h of
        None \<Rightarrow> Inr (m, result)
      | Some t \<Rightarrow>
          if val m \<noteq> VNil then
            obind (t title m result) (\<lambda>(m', result').
            Inr (m', if mFound then AList.update (Field h) m' result' else result'))
          else Inr (m, result))"

text \<open>Title mutation and boundary tracking.\<close>

definition splice_title :: "string \<Rightarrow> parseMeta \<Rightarrow> string outcome" where
  "splice_title title m =
     obind (slice title 0 (mIndex m)) (\<lambda>before.
     obind (slice title (mIndex m + int (length (mValue m))) (int (length title))) (\<lambda>after.
     Inr (before @ after)))"

definition update_boundary :: "bool \<Rightarrow> parseMeta \<Rightarrow> int \<Rightarrow> int" where
  "update_boundary skipFromTitle m endOfTitle =
     (let endOfTitle =
        (if \<not> skipFromTitle \<and> mIndex m \<noteq> 0 \<and> mIndex m < endOfTitle then mIndex m
         else endOfTitle) in
      if remove m \<and> skipFromTitle \<and> mIndex m < endOfTitle
      then endOfTitle - int (length (mValue m))
      else endOfTitle)"

record pstate =
  title :: string
  result :: result_map
  endOfTitle :: int

definition apply_handler :: "order \<Rightarrow> handler \<Rightarrow> pstate \<Rightarrow> pstate outcome" where
  "apply_handler ord h st =
     obind
       (case Pattern h of
          None \<Rightarrow> Inr (Some (SkipFromTitle h, map_of (result st) (Field h), result st))
        | Some pat \<Rightarrow>
            obind (match_pattern ord h pat (title st) (result st)) (\<lambda>r.
            case r of
              None \<Rightarrow> Inr None
            | Some (skipFromTitle, m, res) \<Rightarrow> Inr (Some (skipFromTitle, Some m, res))))
       (\<lambda>matched.
        case matched of
          None \<Rightarrow> Inr st
        | Some (skipFromTitle, mo, res) \<Rightarrow>
            obind (run_process h (title st) mo res) (\<lambda>(mo, mFound, res).
            case mo of
              None \<Rightarrow> Inl (RuntimeError ''invalid memory address or nil pointer dereference'')
            | Some m \<Rightarrow>
                obind (run_transform h (title st) m mFound res) (\<lambda>(m, res).
                if val m = VNil then Inr (st\<lparr>result := AList.delete (Field h) res\<rparr>)
                else if \<not> mFound \<or> (processed m \<and> \<not> KeepMatching h \<and> \<not> has_value_set (Field h))
                then Inr (st\<lparr>result := res\<rparr>)
                else
                  obind
                    (if Remove h \<or> remove m then
                       obind (splice_title (title st) m) (\<lambda>t. Inr (m\<lparr>remove := True\<rparr>, t))
                     else Inr (m, title st))
                    (\<lambda>(m, t).
                     Inr \<lparr> title = t,
                           result = AList.update (Field h) (m\<lparr>remove := False, processed := True\<rparr>) res,
                           endOfTitle = update_boundary skipFromTitle m (endOfTitle st) \<rparr>))))"

fun run_handlers :: "order \<Rightarrow> handler list \<Rightarrow> pstate \<Rightarrow> pstate outcome" where
  "run_handlers ord [] st = Inr st"
| "run_handlers ord (h # hs) st = obind (apply_handler ord h st) (run_handlers ord hs)"

section \<open>Transforms and processors of the rule table\<close>

text \<open>The transforms as closures over the field state; they leave the map alone.\<close>

definition to_value :: "string \<Rightarrow> hTransformer" where
  "to_value v t m res = Inr (m\<lparr>val := VStr v\<rparr>, res)"

definition to_boolean :: hTransformer where
  "to_boolean t m res = Inr (m\<lparr>val := VBool True\<rparr>, res)"

definition to_with_suffix :: "string \<Rightarrow> hTransformer" where
  "to_with_suffix sfx t m res =
     (case val m of
        VStr v \<Rightarrow> Inr (m\<lparr>val := VStr (v @ sfx)\<rparr>, res)
      | _ \<Rightarrow> Inr (m\<lparr>val := VStr ''''\<rparr>, res))"

definition to_year :: hTransformer where
  "to_year t m res = Inr (m\<lparr>val := to_year_value (val m)\<rparr>, res)"

definition to_int_range :: hTransformer where
  "to_int_range t m res = obind (to_int_range_value (val m)) (\<lambda>v. Inr (m\<lparr>val := v\<rparr>, res))"

text \<open>\<open>value_set.append\<close> keeps the first occurrence; \<open>to_value_set\<close> appends to the
  field's set when the payload is one.\<close>

definition value_set_append :: "anyval list \<Rightarrow> anyval \<Rightarrow> anyval list" where
  "value_set_append values v = (if v \<in> set values then values else values @ [v])"

definition to_value_set :: "anyval \<Rightarrow> hTransformer" where
  "to_value_set v t m res =
     (case val m of
        VSet values \<Rightarrow> Inr (m\<lparr>val := VSet (value_set_append values v)\<rparr>, res)
      | _ \<Rightarrow> Inr (m, res))"

text \<open>
  The processor of the last \<open>group\<close> rule. The expression \<open>^\[.+]$\<close> holds of a text
  that opens and closes with a square bracket around at least one character, none of
  them a newline. The loop over the map returns at the first field whose match starts
  inside the bracket group; the order of the visit is the runtime's.
\<close>

definition bracketed :: "string \<Rightarrow> bool" where
  "bracketed s =
     (3 \<le> length s \<and> hd s = CHR ''['' \<and> last s = CHR '']'' \<and>
      list_all (\<lambda>c. c \<noteq> char_of (10 :: nat)) (butlast (tl s)))"

fun group_overlap :: "result_map \<Rightarrow> int \<Rightarrow> bool" where
  "group_overlap [] endIndex = False"
| "group_overlap ((key, km) # rest) endIndex =
     (if 0 < mIndex km \<and> mIndex km < endIndex then True else group_overlap rest endIndex)"

definition group_processor :: "order \<Rightarrow> hProcessor" where
  "group_processor ord t m res =
     (if mValue m \<noteq> '''' \<and> bracketed (mValue m) \<and>
         group_overlap (ord res) (mIndex m + int (length (mValue m)))
      then Inr (m\<lparr>val := VStr ''''\<rparr>, res)
      else Inr (m\<lparr>mIndex := 0, mValue := ''''\<rparr>, res))"

section \<open>The rule table\<close>

subsection \<open>Regular expressions and library functions\<close>

text \<open>
  The rule table compiles some four hundred regular expressions. The model does not
  interpret them: a compiled expression is the record of the methods the table calls
  on it, and \<open>regexp_at\<close> gives, for a line of the table's source file, the expression
  that \<open>regexp.MustCompile\<close> compiles on that line. What is proved of the table holds
  for every such assignment. \<open>strings.ToLower\<close>, \<open>strings.ToUpper\<close> and
  \<open>strings.TrimSpace\<close> follow Unicode and are parameters as well; \<open>date_of\<close> is
  \<open>time.Parse\<close> with a layout followed by \<open>Format("2006-01-02")\<close>, \<open>None\<close> when the value
  does not parse.
\<close>

record regexp =
  FindStringSubmatchIndex :: "string \<Rightarrow> int list"
  MatchString :: "string \<Rightarrow> bool"
  ReplaceAllString :: "string \<Rightarrow> string \<Rightarrow> string"
  ReplaceAllStringFunc :: "string \<Rightarrow> (string \<Rightarrow> string outcome) \<Rightarrow> string outcome"

record go_env =
  regexp_at :: "nat \<Rightarrow> regexp"
  ToLower :: "string \<Rightarrow> string"
  ToUpper :: "string \<Rightarrow> string"
  TrimSpace :: "string \<Rightarrow> string"
  date_of :: "string \<Rightarrow> string \<Rightarrow> string option"

text \<open>\<open>strings.Trim\<close> with a cutset, \<open>strings.HasSuffix\<close>, \<open>strings.Index\<close>.\<close>

definition Trim :: "string \<Rightarrow> string \<Rightarrow> string" where
  "Trim s cutset =
     rev (dropWhile (\<lambda>c. c \<in> set cutset) (rev (dropWhile (\<lambda>c. c \<in> set cutset) s)))"

definition HasSuffix :: "string \<Rightarrow> string \<Rightarrow> bool" where
  "HasSuffix s sfx = (length sfx \<le> length s \<and> drop (length s - length sfx) s = sfx)"

fun index_from :: "string \<Rightarrow> string \<Rightarrow> int \<Rightarrow> int" where
  "index_from [] substr i = (if substr = [] then i else - 1)"
| "index_from (c # s) substr i =
     (if prefix substr (c # s) then i else index_from s substr (i + 1))"

definition Index :: "string \<Rightarrow> string \<Rightarrow> int" where
  "Index s substr = index_from s substr 0"

text \<open>\<open>non_digit_regex\<close> (\<open>\D\<close>) replaced by nothing, and \<open>non_alphas_regex.Split(v, -1)\<close>
  (\<open>\W+\<close>): the word characters of RE2 are the ASCII letters, the digits and the
  underscore.\<close>

definition remove_non_digits :: "string \<Rightarrow> string" where
  "remove_non_digits s = filter is_digit s"

definition is_word :: "char \<Rightarrow> bool" where
  "is_word c =
     (let n = (of_char c :: nat) in
      (48 \<le> n \<and> n \<le> 57) \<or> (65 \<le> n \<and> n \<le> 90) \<or> (97 \<le> n \<and> n \<le> 122) \<or> n = 95)"

function split_non_alphas :: "string \<Rightarrow> string list" where
  "split_non_alphas [] = [[]]"
| "split_non_alphas (c # cs) =
     (if is_word c then
        (case split_non_alphas cs of
           [] \<Rightarrow> [[c]]
         | t # ts \<Rightarrow> (c # t) # ts)
      else [] # split_non_alphas (dropWhile (\<lambda>x. \<not> is_word x) cs))"
  by pat_completeness auto
termination
  by (relation "measure length") (auto simp: length_dropWhile_le less_Suc_eq_le)

subsection \<open>Validators\<close>

fun validate_and :: "hMatchValidator list \<Rightarrow> hMatchValidator" where
  "validate_and [] input idxs = Inr True"
| "validate_and (validator # validators) input idxs =
     obind (validator input idxs) (\<lambda>ok.
     if \<not> ok then Inr False else validate_and validators input idxs)"

definition validate_not_at_start :: hMatchValidator where
  "validate_not_at_start input match = obind (at_index match 0) (\<lambda>a. Inr (a \<noteq> 0))"

definition validate_not_at_end :: hMatchValidator where
  "validate_not_at_end input match =
     obind (at_index match 1) (\<lambda>b. Inr (b \<noteq> int (length input)))"

definition validate_not_match :: "regexp \<Rightarrow> hMatchValidator" where
  "validate_not_match re input match =
     obind (group_text input match 0) (\<lambda>rv. Inr (\<not> MatchString re rv))"

definition validate_match :: "regexp \<Rightarrow> hMatchValidator" where
  "validate_match re input match =
     obind (group_text input match 0) (\<lambda>rv. Inr (MatchString re rv))"

fun groups_are :: "string \<Rightarrow> int list \<Rightarrow> string \<Rightarrow> int list \<Rightarrow> bool outcome" where
  "groups_are input match first [] = Inr True"
| "groups_are input match first (index # rest) =
     obind (group_text input match index) (\<lambda>other.
     if other \<noteq> first then Inr False else groups_are input match first rest)"

definition validate_matched_groups_are_same :: "int list \<Rightarrow> hMatchValidator" where
  "validate_matched_groups_are_same indices input match =
     (case indices of
        [] \<Rightarrow> Inl (RuntimeError ''index out of range'')
      | i0 # rest \<Rightarrow>
          obind (group_text input match i0) (\<lambda>first. groups_are input match first rest))"

subsection \<open>Transforms\<close>

text \<open>
  The transforms that assert \<open>m.value.(string)\<close> panic on another payload; those that
  test the assertion leave it or overwrite it, as the source has it.
\<close>

definition to_lowercase :: "go_env \<Rightarrow> hTransformer" where
  "to_lowercase env t m res =
     (case val m of
        VStr v \<Rightarrow> Inr (m\<lparr>val := VStr (ToLower env v)\<rparr>, res)
      | _ \<Rightarrow> Inl (RuntimeError ''interface conversion''))"

definition to_uppercase :: "go_env \<Rightarrow> hTransformer" where
  "to_uppercase env t m res =
     (case val m of
        VStr v \<Rightarrow> Inr (m\<lparr>val := VStr (ToUpper env v)\<rparr>, res)
      | _ \<Rightarrow> Inl (RuntimeError ''interface conversion''))"

definition to_trimmed :: "go_env \<Rightarrow> hTransformer" where
  "to_trimmed env t m res =
     (case val m of
        VStr v \<Rightarrow> Inr (m\<lparr>val := VStr (TrimSpace env v)\<rparr>, res)
      | _ \<Rightarrow> Inl (RuntimeError ''interface conversion''))"

definition to_clean_date :: "go_env \<Rightarrow> hTransformer" where
  "to_clean_date env t m res =
     (case val m of
        VStr v \<Rightarrow> Inr (m\<lparr>val := VStr (ReplaceAllString (regexp_at env 105) v ''$1'')\<rparr>, res)
      | _ \<Rightarrow> Inr (m, res))"

definition to_clean_month :: "go_env \<Rightarrow> hTransformer" where
  "to_clean_month env t m res =
     (case val m of
        VStr v \<Rightarrow>
          obind (ReplaceAllStringFunc (regexp_at env 114) v (\<lambda>str. slice str 0 3)) (\<lambda>v'.
          Inr (m\<lparr>val := VStr v'\<rparr>, res))
      | _ \<Rightarrow> Inr (m, res))"

definition to_date :: "go_env \<Rightarrow> string \<Rightarrow> hTransformer" where
  "to_date env format t m res =
     (case val m of
        VStr v \<Rightarrow>
          (case date_of env format (ReplaceAllString (regexp_at env 125) v '' '') of
             Some d \<Rightarrow> Inr (m\<lparr>val := VStr d\<rparr>, res)
           | None \<Rightarrow> Inr (m\<lparr>val := VStr ''''\<rparr>, res))
      | _ \<Rightarrow> Inr (m\<lparr>val := VStr ''''\<rparr>, res))"

definition to_value_set_with_transform :: "(string \<Rightarrow> anyval) \<Rightarrow> hTransformer" where
  "to_value_set_with_transform to_v t m res =
     (case val m of
        VSet values \<Rightarrow> Inr (m\<lparr>val := VSet (value_set_append values (to_v (mValue m)))\<rparr>, res)
      | _ \<Rightarrow> Inr (m, res))"

definition to_value_set_multi_with_transform :: "(string \<Rightarrow> anyval list) \<Rightarrow> hTransformer" where
  "to_value_set_multi_with_transform to_v t m res =
     (case val m of
        VSet values \<Rightarrow> Inr (m\<lparr>val := VSet (foldl value_set_append values (to_v (mValue m)))\<rparr>, res)
      | _ \<Rightarrow> Inr (m, res))"

definition to_int_array :: hTransformer where
  "to_int_array t m res =
     (case val m of
        VStr v \<Rightarrow>
          (case Atoi v of
             Some num \<Rightarrow> Inr (m\<lparr>val := VInts [num]\<rparr>, res)
           | None \<Rightarrow> Inr (m\<lparr>val := VInts []\<rparr>, res))
      | _ \<Rightarrow> Inr (m\<lparr>val := VInts []\<rparr>, res))"

definition remove_from_value :: "regexp \<Rightarrow> hProcessor" where
  "remove_from_value re t m res =
     (case val m of
        VStr v \<Rightarrow>
          if v \<noteq> '''' then Inr (m\<lparr>val := VStr (ReplaceAllString re v '''')\<rparr>, res)
          else Inr (m, res)
      | _ \<Rightarrow> Inr (m, res))"
subsection \<open>The closures written in the table\<close>

text \<open>
  The transform of the two written-out date rules: \<open>to_clean_date\<close>, \<open>to_clean_month\<close>
  and \<open>to_date\<close> with the rule's layout, one after the other.
\<close>

definition clean_date_transform :: "go_env \<Rightarrow> string \<Rightarrow> hTransformer" where
  "clean_date_transform env format t m res =
     obind (to_clean_date env t m res) (\<lambda>(m, res).
     obind (to_clean_month env t m res) (\<lambda>(m, res).
     to_date env format t m res))"

text \<open>
  The transform of the two year-range rules: \<open>to_year\<close>, and when no \<open>complete\<close> is
  recorded and the year is a range, a copy of the field state with the value \<open>true\<close>
  recorded as \<open>complete\<close>.
\<close>

definition year_range_transform :: hTransformer where
  "year_range_transform t m res =
     obind (to_year t m res) (\<lambda>(m, res).
     if map_of res ''complete'' = None then
       (case val m of
          VStr v \<Rightarrow>
            if Contains v ''-'' then Inr (m, AList.update ''complete'' (m\<lparr>val := VBool True\<rparr>) res)
            else Inr (m, res)
        | _ \<Rightarrow> Inl (RuntimeError ''interface conversion''))
     else Inr (m, res))"

text \<open>The validators of the last three year rules.\<close>

definition validate_year_not_followed :: "go_env \<Rightarrow> hMatchValidator" where
  "validate_year_not_followed env input match =
     obind (at_index match 3) (\<lambda>a.
     obind (slice input a (int (length input))) (\<lambda>rest.
     Inr (\<not> MatchString (regexp_at env 558) rest)))"

definition validate_year_inside :: hMatchValidator where
  "validate_year_inside input match =
     obind (at_index match 0) (\<lambda>a.
     if a < 2 then Inr False
     else obind (group_text input match 1) (\<lambda>g. Inr (length g = 4)))"

definition validate_year_at_start :: hMatchValidator where
  "validate_year_at_start input match =
     obind (group_text input match 0) (\<lambda>mValue.
     if length mValue = 4 then obind (at_index match 0) (\<lambda>a. Inr (a \<noteq> 0))
     else Inr (length (Trim mValue ''()[]'') = 4))"

text \<open>The processor of the last \<open>edition\<close> rule.\<close>

definition edition_processor :: hProcessor where
  "edition_processor t m res =
     (if val m = VStr ''Remastered'' \<and> map_of res ''remastered'' = None then
        Inr (m, AList.update ''remastered''
                  \<lparr> mIndex = mIndex m, mValue = mValue m, val = VBool True,
                    remove = False, processed = False \<rparr> res)
      else Inr (m, res))"

text \<open>
  The value closures of the two \<open>releaseTypes\<close> rules (the parts of the match between
  non-word characters, in upper case; the match in upper case) and of the bracketed
  \<open>channels\<close> rule (the match in lower case), and the validator of the BluRay quality
  rule, which refuses a match that ends in \<open>rip\<close>.
\<close>

definition upper_values :: "go_env \<Rightarrow> string \<Rightarrow> anyval list" where
  "upper_values env v = map (\<lambda>v. VStr (ToUpper env v)) (split_non_alphas v)"

definition upper_value :: "go_env \<Rightarrow> string \<Rightarrow> anyval" where
  "upper_value env v = VStr (ToUpper env v)"

definition lower_value :: "go_env \<Rightarrow> string \<Rightarrow> anyval" where
  "lower_value env v = VStr (ToLower env v)"

definition validate_not_rip :: "go_env \<Rightarrow> hMatchValidator" where
  "validate_not_rip env input match =
     obind (group_text input match 0) (\<lambda>rv. Inr (\<not> HasSuffix (ToLower env rv) ''rip''))"

text \<open>The processor of the \<open>volumes\<close> rule without pattern.\<close>

definition volumes_processor :: "go_env \<Rightarrow> hProcessor" where
  "volumes_processor env t m res =
     (let startIndex =
        (case map_of res ''year'' of
           Some yr \<Rightarrow> min (mIndex yr) (int (length t))
         | None \<Rightarrow> 0) in
      obind (slice t startIndex (int (length t))) (\<lambda>rest.
      (let mIdxs = FindStringSubmatchIndex (regexp_at env 1571) rest in
       if length mIdxs = 0 then Inr (m, res)
       else
         obind (at_index mIdxs 2) (\<lambda>a.
         obind (at_index mIdxs 3) (\<lambda>b.
         obind (slice t (startIndex + a) (startIndex + b)) (\<lambda>mStr.
         case Atoi mStr of
           Some num \<Rightarrow>
             obind (at_index mIdxs 0) (\<lambda>a0.
             obind (at_index mIdxs 1) (\<lambda>b0.
             obind (slice t (startIndex + a0) (startIndex + b0)) (\<lambda>mv.
             Inr (m\<lparr>mIndex := a0, mValue := mv, val := VInts [num], remove := True\<rparr>, res))))
         | None \<Rightarrow> Inr (m, res)))))))"

text \<open>The validator of the rule that reads \<open>264\<close> and \<open>265\<close> as episodes.\<close>

definition validate_no_codec_before :: "go_env \<Rightarrow> hMatchValidator" where
  "validate_no_codec_before env input match =
     obind (at_index match 0) (\<lambda>a.
     obind (slice input 0 a) (\<lambda>before. Inr (\<not> MatchString (regexp_at env 2121) before)))"

text \<open>
  The processor of the \<open>episodes\<close> rule without pattern: the first loop finds where the
  middle of the title starts (the year or the seasons, whichever is recorded first
  in the title), the second where the beginning ends; an episode number is looked up
  in the beginning, then in the middle.
\<close>

fun episodes_start :: "result_map \<Rightarrow> string list \<Rightarrow> int \<Rightarrow> int" where
  "episodes_start res [] startIndex = startIndex"
| "episodes_start res (component # rest) startIndex =
     episodes_start res rest
       (case map_of res component of
          Some cm \<Rightarrow>
            if 0 < mIndex cm \<and> (startIndex = 0 \<or> mIndex cm < startIndex) then mIndex cm
            else startIndex
        | None \<Rightarrow> startIndex)"

fun episodes_end :: "result_map \<Rightarrow> string list \<Rightarrow> int \<Rightarrow> int" where
  "episodes_end res [] endIndex = endIndex"
| "episodes_end res (component # rest) endIndex =
     episodes_end res rest
       (case map_of res component of
          Some cm \<Rightarrow> if 0 < mIndex cm \<and> mIndex cm < endIndex then mIndex cm else endIndex
        | None \<Rightarrow> endIndex)"

definition episodes_beginning :: "go_env \<Rightarrow> string \<Rightarrow> string outcome" where
  "episodes_beginning env beginningTitle =
     (let mIdxs = FindStringSubmatchIndex (regexp_at env 2183) beginningTitle in
      if length mIdxs \<noteq> 0 then
        obind (group_text beginningTitle mIdxs 0) (\<lambda>mStr.
        obind (at_index mIdxs 0) (\<lambda>a0.
        if a0 = 0 \<or> MatchString (regexp_at env 2184) mStr \<or> MatchString (regexp_at env 2185) mStr \<or>
           MatchString (regexp_at env 2188) mStr \<or> MatchString (regexp_at env 2189) mStr
        then Inr ''''
        else if 2 < length mIdxs then group_text beginningTitle mIdxs 1
        else Inr mStr))
      else Inr '''')"

definition episodes_middle :: "go_env \<Rightarrow> string \<Rightarrow> string outcome" where
  "episodes_middle env middleTitle =
     (let mIdxs = FindStringSubmatchIndex (regexp_at env 2186) middleTitle in
      if length mIdxs \<noteq> 0 then
        obind (at_index mIdxs 2) (\<lambda>a.
        obind (slice middleTitle a (int (length middleTitle))) (\<lambda>after.
        if MatchString (regexp_at env 2187) after \<or> MatchString (regexp_at env 2188) ''''
        then Inr ''''
        else group_text middleTitle mIdxs 1))
      else Inr '''')"

definition episodes_processor :: "go_env \<Rightarrow> hProcessor" where
  "episodes_processor env t m res =
     (if val m \<noteq> VNil then Inr (m, res)
      else
        (let startIndex = episodes_start res [''year'', ''seasons''] 0;
             endIndex = episodes_end res [''resolution'', ''quality'', ''codec'', ''audio'']
                          (int (length t)) in
         obind (slice t 0 endIndex) (\<lambda>beginningTitle.
         (let startIndex = min startIndex (int (length t)) in
          obind (slice t startIndex (max endIndex startIndex)) (\<lambda>middleTitle.
          obind (episodes_beginning env beginningTitle) (\<lambda>mStr.
          obind (if mStr = '''' then episodes_middle env middleTitle else Inr mStr) (\<lambda>mStr.
          if mStr \<noteq> '''' then
            (let mStr = remove_non_digits mStr in
             case Atoi mStr of
               Some ep \<Rightarrow>
                 Inr (m\<lparr>mIndex := Index t mStr, mValue := mStr, val := VInts [ep]\<rparr>, res)
             | None \<Rightarrow> Inr (m, res))
          else Inr (m, res))))))))"

text \<open>The processors of the pattern-less \<open>languages\<close>, \<open>subbed\<close> and \<open>dubbed\<close> rules.\<close>

definition languages_processor :: "go_env \<Rightarrow> hProcessor" where
  "languages_processor env t m res =
     (let m = m\<lparr>mIndex := 0, mValue := ''''\<rparr>;
          ok = (case val m of VSet values \<Rightarrow> True | _ \<Rightarrow> False);
          vs = (case val m of VSet values \<Rightarrow> values | _ \<Rightarrow> []) in
      if ok \<and> (VStr ''pt'' \<in> set vs \<or> VStr ''es'' \<in> set vs) then Inr (m, res)
      else if (case map_of res ''episodes'' of
                 Some em \<Rightarrow> mValue em \<noteq> '''' \<and> MatchString (regexp_at env 3256) (mValue em)
               | None \<Rightarrow> False) \<or>
              MatchString (regexp_at env 3257) t
      then Inr (m\<lparr>val := VSet (value_set_append vs (VStr ''pt''))\<rparr>, res)
      else Inr (m, res))"

definition has_language :: "result_map \<Rightarrow> string list \<Rightarrow> bool" where
  "has_language res names =
     (case map_of res ''languages'' of
        Some lm \<Rightarrow>
          (case val lm of
             VSet values \<Rightarrow> list_ex (\<lambda>name. VStr name \<in> set values) names
           | _ \<Rightarrow> False)
      | None \<Rightarrow> False)"

definition subbed_processor :: hProcessor where
  "subbed_processor t m res =
     (if has_language res [''multi subs''] then Inr (m\<lparr>val := VBool True\<rparr>, res)
      else Inr (m, res))"

definition dubbed_processor :: hProcessor where
  "dubbed_processor t m res =
     (if has_language res [''multi audio'', ''dual audio''] then Inr (m\<lparr>val := VBool True\<rparr>, res)
      else Inr (m, res))"
section \<open>Assembling the Result\<close>

text \<open>The type assertions of the final loop; a failed assertion is a runtime panic.\<close>

definition as_string :: "anyval \<Rightarrow> string outcome" where
  "as_string v = (case v of VStr s \<Rightarrow> Inr s | _ \<Rightarrow> Inl (RuntimeError ''interface conversion''))"

definition as_bool :: "anyval \<Rightarrow> bool outcome" where
  "as_bool v = (case v of VBool b \<Rightarrow> Inr b | _ \<Rightarrow> Inl (RuntimeError ''interface conversion''))"

definition as_ints :: "anyval \<Rightarrow> int list outcome" where
  "as_ints v = (case v of VInts xs \<Rightarrow> Inr xs | _ \<Rightarrow> Inl (RuntimeError ''interface conversion''))"

fun as_strings :: "anyval list \<Rightarrow> string list outcome" where
  "as_strings [] = Inr []"
| "as_strings (v # vs) =
     obind (as_string v) (\<lambda>s. obind (as_strings vs) (\<lambda>rest. Inr (s # rest)))"

definition as_value_set :: "anyval \<Rightarrow> string list outcome" where
  "as_value_set v =
     (case v of VSet vs \<Rightarrow> as_strings vs | _ \<Rightarrow> Inl (RuntimeError ''interface conversion''))"

text \<open>One pass of the \<open>switch field\<close>; a field outside the switch leaves \<open>r\<close> as it is.\<close>

definition assemble_field :: "string \<Rightarrow> anyval \<Rightarrow> Result \<Rightarrow> Result outcome" where
  "assemble_field field v r =
     (if field = ''audio'' then obind (as_value_set v) (\<lambda>x. Inr (r\<lparr>Audio := x\<rparr>))
      else if field = ''bitDepth'' then obind (as_string v) (\<lambda>x. Inr (r\<lparr>BitDepth := x\<rparr>))
      else if field = ''channels'' then obind (as_value_set v) (\<lambda>x. Inr (r\<lparr>Channels := x\<rparr>))
      else if field = ''codec'' then obind (as_string v) (\<lambda>x. Inr (r\<lparr>Codec := x\<rparr>))
      else if field = ''commentary'' then obind (as_bool v) (\<lambda>x. Inr (r\<lparr>Commentary := x\<rparr>))
      else if field = ''complete'' then obind (as_bool v) (\<lambda>x. Inr (r\<lparr>Complete := x\<rparr>))
      else if field = ''container'' then obind (as_string v) (\<lambda>x. Inr (r\<lparr>Container := x\<rparr>))
      else if field = ''convert'' then obind (as_bool v) (\<lambda>x. Inr (r\<lparr>Convert := x\<rparr>))
      else if field = ''date'' then obind (as_string v) (\<lambda>x. Inr (r\<lparr>Date := x\<rparr>))
      else if field = ''documentary'' then obind (as_bool v) (\<lambda>x. Inr (r\<lparr>Documentary := x\<rparr>))
      else if field = ''dubbed'' then obind (as_bool v) (\<lambda>x. Inr (r\<lparr>Dubbed := x\<rparr>))
      else if field = ''edition'' then obind (as_string v) (\<lambda>x. Inr (r\<lparr>Edition := x\<rparr>))
      else if field = ''episodeCode'' then obind (as_string v) (\<lambda>x. Inr (r\<lparr>EpisodeCode := x\<rparr>))
      else if field = ''episodes'' then obind (as_ints v) (\<lambda>x. Inr (r\<lparr>Episodes := x\<rparr>))
      else if field = ''extended'' then obind (as_bool v) (\<lambda>x. Inr (r\<lparr>Extended := x\<rparr>))
      else if field = ''extension'' then obind (as_string v) (\<lambda>x. Inr (r\<lparr>Extension := x\<rparr>))
      else if field = ''group'' then obind (as_string v) (\<lambda>x. Inr (r\<lparr>Group := x\<rparr>))
      else if field = ''hardcoded'' then obind (as_bool v) (\<lambda>x. Inr (r\<lparr>Hardcoded := x\<rparr>))
      else if field = ''hdr'' then obind (as_value_set v) (\<lambda>x. Inr (r\<lparr>HDR := x\<rparr>))
      else if field = ''languages'' then obind (as_value_set v) (\<lambda>x. Inr (r\<lparr>Languages := x\<rparr>))
      else if field = ''network'' then obind (as_string v) (\<lambda>x. Inr (r\<lparr>Network := x\<rparr>))
      else if field = ''proper'' then obind (as_bool v) (\<lambda>x. Inr (r\<lparr>Proper := x\<rparr>))
      else if field = ''region'' then obind (as_string v) (\<lambda>x. Inr (r\<lparr>Region := x\<rparr>))
      else if field = ''remastered'' then obind (as_bool v) (\<lambda>x. Inr (r\<lparr>Remastered := x\<rparr>))
      else if field = ''repack'' then obind (as_bool v) (\<lambda>x. Inr (r\<lparr>Repack := x\<rparr>))
      else if field = ''resolution'' then obind (as_string v) (\<lambda>x. Inr (r\<lparr>Resolution := x\<rparr>))
      else if field = ''retail'' then obind (as_bool v) (\<lambda>x. Inr (r\<lparr>Retail := x\<rparr>))
      else if field = ''seasons'' then obind (as_ints v) (\<lambda>x. Inr (r\<lparr>Seasons := x\<rparr>))
      else if field = ''size'' then obind (as_string v) (\<lambda>x. Inr (r\<lparr>Size := x\<rparr>))
      else if field = ''site'' then obind (as_string v) (\<lambda>x. Inr (r\<lparr>Site := x\<rparr>))
      else if field = ''quality'' then obind (as_string v) (\<lambda>x. Inr (r\<lparr>Quality := x\<rparr>))
      else if field = ''releaseTypes'' then obind (as_value_set v) (\<lambda>x. Inr (r\<lparr>ReleaseTypes := x\<rparr>))
      else if field = ''subbed'' then obind (as_bool v) (\<lambda>x. Inr (r\<lparr>Subbed := x\<rparr>))
      else if field = ''threeD'' then obind (as_string v) (\<lambda>x. Inr (r\<lparr>ThreeD := x\<rparr>))
      else if field = ''uncensored'' then obind (as_bool v) (\<lambda>x. Inr (r\<lparr>Uncensored := x\<rparr>))
      else if field = ''unrated'' then obind (as_bool v) (\<lambda>x. Inr (r\<lparr>Unrated := x\<rparr>))
      else if field = ''upscaled'' then obind (as_bool v) (\<lambda>x. Inr (r\<lparr>Upscaled := x\<rparr>))
      else if field = ''volumes'' then obind (as_ints v) (\<lambda>x. Inr (r\<lparr>Volumes := x\<rparr>))
      else if field = ''year'' then obind (as_string v) (\<lambda>x. Inr (r\<lparr>Year := x\<rparr>))
      else Inr r)"

text \<open>The loop over the map. A panic leaves in \<open>r\<close> what the earlier passes stored.\<close>

fun assemble :: "result_map \<Rightarrow> Result \<Rightarrow> (panic_val \<times> Result) + Result" where
  "assemble [] r = Inr r"
| "assemble ((field, fieldMeta) # rest) r =
     (case assemble_field field (val fieldMeta) r of
        Inl e \<Rightarrow> Inl (e, r)
      | Inr r' \<Rightarrow> assemble rest r')"

text \<open>
  The deferred function: a panic whose value is an \<open>error\<close> is stored in \<open>r.err\<close> and
  \<open>r\<close> is returned; any other panic is raised again.
\<close>

definition recover_parse :: "(panic_val \<times> Result) + Result \<Rightarrow> Result outcome" where
  "recover_parse x =
     (case x of
        Inr r \<Rightarrow> Inr r
      | Inl (RuntimeError e, r) \<Rightarrow> Inr (r\<lparr>err := Some (RuntimeError e)\<rparr>)
      | Inl (NonError e, r) \<Rightarrow> Inl (NonError e))"

text \<open>
  \<open>parse\<close>. \<open>clean_title\<close> is a fixed chain of regular-expression substitutions over
  Unicode classes; the engine takes it as a parameter.
\<close>

definition parse :: "order \<Rightarrow> (string \<Rightarrow> string) \<Rightarrow> string \<Rightarrow> handler list \<Rightarrow> Result outcome" where
  "parse ord clean_title title0 handlers =
     (let r = zero_Result;
          t = normalize_title title0 in
      recover_parse
        (case run_handlers ord handlers \<lparr> title = t, result = [], endOfTitle = int (length t) \<rparr> of
           Inl e \<Rightarrow> Inl (e, r)
         | Inr st \<Rightarrow>
             (case assemble (ord (result st)) r of
                Inl e \<Rightarrow> Inl e
              | Inr r \<Rightarrow>
                  Inr (r\<lparr>Title :=
                         clean_title
                           (take (nat (max (min (endOfTitle st) (int (length (title st)))) 0))
                              (title st))\<rparr>))))"

text \<open>\<open>GetPartialParser\<close>: the selection loop appends the rules whose field was requested.\<close>

fun select_handlers :: "string list \<Rightarrow> handler list \<Rightarrow> handler list \<Rightarrow> handler list" where
  "select_handlers fieldNames [] selectedHandlers = selectedHandlers"
| "select_handlers fieldNames (h # hs) selectedHandlers =
     (if Field h \<in> set fieldNames then select_handlers fieldNames hs (selectedHandlers @ [h])
      else select_handlers fieldNames hs selectedHandlers)"

definition GetPartialParser ::
  "order \<Rightarrow> (string \<Rightarrow> string) \<Rightarrow> handler list \<Rightarrow> string list \<Rightarrow> string \<Rightarrow> Result outcome" where
  "GetPartialParser ord clean_title handlers fieldNames =
     (let selectedHandlers = select_handlers fieldNames handlers [] in
      (\<lambda>t. parse ord clean_title t selectedHandlers))"

section \<open>The Kotlin port of the engine\<close>

text \<open>
  The port works on the same rules and field states. An exception is a panic value:
  \<open>RuntimeError\<close> for an \<open>Exception\<close>, which the \<open>catch\<close> of \<open>parse\<close> takes, \<open>NonError\<close>
  for a \<open>java.lang.Error\<close>, which it does not. The field-state map is a
  \<open>LinkedHashMap\<close>, visited in insertion order. Java's \<open>\s\<close> has the vertical tab too.
\<close>

definition kt_is_space :: "char \<Rightarrow> bool" where
  "kt_is_space c = ((of_char c :: nat) \<in> set [9, 10, 11, 12, 13, 32])"

definition kt_normalize_title :: "string \<Rightarrow> string" where
  "kt_normalize_title t = replace_runs (\<lambda>c. c = CHR ''_'') (replace_runs kt_is_space t)"

text \<open>The bracket expression of the loop body is not anchored: \<open>find\<close> returns the
  leftmost bracket group anywhere in the title.\<close>

fun kt_find_bracket_group :: "string \<Rightarrow> string option" where
  "kt_find_bracket_group [] = None"
| "kt_find_bracket_group (c # rest) =
     (if c = CHR ''['' then
        (let inner = takeWhile (\<lambda>x. x \<noteq> CHR ''['' \<and> x \<noteq> CHR '']'') rest;
             after = dropWhile (\<lambda>x. x \<noteq> CHR ''['' \<and> x \<noteq> CHR '']'') rest in
         case after of
           [] \<Rightarrow> kt_find_bracket_group rest
         | d # _ \<Rightarrow>
             if inner \<noteq> [] \<and> d = CHR '']'' then Some (c # inner @ [d])
             else kt_find_bracket_group rest)
      else kt_find_bracket_group rest)"

definition kt_skip_if_first :: "string \<Rightarrow> int \<Rightarrow> result_map \<Rightarrow> bool" where
  "kt_skip_if_first field i0 res =
     (let hasOther = list_ex (\<lambda>(f, fm). f \<noteq> field) res;
          hasBefore = list_ex (\<lambda>(f, fm). mIndex fm \<le> i0) res in
      hasOther \<and> \<not> hasBefore)"

definition kt_value_part :: "handler \<Rightarrow> string \<Rightarrow> int list \<Rightarrow> string \<Rightarrow> string outcome" where
  "kt_value_part h t idxs rawMatchedPart =
     (if 2 < length idxs then
        (if ValueGroup h = 0 then group_text t idxs 1
         else if ValueGroup h * 2 < int (length idxs) then
           obind (at_index idxs (ValueGroup h * 2)) (\<lambda>start.
           obind (at_index idxs (ValueGroup h * 2 + 1)) (\<lambda>end.
           if 0 \<le> start \<and> 0 \<le> end then slice t start end else Inr rawMatchedPart))
         else Inr rawMatchedPart)
      else Inr rawMatchedPart)"

definition kt_match_pattern ::
  "handler \<Rightarrow> (string \<Rightarrow> int list) \<Rightarrow> string \<Rightarrow> result_map \<Rightarrow>
   (parseMeta \<times> result_map) option outcome" where
  "kt_match_pattern h pat t res =
     (let field = Field h; found = map_of res field in
      if found \<noteq> None \<and> \<not> KeepMatching h then Inr None
      else
        (let idxs = pat t in
         if length idxs = 0 then Inr None
         else
           obind (case ValidateMatch h of None \<Rightarrow> Inr True | Some v \<Rightarrow> v t idxs) (\<lambda>valid.
           if \<not> valid then Inr None
           else if SkipIfFirst h \<and> kt_skip_if_first field (idxs ! 0) res then Inr None
           else if skip_if_before (SkipIfBefore h) (idxs ! 0) res then Inr None
           else
             obind (group_text t idxs 0) (\<lambda>rawMatchedPart.
             obind (kt_value_part h t idxs rawMatchedPart) (\<lambda>matchedPart.
             (let beforeTitleMatch = kt_find_bracket_group t;
                  shouldSkipFromTitle =
                    (case beforeTitleMatch of
                       None \<Rightarrow> False
                     | Some b \<Rightarrow> Contains b rawMatchedPart);
                  m = (case found of
                         Some m \<Rightarrow> m
                       | None \<Rightarrow>
                           if has_value_set field then new_parseMeta\<lparr>val := VSet []\<rparr>
                           else new_parseMeta);
                  m = m\<lparr>mIndex := idxs ! 0, mValue := rawMatchedPart\<rparr>;
                  m = (if \<not> has_value_set field then m\<lparr>val := VStr matchedPart\<rparr> else m) in
              obind
                (if MatchGroup h \<noteq> 0 then
                   obind (at_index idxs (MatchGroup h * 2)) (\<lambda>matchStart.
                   obind (at_index idxs (MatchGroup h * 2 + 1)) (\<lambda>matchEnd.
                   if 0 \<le> matchStart \<and> 0 \<le> matchEnd then
                     obind (slice t matchStart matchEnd) (\<lambda>mv.
                     Inr (m\<lparr>mIndex := matchStart, mValue := mv\<rparr>))
                   else Inr m))
                 else Inr m)
                (\<lambda>m. Inr (Some (m, AList.update field m res)))))))))"

definition kt_run_process ::
  "handler \<Rightarrow> string \<Rightarrow> parseMeta option \<Rightarrow> result_map \<Rightarrow>
   (parseMeta option \<times> result_map) outcome" where
  "kt_run_process h t mo res =
     (case Process h of
        None \<Rightarrow> Inr (mo, res)
      | Some p \<Rightarrow>
          (case mo of
             Some m \<Rightarrow>
               obind (p t m res) (\<lambda>(m', res').
               Inr (Some m', AList.update (Field h) m' res'))
           | None \<Rightarrow>
               obind (p t new_parseMeta res) (\<lambda>(newM, res').
               if val newM \<noteq> VNil then Inr (Some newM, AList.update (Field h) newM res')
               else Inr (None, res'))))"

definition kt_apply_handler :: "handler \<Rightarrow> pstate \<Rightarrow> pstate outcome" where
  "kt_apply_handler h st =
     (let skipFromTitle = SkipFromTitle h in
      obind
        (case Pattern h of
           None \<Rightarrow> Inr (Some (map_of (result st) (Field h), result st))
         | Some pat \<Rightarrow>
             obind (kt_match_pattern h pat (title st) (result st)) (\<lambda>r.
             case r of
               None \<Rightarrow> Inr None
             | Some (m, res) \<Rightarrow> Inr (Some (Some m, res))))
        (\<lambda>matched.
         case matched of
           None \<Rightarrow> Inr st
         | Some (mo, res) \<Rightarrow>
             obind (kt_run_process h (title st) mo res) (\<lambda>(mo, res).
             case mo of
               None \<Rightarrow> Inr (st\<lparr>result := AList.delete (Field h) res\<rparr>)
             | Some m \<Rightarrow>
                 obind (run_transform h (title st) m True res) (\<lambda>(m, res).
                 if val m = VNil then Inr (st\<lparr>result := AList.delete (Field h) res\<rparr>)
                 else if processed m \<and> \<not> KeepMatching h \<and> \<not> has_value_set (Field h)
                 then Inr (st\<lparr>result := res\<rparr>)
                 else
                   obind
                     (if Remove h \<or> remove m then
                        obind (splice_title (title st) m) (\<lambda>t. Inr (m\<lparr>remove := True\<rparr>, t))
                      else Inr (m, title st))
                     (\<lambda>(m, t).
                      Inr \<lparr> title = t,
                            result = AList.update (Field h) (m\<lparr>remove := False, processed := True\<rparr>) res,
                            endOfTitle = update_boundary skipFromTitle m (endOfTitle st) \<rparr>)))))"

fun kt_run_handlers :: "handler list \<Rightarrow> pstate \<Rightarrow> pstate outcome" where
  "kt_run_handlers [] st = Inr st"
| "kt_run_handlers (h # hs) st = obind (kt_apply_handler h st) (kt_run_handlers hs)"

text \<open>
  The extractors use safe casts and cannot fail. \<open>toString\<close> of a value-set element is
  the element itself for a string and the word for a boolean; for the other payloads
  it is library code, the parameter \<open>toStr\<close>. On the elements of an integer list it is
  the decimal numeral.
\<close>

definition kt_toString :: "(anyval \<Rightarrow> string) \<Rightarrow> anyval \<Rightarrow> string" where
  "kt_toString toStr v =
     (case v of
        VStr s \<Rightarrow> s
      | VBool b \<Rightarrow> (if b then ''true'' else ''false'')
      | _ \<Rightarrow> toStr v)"

definition extractString :: "parseMeta option \<Rightarrow> string" where
  "extractString meta = (case meta of Some m \<Rightarrow> (case val m of VStr s \<Rightarrow> s | _ \<Rightarrow> '''') | None \<Rightarrow> '''')"

definition extractBoolean :: "parseMeta option \<Rightarrow> bool" where
  "extractBoolean meta = (case meta of Some m \<Rightarrow> (case val m of VBool b \<Rightarrow> b | _ \<Rightarrow> False) | None \<Rightarrow> False)"

definition extractStringList :: "(anyval \<Rightarrow> string) \<Rightarrow> parseMeta option \<Rightarrow> string list" where
  "extractStringList toStr meta =
     (case meta of
        Some m \<Rightarrow>
          (case val m of
             VSet vs \<Rightarrow> map (kt_toString toStr) vs
           | VInts xs \<Rightarrow> map Itoa xs
           | _ \<Rightarrow> [])
      | None \<Rightarrow> [])"

definition extractIntList :: "parseMeta option \<Rightarrow> int list" where
  "extractIntList meta = (case meta of Some m \<Rightarrow> (case val m of VInts xs \<Rightarrow> xs | _ \<Rightarrow> []) | None \<Rightarrow> [])"

definition kt_assemble :: "(anyval \<Rightarrow> string) \<Rightarrow> result_map \<Rightarrow> string \<Rightarrow> Result" where
  "kt_assemble toStr res cleanTitle =
     (let extractStringList = extractStringList toStr in
      \<lparr> Audio = extractStringList (map_of res ''audio''),
       BitDepth = extractString (map_of res ''bitDepth''),
       Channels = extractStringList (map_of res ''channels''),
       Codec = extractString (map_of res ''codec''),
       Commentary = extractBoolean (map_of res ''commentary''),
       Complete = extractBoolean (map_of res ''complete''),
       Container = extractString (map_of res ''container''),
       Convert = extractBoolean (map_of res ''convert''),
       Date = extractString (map_of res ''date''),
       Documentary = extractBoolean (map_of res ''documentary''),
       Dubbed = extractBoolean (map_of res ''dubbed''),
       Edition = extractString (map_of res ''edition''),
       EpisodeCode = extractString (map_of res ''episodeCode''),
       Episodes = extractIntList (map_of res ''episodes''),
       Extended = extractBoolean (map_of res ''extended''),
       Extension = extractString (map_of res ''extension''),
       Group = extractString (map_of res ''group''),
       HDR = extractStringList (map_of res ''hdr''),
       Hardcoded = extractBoolean (map_of res ''hardcoded''),
       Languages = extractStringList (map_of res ''languages''),
       Network = extractString (map_of res ''network''),
       Proper = extractBoolean (map_of res ''proper''),
       Quality = extractString (map_of res ''quality''),
       Region = extractString (map_of res ''region''),
       ReleaseTypes = extractStringList (map_of res ''releaseTypes''),
       Remastered = extractBoolean (map_of res ''remastered''),
       Repack = extractBoolean (map_of res ''repack''),
       Resolution = extractString (map_of res ''resolution''),
       Retail = extractBoolean (map_of res ''retail''),
       Seasons = extractIntList (map_of res ''seasons''),
       Site = extractString (map_of res ''site''),
       Size = extractString (map_of res ''size''),
       Subbed = extractBoolean (map_of res ''subbed''),
       ThreeD = extractString (map_of res ''threeD''),
       Title = cleanTitle,
       Uncensored = extractBoolean (map_of res ''uncensored''),
       Unrated = extractBoolean (map_of res ''unrated''),
       Upscaled = extractBoolean (map_of res ''upscaled''),
       Volumes = extractIntList (map_of res ''volumes''),
       Year = extractString (map_of res ''year''),
       err = None, is_normalized = False \<rparr>)"

definition kt_parse ::
  "(anyval \<Rightarrow> string) \<Rightarrow> (string \<Rightarrow> string) \<Rightarrow> string \<Rightarrow> handler list \<Rightarrow> Result outcome" where
  "kt_parse toStr cleanTitle title0 handlers =
     (let workingTitle = kt_normalize_title title0 in
      case kt_run_handlers handlers
             \<lparr> title = workingTitle, result = [], endOfTitle = int (length workingTitle) \<rparr> of
        Inl (RuntimeError e) \<Rightarrow> Inr (zero_Result\<lparr>err := Some (RuntimeError e)\<rparr>)
      | Inl (NonError e) \<Rightarrow> Inl (NonError e)
      | Inr st \<Rightarrow>
          Inr (kt_assemble toStr (result st)
                 (cleanTitle
                    (take (nat (max (min (endOfTitle st) (int (length (title st)))) 0))
                       (title st)))))"

definition kt_getPartialParser ::
  "(anyval \<Rightarrow> string) \<Rightarrow> (string \<Rightarrow> string) \<Rightarrow> handler list \<Rightarrow> string list \<Rightarrow>
   string \<Rightarrow> Result outcome" where
  "kt_getPartialParser toStr cleanTitle handlers fieldNames =
     (let selectedHandlers = filter (\<lambda>h. Field h \<in> set fieldNames) handlers in
      (\<lambda>t. kt_parse toStr cleanTitle t selectedHandlers))"

section \<open>Rules used as examples\<close>

text \<open>
  Three patterns written out as matchers, for literals \<open>pre\<close> and \<open>lit\<close>: the
  expression that is the literal \<open>lit\<close>; \<open>(pre)lit\<close>, whose group 1 is the prefix;
  and \<open>(pre)?lit\<close>, whose group takes no part when the prefix is absent. Each returns
  the leftmost match.
\<close>

fun find_literal_from :: "string \<Rightarrow> int \<Rightarrow> string \<Rightarrow> int list" where
  "find_literal_from lit i [] = (if lit = [] then [i, i] else [])"
| "find_literal_from lit i (c # s) =
     (if prefix lit (c # s) then [i, i + int (length lit)]
      else find_literal_from lit (i + 1) s)"

definition find_literal :: "string \<Rightarrow> string \<Rightarrow> int list" where
  "find_literal lit s = find_literal_from lit 0 s"

fun find_group_from :: "string \<Rightarrow> string \<Rightarrow> int \<Rightarrow> string \<Rightarrow> int list" where
  "find_group_from pre lit i [] = []"
| "find_group_from pre lit i (c # s) =
     (if prefix (pre @ lit) (c # s)
      then [i, i + int (length pre) + int (length lit), i, i + int (length pre)]
      else find_group_from pre lit (i + 1) s)"

definition find_group :: "string \<Rightarrow> string \<Rightarrow> string \<Rightarrow> int list" where
  "find_group pre lit s = find_group_from pre lit 0 s"

fun find_optional_from :: "string \<Rightarrow> string \<Rightarrow> int \<Rightarrow> string \<Rightarrow> int list" where
  "find_optional_from pre lit i [] = []"
| "find_optional_from pre lit i (c # s) =
     (if prefix (pre @ lit) (c # s)
      then [i, i + int (length pre) + int (length lit), i, i + int (length pre)]
      else if prefix lit (c # s) then [i, i + int (length lit), - 1, - 1]
      else find_optional_from pre lit (i + 1) s)"

definition find_optional :: "string \<Rightarrow> string \<Rightarrow> string \<Rightarrow> int list" where
  "find_optional pre lit s = find_optional_from pre lit 0 s"

definition rule :: "string \<Rightarrow> (string \<Rightarrow> int list) \<Rightarrow> handler" where
  "rule field pat =
     \<lparr> Field = field, Pattern = Some pat, ValidateMatch = None, Transform = None,
       Process = None, Remove = False, KeepMatching = False, SkipIfFirst = False,
       SkipIfBefore = [], SkipFromTitle = False, MatchGroup = 0, ValueGroup = 0 \<rparr>"

text \<open>
  The Kotlin \<open>Handler\<close> class has the value group default to 1 where the Go struct
  leaves it 0; both mean group 1. \<open>kt_table\<close> is a Go table as the port writes it.
\<close>

definition kt_table :: "handler list \<Rightarrow> handler list" where
  "kt_table hs = map (\<lambda>h. if ValueGroup h = 0 then h\<lparr>ValueGroup := 1\<rparr> else h) hs"

text \<open>
  Rules in the shape of the table's: the resolution rule \<open>(480|576|720|1080|2160)[pi]\<close>
  with \<open>to_with_suffix("p")\<close> and removal, cut down to one alternative; the language
  rules \<open>\bJPN\b\<close> and \<open>(korean|coreano)\b\<close>, the second one skip-if-first.
\<close>

definition resolution_rule :: "string \<Rightarrow> handler" where
  "resolution_rule digits =
     (rule ''resolution'' (find_group digits ''p''))
       \<lparr>Transform := Some (to_with_suffix ''p''), Remove := True\<rparr>"

definition language_rules :: "handler list" where
  "language_rules =
     [resolution_rule ''1080'',
      (rule ''languages'' (find_literal ''JPN''))
        \<lparr>Transform := Some (to_value_set (VStr ''ja'')), KeepMatching := True\<rparr>,
      (rule ''languages'' (find_group ''korean'' []))
        \<lparr>Transform := Some (to_value_set (VStr ''ko'')), KeepMatching := True,
          SkipIfFirst := True\<rparr>]"

text \<open>A rule without pattern, and two rules with a cross-reference: the episode rule is
  skipped when its candidate lies before the recorded year.\<close>

definition process_rule :: "string \<Rightarrow> hProcessor \<Rightarrow> handler" where
  "process_rule field p =
     \<lparr> Field = field, Pattern = None, ValidateMatch = None, Transform = None,
       Process = Some p, Remove = False, KeepMatching = False, SkipIfFirst = False,
       SkipIfBefore = [], SkipFromTitle = False, MatchGroup = 0, ValueGroup = 0 \<rparr>"

definition episode_rules :: "handler list" where
  "episode_rules =
     [rule ''year'' (find_literal ''2020''),
      (rule ''episodes'' (find_literal ''05''))
        \<lparr>Transform := Some to_int_range, SkipIfBefore := [''year'']\<rparr>]"

subsection \<open>The table\<close>

text \<open>
  A composite literal of the table names the fields it sets; the others are zero. The
  rules are listed in the order of the source, twenty to a definition.
\<close>

definition handler0 :: handler where
  "handler0 =
     \<lparr> Field = [], Pattern = None, ValidateMatch = None, Transform = None,
       Process = None, Remove = False, KeepMatching = False, SkipIfFirst = False,
       SkipIfBefore = [], SkipFromTitle = False, MatchGroup = 0, ValueGroup = 0 \<rparr>"

text \<open>Rules 1 to 20 of the table (lines 287 to 430).\<close>

definition handlers_001 :: "go_env \<Rightarrow> handler list" where
  "handlers_001 env =
     [handler0\<lparr>Field := ''title'',
        Pattern := Some (FindStringSubmatchIndex (regexp_at env 289)), Remove := True\<rparr>,
      handler0\<lparr>Field := ''title'',
        Pattern := Some (FindStringSubmatchIndex (regexp_at env 294)), Remove := True\<rparr>,
      handler0\<lparr>Field := ''ppv'',
        Pattern := Some (FindStringSubmatchIndex (regexp_at env 302)), Remove := True,
        SkipFromTitle := True\<rparr>,
      handler0\<lparr>Field := ''ppv'',
        Pattern := Some (FindStringSubmatchIndex (regexp_at env 308)), SkipFromTitle := True\<rparr>,
      handler0\<lparr>Field := ''site'',
        Pattern := Some (FindStringSubmatchIndex (regexp_at env 317)), KeepMatching := True,
        SkipFromTitle := True, Remove := True\<rparr>,
      handler0\<lparr>Field := ''site'',
        Pattern := Some (FindStringSubmatchIndex (regexp_at env 324)), KeepMatching := True\<rparr>,
      handler0\<lparr>Field := ''site'',
        Pattern := Some (FindStringSubmatchIndex (regexp_at env 329)), Remove := True,
        SkipFromTitle := True\<rparr>,
      handler0\<lparr>Field := ''episodeCode'',
        Pattern := Some (FindStringSubmatchIndex (regexp_at env 338)),
        Transform := Some (to_uppercase env), Remove := True, MatchGroup := 1, ValueGroup := 2\<rparr>,
      handler0\<lparr>Field := ''episodeCode'',
        Pattern := Some (FindStringSubmatchIndex (regexp_at env 346)),
        ValidateMatch := Some (validate_match (regexp_at env 347)),
        Transform := Some (to_uppercase env), Remove := True\<rparr>,
      handler0\<lparr>Field := ''resolution'',
        Pattern := Some (FindStringSubmatchIndex (regexp_at env 355)),
        Transform := Some (to_lowercase env), Remove := True, MatchGroup := 1\<rparr>,
      handler0\<lparr>Field := ''resolution'',
        Pattern := Some (FindStringSubmatchIndex (regexp_at env 370)),
        Transform := Some (to_value ''4k''), Remove := True\<rparr>,
      handler0\<lparr>Field := ''resolution'',
        Pattern := Some (FindStringSubmatchIndex (regexp_at env 376)),
        Transform := Some (to_value ''4k''), Remove := True, KeepMatching := True\<rparr>,
      handler0\<lparr>Field := ''resolution'',
        Pattern := Some (FindStringSubmatchIndex (regexp_at env 383)),
        Transform := Some (to_value ''4k''), Remove := True\<rparr>,
      handler0\<lparr>Field := ''resolution'',
        Pattern := Some (FindStringSubmatchIndex (regexp_at env 389)),
        Transform := Some (to_value ''1080p''), Remove := True\<rparr>,
      handler0\<lparr>Field := ''resolution'',
        Pattern := Some (FindStringSubmatchIndex (regexp_at env 395)),
        Transform := Some (to_value ''720p''), Remove := True\<rparr>,
      handler0\<lparr>Field := ''resolution'',
        Pattern := Some (FindStringSubmatchIndex (regexp_at env 401)),
        Transform := Some (to_with_suffix ''p''), Remove := True\<rparr>,
      handler0\<lparr>Field := ''resolution'',
        Pattern := Some (FindStringSubmatchIndex (regexp_at env 407)),
        Transform := Some (to_with_suffix ''p''), Remove := True\<rparr>,
      handler0\<lparr>Field := ''resolution'',
        Pattern := Some (FindStringSubmatchIndex (regexp_at env 413)),
        Transform := Some (to_with_suffix ''p''), Remove := True\<rparr>,
      handler0\<lparr>Field := ''resolution'',
        Pattern := Some (FindStringSubmatchIndex (regexp_at env 421)),
        Transform := Some (to_with_suffix ''p''), Remove := True\<rparr>,
      handler0\<lparr>Field := ''resolution'',
        Pattern := Some (FindStringSubmatchIndex (regexp_at env 427)),
        Transform := Some (to_with_suffix ''p''), Remove := True\<rparr>]"

text \<open>Rules 21 to 40 of the table (lines 440 to 648).\<close>

definition handlers_021 :: "go_env \<Rightarrow> handler list" where
  "handlers_021 env =
     [handler0\<lparr>Field := ''date'',
        Pattern := Some (FindStringSubmatchIndex (regexp_at env 442)),
        ValidateMatch := Some (validate_matched_groups_are_same [3, 4]),
        Transform := Some (to_date env ''2006 01 02''), Remove := True, ValueGroup := 2,
        MatchGroup := 1\<rparr>,
      handler0\<lparr>Field := ''date'',
        Pattern := Some (FindStringSubmatchIndex (regexp_at env 451)),
        ValidateMatch := Some (validate_matched_groups_are_same [2, 3]),
        Transform := Some (to_date env ''02 01 2006''), Remove := True\<rparr>,
      handler0\<lparr>Field := ''date'',
        Pattern := Some (FindStringSubmatchIndex (regexp_at env 458)),
        ValidateMatch := Some (validate_matched_groups_are_same [2, 3]),
        Transform := Some (to_date env ''01 02 2006''), Remove := True\<rparr>,
      handler0\<lparr>Field := ''date'',
        Pattern := Some (FindStringSubmatchIndex (regexp_at env 465)),
        ValidateMatch := Some (validate_matched_groups_are_same [2, 3]),
        Transform := Some (to_date env ''01 02 06''), Remove := True\<rparr>,
      handler0\<lparr>Field := ''date'',
        Pattern := Some (FindStringSubmatchIndex (regexp_at env 472)),
        ValidateMatch := Some (validate_matched_groups_are_same [2, 3]),
        Transform := Some (to_date env ''02 01 06''), MatchGroup := 1, Remove := True\<rparr>,
      handler0\<lparr>Field := ''date'',
        Pattern := Some (FindStringSubmatchIndex (regexp_at env 480)),
        ValidateMatch := Some (validate_matched_groups_are_same [2, 3]),
        Transform := Some (clean_date_transform env ''_2 Jan 2006''), Remove := True\<rparr>,
      handler0\<lparr>Field := ''date'',
        Pattern := Some (FindStringSubmatchIndex (regexp_at env 496)),
        ValidateMatch := Some (validate_matched_groups_are_same [2, 3]),
        Transform := Some (clean_date_transform env ''_2 Jan 06''), Remove := True\<rparr>,
      handler0\<lparr>Field := ''date'',
        Pattern := Some (FindStringSubmatchIndex (regexp_at env 512)),
        Transform := Some (to_date env ''20060102''), Remove := True\<rparr>,
      handler0\<lparr>Field := ''year'',
        Pattern := Some (FindStringSubmatchIndex (regexp_at env 521)),
        Transform := Some year_range_transform, MatchGroup := 1, ValueGroup := 2,
        Remove := True\<rparr>,
      handler0\<lparr>Field := ''year'',
        Pattern := Some (FindStringSubmatchIndex (regexp_at env 539)),
        Transform := Some year_range_transform, Remove := True\<rparr>,
      handler0\<lparr>Field := ''year'',
        Pattern := Some (FindStringSubmatchIndex (regexp_at env 556)),
        ValidateMatch := Some (validate_year_not_followed env), Transform := Some to_year,
        Remove := True\<rparr>,
      handler0\<lparr>Field := ''year'',
        Pattern := Some (FindStringSubmatchIndex (regexp_at env 570)),
        ValidateMatch := Some validate_year_inside, Transform := Some to_year,
        Remove := True, MatchGroup := 1\<rparr>,
      handler0\<lparr>Field := ''year'',
        Pattern := Some (FindStringSubmatchIndex (regexp_at env 583)),
        ValidateMatch := Some validate_year_at_start, Transform := Some to_year,
        Remove := True\<rparr>,
      handler0\<lparr>Field := ''extended'',
        Pattern := Some (FindStringSubmatchIndex (regexp_at env 599)),
        Transform := Some to_boolean\<rparr>,
      handler0\<lparr>Field := ''extended'',
        Pattern := Some (FindStringSubmatchIndex (regexp_at env 604)),
        Transform := Some to_boolean\<rparr>,
      handler0\<lparr>Field := ''edition'',
        Pattern := Some (FindStringSubmatchIndex (regexp_at env 621)),
        Transform := Some (to_value ''Anniversary Edition''), Remove := True\<rparr>,
      handler0\<lparr>Field := ''edition'',
        Pattern := Some (FindStringSubmatchIndex (regexp_at env 627)),
        Transform := Some (to_value ''Ultimate Edition''), Remove := True\<rparr>,
      handler0\<lparr>Field := ''edition'',
        Pattern := Some (FindStringSubmatchIndex (regexp_at env 633)),
        Transform := Some (to_value ''Director's Cut''), Remove := True\<rparr>,
      handler0\<lparr>Field := ''edition'',
        Pattern := Some (FindStringSubmatchIndex (regexp_at env 639)),
        Transform := Some (to_value ''Extended Edition''), Remove := True\<rparr>,
      handler0\<lparr>Field := ''edition'',
        Pattern := Some (FindStringSubmatchIndex (regexp_at env 645)),
        Transform := Some (to_value ''Director's Cut''), Remove := True\<rparr>]"

text \<open>Rules 41 to 60 of the table (lines 649 to 804).\<close>

definition handlers_041 :: "go_env \<Rightarrow> handler list" where
  "handlers_041 env =
     [handler0\<lparr>Field := ''edition'',
        Pattern := Some (FindStringSubmatchIndex (regexp_at env 651)),
        Transform := Some (to_value ''Collector's Edition''), Remove := True\<rparr>,
      handler0\<lparr>Field := ''edition'',
        Pattern := Some (FindStringSubmatchIndex (regexp_at env 657)),
        Transform := Some (to_value ''Theatrical''), Remove := True\<rparr>,
      handler0\<lparr>Field := ''edition'',
        Pattern := Some (FindStringSubmatchIndex (regexp_at env 663)),
        ValidateMatch := Some (validate_not_match (regexp_at env 664)),
        Transform := Some (to_value ''Uncut''), Remove := True\<rparr>,
      handler0\<lparr>Field := ''edition'',
        Pattern := Some (FindStringSubmatchIndex (regexp_at env 670)),
        Transform := Some (to_value ''IMAX''), Remove := True, SkipFromTitle := True\<rparr>,
      handler0\<lparr>Field := ''edition'',
        Pattern := Some (FindStringSubmatchIndex (regexp_at env 677)),
        Transform := Some (to_value ''Diamond Edition''), Remove := True\<rparr>,
      handler0\<lparr>Field := ''edition'',
        Pattern := Some (FindStringSubmatchIndex (regexp_at env 683)),
        Transform := Some (to_value ''Remastered''), KeepMatching := True, Remove := True\<rparr>,
      handler0\<lparr>Field := ''edition'', Process := Some edition_processor\<rparr>,
      handler0\<lparr>Field := ''releaseTypes'',
        Pattern := Some (FindStringSubmatchIndex (regexp_at env 703)),
        Transform := Some (to_value_set_multi_with_transform (upper_values env)), Remove := True,
        MatchGroup := 1\<rparr>,
      handler0\<lparr>Field := ''releaseTypes'',
        Pattern := Some (FindStringSubmatchIndex (regexp_at env 716)),
        Transform := Some (to_value_set_with_transform (upper_value env)), Remove := True,
        MatchGroup := 1\<rparr>,
      handler0\<lparr>Field := ''upscaled'',
        Pattern := Some (FindStringSubmatchIndex (regexp_at env 729)),
        Transform := Some to_boolean\<rparr>,
      handler0\<lparr>Field := ''upscaled'',
        Pattern := Some (FindStringSubmatchIndex (regexp_at env 734)),
        Transform := Some to_boolean\<rparr>,
      handler0\<lparr>Field := ''upscaled'',
        Pattern := Some (FindStringSubmatchIndex (regexp_at env 739)),
        Transform := Some to_boolean\<rparr>,
      handler0\<lparr>Field := ''convert'',
        Pattern := Some (FindStringSubmatchIndex (regexp_at env 746)),
        Transform := Some to_boolean, Remove := True\<rparr>,
      handler0\<lparr>Field := ''hardcoded'',
        Pattern := Some (FindStringSubmatchIndex (regexp_at env 754)),
        Transform := Some to_boolean, Remove := True\<rparr>,
      handler0\<lparr>Field := ''proper'',
        Pattern := Some (FindStringSubmatchIndex (regexp_at env 762)),
        Transform := Some to_boolean, Remove := True\<rparr>,
      handler0\<lparr>Field := ''repack'',
        Pattern := Some (FindStringSubmatchIndex (regexp_at env 770)),
        Transform := Some to_boolean, Remove := True\<rparr>,
      handler0\<lparr>Field := ''retail'',
        Pattern := Some (FindStringSubmatchIndex (regexp_at env 778)),
        Transform := Some to_boolean\<rparr>,
      handler0\<lparr>Field := ''documentary'',
        Pattern := Some (FindStringSubmatchIndex (regexp_at env 785)),
        Transform := Some to_boolean, SkipFromTitle := True\<rparr>,
      handler0\<lparr>Field := ''unrated'',
        Pattern := Some (FindStringSubmatchIndex (regexp_at env 793)),
        Transform := Some to_boolean, Remove := True\<rparr>,
      handler0\<lparr>Field := ''uncensored'',
        Pattern := Some (FindStringSubmatchIndex (regexp_at env 801)),
        Transform := Some to_boolean, Remove := True\<rparr>]"

text \<open>Rules 61 to 80 of the table (lines 807 to 966).\<close>

definition handlers_061 :: "go_env \<Rightarrow> handler list" where
  "handlers_061 env =
     [handler0\<lparr>Field := ''commentary'',
        Pattern := Some (FindStringSubmatchIndex (regexp_at env 809)),
        Transform := Some to_boolean, Remove := True\<rparr>,
      handler0\<lparr>Field := ''region'',
        Pattern := Some (FindStringSubmatchIndex (regexp_at env 818)), Remove := True,
        SkipIfFirst := True\<rparr>,
      handler0\<lparr>Field := ''region'',
        Pattern := Some (FindStringSubmatchIndex (regexp_at env 824)),
        Transform := Some (to_uppercase env), Remove := True\<rparr>,
      handler0\<lparr>Field := ''quality'',
        Pattern := Some (FindStringSubmatchIndex (regexp_at env 835)),
        Transform := Some (to_value ''CAM''), Remove := True\<rparr>,
      handler0\<lparr>Field := ''quality'',
        Pattern := Some (FindStringSubmatchIndex (regexp_at env 841)),
        Transform := Some (to_value ''CAM''), Remove := True\<rparr>,
      handler0\<lparr>Field := ''quality'',
        Pattern := Some (FindStringSubmatchIndex (regexp_at env 847)),
        Transform := Some (to_value ''TeleSync''), Remove := True\<rparr>,
      handler0\<lparr>Field := ''quality'',
        Pattern := Some (FindStringSubmatchIndex (regexp_at env 853)),
        Transform := Some (to_value ''TeleCine''), Remove := True\<rparr>,
      handler0\<lparr>Field := ''quality'',
        Pattern := Some (FindStringSubmatchIndex (regexp_at env 861)),
        Transform := Some (to_value ''SCR''), Remove := True\<rparr>,
      handler0\<lparr>Field := ''quality'',
        Pattern := Some (FindStringSubmatchIndex (regexp_at env 867)),
        Transform := Some (to_value ''SCR''), Remove := True\<rparr>,
      handler0\<lparr>Field := ''quality'',
        Pattern := Some (FindStringSubmatchIndex (regexp_at env 888)),
        Transform := Some (to_value ''BluRay REMUX''), Remove := True, MatchGroup := 1\<rparr>,
      handler0\<lparr>Field := ''quality'',
        Pattern := Some (FindStringSubmatchIndex (regexp_at env 897)),
        Transform := Some (to_value ''BluRay REMUX''), Remove := True\<rparr>,
      handler0\<lparr>Field := ''quality'',
        Pattern := Some (FindStringSubmatchIndex (regexp_at env 903)),
        Transform := Some (to_value ''BluRay REMUX''), Remove := True\<rparr>,
      handler0\<lparr>Field := ''quality'',
        Pattern := Some (FindStringSubmatchIndex (regexp_at env 910)),
        Transform := Some (to_value ''REMUX''), Remove := True\<rparr>,
      handler0\<lparr>Field := ''quality'',
        Pattern := Some (FindStringSubmatchIndex (regexp_at env 924)),
        ValidateMatch := Some (validate_not_rip env), Transform := Some (to_value ''BluRay''),
        Remove := True\<rparr>,
      handler0\<lparr>Field := ''quality'',
        Pattern := Some (FindStringSubmatchIndex (regexp_at env 933)),
        Transform := Some (to_value ''UHDRip''), Remove := True\<rparr>,
      handler0\<lparr>Field := ''quality'',
        Pattern := Some (FindStringSubmatchIndex (regexp_at env 939)),
        Transform := Some (to_value ''HDRip''), Remove := True\<rparr>,
      handler0\<lparr>Field := ''quality'',
        Pattern := Some (FindStringSubmatchIndex (regexp_at env 945)),
        Transform := Some (to_value ''HDRip''), Remove := True\<rparr>,
      handler0\<lparr>Field := ''quality'',
        Pattern := Some (FindStringSubmatchIndex (regexp_at env 951)),
        Transform := Some (to_value ''BRRip''), Remove := True\<rparr>,
      handler0\<lparr>Field := ''quality'',
        Pattern := Some (FindStringSubmatchIndex (regexp_at env 957)),
        Transform := Some (to_value ''BDRip''), Remove := True\<rparr>,
      handler0\<lparr>Field := ''quality'',
        Pattern := Some (FindStringSubmatchIndex (regexp_at env 963)),
        Transform := Some (to_value ''DVDRip''), Remove := True\<rparr>]"

text \<open>Rules 81 to 100 of the table (lines 967 to 1141).\<close>

definition handlers_081 :: "go_env \<Rightarrow> handler list" where
  "handlers_081 env =
     [handler0\<lparr>Field := ''quality'',
        Pattern := Some (FindStringSubmatchIndex (regexp_at env 969)),
        Transform := Some (to_value ''DVDRip''), Remove := True\<rparr>,
      handler0\<lparr>Field := ''quality'',
        Pattern := Some (FindStringSubmatchIndex (regexp_at env 978)),
        Transform := Some (to_value ''DVD''), Remove := True\<rparr>,
      handler0\<lparr>Field := ''quality'',
        Pattern := Some (FindStringSubmatchIndex (regexp_at env 984)),
        Transform := Some (to_value ''DVD''), Remove := True, SkipIfFirst := True\<rparr>,
      handler0\<lparr>Field := ''quality'',
        Pattern := Some (FindStringSubmatchIndex (regexp_at env 991)),
        Transform := Some (to_value ''PPVRip''), Remove := True\<rparr>,
      handler0\<lparr>Field := ''quality'',
        Pattern := Some (FindStringSubmatchIndex (regexp_at env 998)),
        Transform := Some (to_value ''HDTVRip''), Remove := True\<rparr>,
      handler0\<lparr>Field := ''quality'',
        Pattern := Some (FindStringSubmatchIndex (regexp_at env 1015)),
        Transform := Some (to_value ''HDTV''), Remove := True\<rparr>,
      handler0\<lparr>Field := ''quality'',
        Pattern := Some (FindStringSubmatchIndex (regexp_at env 1021)),
        Transform := Some (to_value ''SATRip''), Remove := True\<rparr>,
      handler0\<lparr>Field := ''quality'',
        Pattern := Some (FindStringSubmatchIndex (regexp_at env 1027)),
        Transform := Some (to_value ''TVRip''), Remove := True\<rparr>,
      handler0\<lparr>Field := ''quality'',
        Pattern := Some (FindStringSubmatchIndex (regexp_at env 1033)),
        Transform := Some (to_value ''R5''), Remove := True\<rparr>,
      handler0\<lparr>Field := ''quality'',
        Pattern := Some (FindStringSubmatchIndex (regexp_at env 1043)),
        Transform := Some (to_value ''WEBRip''), Remove := True\<rparr>,
      handler0\<lparr>Field := ''quality'',
        Pattern := Some (FindStringSubmatchIndex (regexp_at env 1049)),
        Transform := Some (to_value ''WEB-DLRip''), Remove := True\<rparr>,
      handler0\<lparr>Field := ''quality'',
        Pattern := Some (FindStringSubmatchIndex (regexp_at env 1055)),
        Transform := Some (to_value ''WEB-DL''), Remove := True\<rparr>,
      handler0\<lparr>Field := ''quality'',
        Pattern := Some (FindStringSubmatchIndex (regexp_at env 1084)), Remove := True\<rparr>,
      handler0\<lparr>Field := ''quality'',
        Pattern := Some (FindStringSubmatchIndex (regexp_at env 1090))\<rparr>,
      handler0\<lparr>Field := ''quality'',
        Pattern := Some (FindStringSubmatchIndex (regexp_at env 1096)),
        ValidateMatch := Some (validate_not_match (regexp_at env 1097)),
        Transform := Some (to_value ''WEB''), Remove := True, SkipFromTitle := True\<rparr>,
      handler0\<lparr>Field := ''quality'',
        Pattern := Some (FindStringSubmatchIndex (regexp_at env 1106)),
        Transform := Some (to_value ''PDTV''), Remove := True\<rparr>,
      handler0\<lparr>Field := ''quality'',
        Pattern := Some (FindStringSubmatchIndex (regexp_at env 1112)),
        Transform := Some (to_value ''HDTV''), Remove := True\<rparr>,
      handler0\<lparr>Field := ''bitDepth'',
        Pattern := Some (FindStringSubmatchIndex (regexp_at env 1120)),
        Transform := Some (to_lowercase env), Remove := True\<rparr>,
      handler0\<lparr>Field := ''bitDepth'',
        Pattern := Some (FindStringSubmatchIndex (regexp_at env 1134)),
        Transform := Some (to_value ''10bit'')\<rparr>,
      handler0\<lparr>Field := ''bitDepth'',
        Pattern := Some (FindStringSubmatchIndex (regexp_at env 1139)),
        Transform := Some (to_value ''10bit'')\<rparr>]"

text \<open>Rules 101 to 120 of the table (lines 1142 to 1283).\<close>

definition handlers_101 :: "go_env \<Rightarrow> handler list" where
  "handlers_101 env =
     [handler0\<lparr>Field := ''bitDepth'',
        Pattern := Some (FindStringSubmatchIndex (regexp_at env 1144)),
        Transform := Some (to_value ''10bit'')\<rparr>,
      handler0\<lparr>Field := ''bitDepth'',
        Process := Some (remove_from_value (regexp_at env 1149))\<rparr>,
      handler0\<lparr>Field := ''hdr'',
        Pattern := Some (FindStringSubmatchIndex (regexp_at env 1157)),
        Transform := Some (to_value_set (VStr ''DV'')), Remove := True, KeepMatching := True\<rparr>,
      handler0\<lparr>Field := ''hdr'',
        Pattern := Some (FindStringSubmatchIndex (regexp_at env 1164)),
        Transform := Some (to_value_set (VStr ''HDR10+'')), Remove := True, KeepMatching := True\<rparr>,
      handler0\<lparr>Field := ''hdr'',
        Pattern := Some (FindStringSubmatchIndex (regexp_at env 1171)),
        Transform := Some (to_value_set (VStr ''HDR'')), Remove := True, KeepMatching := True\<rparr>,
      handler0\<lparr>Field := ''hdr'',
        Pattern := Some (FindStringSubmatchIndex (regexp_at env 1179)),
        Transform := Some (to_value_set (VStr ''SDR'')), Remove := True, KeepMatching := True\<rparr>,
      handler0\<lparr>Field := ''threeD'',
        Pattern := Some (FindStringSubmatchIndex (regexp_at env 1196)),
        Transform := Some (to_value ''3D HSBS'')\<rparr>,
      handler0\<lparr>Field := ''threeD'',
        Pattern := Some (FindStringSubmatchIndex (regexp_at env 1201)),
        Transform := Some (to_value ''3D HSBS'')\<rparr>,
      handler0\<lparr>Field := ''threeD'',
        Pattern := Some (FindStringSubmatchIndex (regexp_at env 1206)),
        Transform := Some (to_value ''3D SBS'')\<rparr>,
      handler0\<lparr>Field := ''threeD'',
        Pattern := Some (FindStringSubmatchIndex (regexp_at env 1211)),
        Transform := Some (to_value ''3D SBS'')\<rparr>,
      handler0\<lparr>Field := ''threeD'',
        Pattern := Some (FindStringSubmatchIndex (regexp_at env 1216)),
        Transform := Some (to_value ''3D HOU'')\<rparr>,
      handler0\<lparr>Field := ''threeD'',
        Pattern := Some (FindStringSubmatchIndex (regexp_at env 1221)),
        Transform := Some (to_value ''3D HOU'')\<rparr>,
      handler0\<lparr>Field := ''threeD'',
        Pattern := Some (FindStringSubmatchIndex (regexp_at env 1226)),
        Transform := Some (to_value ''3D OU'')\<rparr>,
      handler0\<lparr>Field := ''threeD'',
        Pattern := Some (FindStringSubmatchIndex (regexp_at env 1231)),
        Transform := Some (to_value ''3D OU'')\<rparr>,
      handler0\<lparr>Field := ''threeD'',
        Pattern := Some (FindStringSubmatchIndex (regexp_at env 1236)),
        Transform := Some (to_value ''3D''), SkipIfFirst := True\<rparr>,
      handler0\<lparr>Field := ''codec'',
        Pattern := Some (FindStringSubmatchIndex (regexp_at env 1251)),
        Transform := Some (to_lowercase env), Remove := True\<rparr>,
      handler0\<lparr>Field := ''codec'',
        Pattern := Some (FindStringSubmatchIndex (regexp_at env 1257)),
        Transform := Some (to_value ''hevc''), Remove := True, KeepMatching := True\<rparr>,
      handler0\<lparr>Field := ''codec'',
        Pattern := Some (FindStringSubmatchIndex (regexp_at env 1264)),
        Transform := Some (to_lowercase env), Remove := True, KeepMatching := True\<rparr>,
      handler0\<lparr>Field := ''codec'',
        Process := Some (remove_from_value (regexp_at env 1271))\<rparr>,
      handler0\<lparr>Field := ''channels'',
        Pattern := Some (FindStringSubmatchIndex (regexp_at env 1279)),
        Transform := Some (to_value_set (VStr ''5.1'')), KeepMatching := True, Remove := True\<rparr>]"

text \<open>Rules 121 to 140 of the table (lines 1284 to 1521).\<close>

definition handlers_121 :: "go_env \<Rightarrow> handler list" where
  "handlers_121 env =
     [handler0\<lparr>Field := ''channels'',
        Pattern := Some (FindStringSubmatchIndex (regexp_at env 1286)),
        Transform := Some (to_value_set (VStr ''5.1'')), KeepMatching := True, Remove := True\<rparr>,
      handler0\<lparr>Field := ''channels'',
        Pattern := Some (FindStringSubmatchIndex (regexp_at env 1293)),
        Transform := Some (to_value_set (VStr ''7.1'')), KeepMatching := True, Remove := True\<rparr>,
      handler0\<lparr>Field := ''channels'',
        Pattern := Some (FindStringSubmatchIndex (regexp_at env 1301)),
        Transform := Some (to_value_set (VStr ''2.0'')), KeepMatching := True, Remove := True,
        MatchGroup := 1\<rparr>,
      handler0\<lparr>Field := ''channels'',
        Pattern := Some (FindStringSubmatchIndex (regexp_at env 1312)),
        Transform := Some (to_value_set (VStr ''2.0'')), KeepMatching := True, Remove := True\<rparr>,
      handler0\<lparr>Field := ''channels'',
        Pattern := Some (FindStringSubmatchIndex (regexp_at env 1319)),
        Transform := Some (to_value_set (VStr ''stereo'')), KeepMatching := True\<rparr>,
      handler0\<lparr>Field := ''channels'',
        Pattern := Some (FindStringSubmatchIndex (regexp_at env 1325)),
        Transform := Some (to_value_set (VStr ''mono'')), KeepMatching := True\<rparr>,
      handler0\<lparr>Field := ''audio'',
        Pattern := Some (FindStringSubmatchIndex (regexp_at env 1346)),
        ValidateMatch := Some (validate_not_match (regexp_at env 1347)),
        Transform := Some (to_value_set (VStr ''DTS Lossless'')), Remove := True,
        KeepMatching := True\<rparr>,
      handler0\<lparr>Field := ''audio'',
        Pattern := Some (FindStringSubmatchIndex (regexp_at env 1354)),
        ValidateMatch := Some (validate_not_match (regexp_at env 1355)),
        Transform := Some (to_value_set (VStr ''DTS Lossy'')), Remove := True,
        KeepMatching := True\<rparr>,
      handler0\<lparr>Field := ''audio'',
        Pattern := Some (FindStringSubmatchIndex (regexp_at env 1362)),
        Transform := Some (to_value_set (VStr ''Atmos'')), Remove := True, KeepMatching := True\<rparr>,
      handler0\<lparr>Field := ''audio'',
        Pattern := Some (FindStringSubmatchIndex (regexp_at env 1369)),
        Transform := Some (to_value_set (VStr ''TrueHD'')), KeepMatching := True, Remove := True,
        SkipFromTitle := True\<rparr>,
      handler0\<lparr>Field := ''audio'',
        Pattern := Some (FindStringSubmatchIndex (regexp_at env 1377)),
        Transform := Some (to_value_set (VStr ''TrueHD'')), KeepMatching := True, Remove := True,
        SkipFromTitle := True\<rparr>,
      handler0\<lparr>Field := ''audio'',
        Pattern := Some (FindStringSubmatchIndex (regexp_at env 1407)),
        Transform := Some (to_value_set (VStr ''FLAC'')), KeepMatching := True, Remove := True\<rparr>,
      handler0\<lparr>Field := ''audio'',
        Pattern := Some (FindStringSubmatchIndex (regexp_at env 1456)),
        Transform := Some (to_value_set (VStr ''DDP'')), KeepMatching := True, Remove := True\<rparr>,
      handler0\<lparr>Field := ''audio'',
        Pattern := Some (FindStringSubmatchIndex (regexp_at env 1463)),
        Transform := Some (to_value_set (VStr ''EAC3'')), KeepMatching := True, Remove := True\<rparr>,
      handler0\<lparr>Field := ''audio'',
        Pattern := Some (FindStringSubmatchIndex (regexp_at env 1470)),
        Transform := Some (to_value_set (VStr ''DD'')), KeepMatching := True, Remove := True\<rparr>,
      handler0\<lparr>Field := ''audio'',
        Pattern := Some (FindStringSubmatchIndex (regexp_at env 1477)),
        Transform := Some (to_value_set (VStr ''AC3'')), KeepMatching := True, Remove := True\<rparr>,
      handler0\<lparr>Field := ''audio'',
        Pattern := Some (FindStringSubmatchIndex (regexp_at env 1492)),
        Transform := Some (to_value_set (VStr ''AAC'')), KeepMatching := True, Remove := True\<rparr>,
      handler0\<lparr>Field := ''audio'',
        Pattern := Some (FindStringSubmatchIndex (regexp_at env 1500)),
        Transform := Some (to_value_set (VStr ''PCM'')), KeepMatching := True, Remove := True\<rparr>,
      handler0\<lparr>Field := ''audio'',
        Pattern := Some (FindStringSubmatchIndex (regexp_at env 1508)),
        ValidateMatch := Some (validate_not_match (regexp_at env 1509)),
        Transform := Some (to_value_set (VStr ''OPUS'')), KeepMatching := True, Remove := True\<rparr>,
      handler0\<lparr>Field := ''audio'',
        Pattern := Some (FindStringSubmatchIndex (regexp_at env 1517)),
        Transform := Some (to_value_set (VStr ''HQ'')), Remove := True, KeepMatching := True\<rparr>]"

text \<open>Rules 141 to 160 of the table (lines 1523 to 1702).\<close>

definition handlers_141 :: "go_env \<Rightarrow> handler list" where
  "handlers_141 env =
     [handler0\<lparr>Field := ''channels'',
        Pattern := Some (FindStringSubmatchIndex (regexp_at env 1525)),
        Transform := Some (to_value_set_with_transform (lower_value env)), Remove := True,
        KeepMatching := True\<rparr>,
      handler0\<lparr>Field := ''group'',
        Pattern := Some (FindStringSubmatchIndex (regexp_at env 1536)),
        ValidateMatch := Some (validate_not_match (regexp_at env 1537)), MatchGroup := 1,
        ValueGroup := 2\<rparr>,
      handler0\<lparr>Field := ''container'',
        Pattern := Some (FindStringSubmatchIndex (regexp_at env 1546)),
        Transform := Some (to_lowercase env)\<rparr>,
      handler0\<lparr>Field := ''volumes'',
        Pattern := Some (FindStringSubmatchIndex (regexp_at env 1553)),
        Transform := Some to_int_range, Remove := True\<rparr>,
      handler0\<lparr>Field := ''volumes'', Process := Some (volumes_processor env)\<rparr>,
      handler0\<lparr>Field := ''country'',
        Pattern := Some (FindStringSubmatchIndex (regexp_at env 1596))\<rparr>,
      handler0\<lparr>Field := ''languages'',
        Pattern := Some (FindStringSubmatchIndex (regexp_at env 1602)),
        Transform := Some (to_value_set (VStr ''es'')), KeepMatching := True\<rparr>,
      handler0\<lparr>Field := ''complete'',
        Pattern := Some (FindStringSubmatchIndex (regexp_at env 1610)),
        Transform := Some to_boolean, KeepMatching := True, Remove := True\<rparr>,
      handler0\<lparr>Field := ''complete'',
        Pattern := Some (FindStringSubmatchIndex (regexp_at env 1623)),
        Transform := Some to_boolean\<rparr>,
      handler0\<lparr>Field := ''complete'',
        Pattern := Some (FindStringSubmatchIndex (regexp_at env 1628)),
        Transform := Some to_boolean\<rparr>,
      handler0\<lparr>Field := ''complete'',
        Pattern := Some (FindStringSubmatchIndex (regexp_at env 1633)),
        Transform := Some to_boolean\<rparr>,
      handler0\<lparr>Field := ''complete'',
        Pattern := Some (FindStringSubmatchIndex (regexp_at env 1638)),
        Transform := Some to_boolean\<rparr>,
      handler0\<lparr>Field := ''complete'',
        Pattern := Some (FindStringSubmatchIndex (regexp_at env 1643)),
        Transform := Some to_boolean, KeepMatching := True\<rparr>,
      handler0\<lparr>Field := ''complete'',
        Pattern := Some (FindStringSubmatchIndex (regexp_at env 1649)),
        Transform := Some to_boolean\<rparr>,
      handler0\<lparr>Field := ''complete'',
        Pattern := Some (FindStringSubmatchIndex (regexp_at env 1655)),
        Transform := Some to_boolean, Remove := True\<rparr>,
      handler0\<lparr>Field := ''complete'',
        Pattern := Some (FindStringSubmatchIndex (regexp_at env 1670)),
        Transform := Some to_boolean, Remove := True\<rparr>,
      handler0\<lparr>Field := ''complete'',
        Pattern := Some (FindStringSubmatchIndex (regexp_at env 1679)),
        Transform := Some to_boolean, KeepMatching := True\<rparr>,
      handler0\<lparr>Field := ''complete'',
        Pattern := Some (FindStringSubmatchIndex (regexp_at env 1685)),
        Transform := Some to_boolean, Remove := True\<rparr>,
      handler0\<lparr>Field := ''complete'',
        Pattern := Some (FindStringSubmatchIndex (regexp_at env 1691)),
        Transform := Some to_boolean, KeepMatching := True, SkipFromTitle := True\<rparr>,
      handler0\<lparr>Field := ''complete'',
        Pattern := Some (FindStringSubmatchIndex (regexp_at env 1699)),
        Transform := Some to_boolean, Remove := True\<rparr>]"

text \<open>Rules 161 to 180 of the table (lines 1704 to 1849).\<close>

definition handlers_161 :: "go_env \<Rightarrow> handler list" where
  "handlers_161 env =
     [handler0\<lparr>Field := ''complete'',
        Pattern := Some (FindStringSubmatchIndex (regexp_at env 1706)),
        ValidateMatch := Some (validate_not_match (regexp_at env 1707)),
        Transform := Some to_boolean, Remove := True\<rparr>,
      handler0\<lparr>Field := ''complete'',
        Pattern := Some (FindStringSubmatchIndex (regexp_at env 1714)),
        Transform := Some to_boolean, Remove := True\<rparr>,
      handler0\<lparr>Field := ''seasons'',
        Pattern := Some (FindStringSubmatchIndex (regexp_at env 1724)),
        Transform := Some to_int_range, Remove := True\<rparr>,
      handler0\<lparr>Field := ''seasons'',
        Pattern := Some (FindStringSubmatchIndex (regexp_at env 1730)),
        Transform := Some to_int_range, Remove := True\<rparr>,
      handler0\<lparr>Field := ''seasons'',
        Pattern := Some (FindStringSubmatchIndex (regexp_at env 1736)),
        Transform := Some to_int_range, Remove := True\<rparr>,
      handler0\<lparr>Field := ''seasons'',
        Pattern := Some (FindStringSubmatchIndex (regexp_at env 1743)),
        Transform := Some to_int_range, Remove := True\<rparr>,
      handler0\<lparr>Field := ''seasons'',
        Pattern := Some (FindStringSubmatchIndex (regexp_at env 1753)),
        Transform := Some to_int_range\<rparr>,
      handler0\<lparr>Field := ''seasons'',
        Pattern := Some (FindStringSubmatchIndex (regexp_at env 1759)),
        Transform := Some to_int_range, Remove := True\<rparr>,
      handler0\<lparr>Field := ''seasons'',
        Pattern := Some (FindStringSubmatchIndex (regexp_at env 1765)),
        ValidateMatch := Some (validate_not_match (regexp_at env 1766)),
        Transform := Some to_int_range, Remove := True\<rparr>,
      handler0\<lparr>Field := ''seasons'',
        Pattern := Some (FindStringSubmatchIndex (regexp_at env 1772)),
        Transform := Some to_int_range, Remove := True\<rparr>,
      handler0\<lparr>Field := ''seasons'',
        Pattern := Some (FindStringSubmatchIndex (regexp_at env 1779)),
        Transform := Some to_int_range\<rparr>,
      handler0\<lparr>Field := ''seasons'',
        Pattern := Some (FindStringSubmatchIndex (regexp_at env 1801)),
        Transform := Some to_int_array, Remove := True\<rparr>,
      handler0\<lparr>Field := ''seasons'',
        Pattern := Some (FindStringSubmatchIndex (regexp_at env 1807)),
        Transform := Some to_int_array\<rparr>,
      handler0\<lparr>Field := ''seasons'',
        Pattern := Some (FindStringSubmatchIndex (regexp_at env 1812)),
        ValidateMatch := Some (validate_not_match (regexp_at env 1813)),
        Transform := Some to_int_array, Remove := True\<rparr>,
      handler0\<lparr>Field := ''seasons'',
        Pattern := Some (FindStringSubmatchIndex (regexp_at env 1819)),
        Transform := Some to_int_array, Remove := True\<rparr>,
      handler0\<lparr>Field := ''seasons'',
        Pattern := Some (FindStringSubmatchIndex (regexp_at env 1825)),
        Transform := Some to_int_array, Remove := True\<rparr>,
      handler0\<lparr>Field := ''seasons'',
        Pattern := Some (FindStringSubmatchIndex (regexp_at env 1831)),
        Transform := Some to_int_array, KeepMatching := True\<rparr>,
      handler0\<lparr>Field := ''seasons'',
        Pattern := Some (FindStringSubmatchIndex (regexp_at env 1837)),
        Transform := Some to_int_array\<rparr>,
      handler0\<lparr>Field := ''seasons'',
        Pattern := Some (FindStringSubmatchIndex (regexp_at env 1842)),
        Transform := Some to_int_array\<rparr>,
      handler0\<lparr>Field := ''seasons'',
        Pattern := Some (FindStringSubmatchIndex (regexp_at env 1847)),
        Transform := Some to_int_array\<rparr>]"

text \<open>Rules 181 to 200 of the table (lines 1850 to 1975).\<close>

definition handlers_181 :: "go_env \<Rightarrow> handler list" where
  "handlers_181 env =
     [handler0\<lparr>Field := ''seasons'',
        Pattern := Some (FindStringSubmatchIndex (regexp_at env 1852)),
        Transform := Some to_int_array\<rparr>,
      handler0\<lparr>Field := ''seasons'',
        Pattern := Some (FindStringSubmatchIndex (regexp_at env 1857)),
        Transform := Some to_int_array\<rparr>,
      handler0\<lparr>Field := ''seasons'',
        Pattern := Some (FindStringSubmatchIndex (regexp_at env 1862)),
        Transform := Some to_int_array\<rparr>,
      handler0\<lparr>Field := ''seasons'',
        Pattern := Some (FindStringSubmatchIndex (regexp_at env 1867)),
        Transform := Some to_int_array, SkipIfBefore := [''year'', ''source'', ''resolution'']\<rparr>,
      handler0\<lparr>Field := ''seasons'',
        Pattern := Some (FindStringSubmatchIndex (regexp_at env 1873)),
        ValidateMatch := Some (validate_not_match (regexp_at env 1874)),
        Transform := Some to_int_array\<rparr>,
      handler0\<lparr>Field := ''seasons'',
        Pattern := Some (FindStringSubmatchIndex (regexp_at env 1879)),
        Transform := Some to_int_array\<rparr>,
      handler0\<lparr>Field := ''seasons'',
        Pattern := Some (FindStringSubmatchIndex (regexp_at env 1884)),
        ValidateMatch := Some (validate_not_match (regexp_at env 1885)),
        Transform := Some to_int_array\<rparr>,
      handler0\<lparr>Field := ''seasons'',
        Pattern := Some (FindStringSubmatchIndex (regexp_at env 1890)),
        Transform := Some to_int_array\<rparr>,
      handler0\<lparr>Field := ''seasons'',
        Pattern := Some (FindStringSubmatchIndex (regexp_at env 1896)),
        ValidateMatch := Some (validate_not_match (regexp_at env 1897)),
        Transform := Some to_int_array, KeepMatching := True\<rparr>,
      handler0\<lparr>Field := ''seasons'',
        Pattern := Some (FindStringSubmatchIndex (regexp_at env 1905)),
        Transform := Some to_int_range\<rparr>,
      handler0\<lparr>Field := ''seasons'',
        Pattern := Some (FindStringSubmatchIndex (regexp_at env 1910)),
        Transform := Some to_int_array\<rparr>,
      handler0\<lparr>Field := ''episodes'',
        Pattern := Some (FindStringSubmatchIndex (regexp_at env 1917)),
        Transform := Some to_int_range\<rparr>,
      handler0\<lparr>Field := ''episodes'',
        Pattern := Some (FindStringSubmatchIndex (regexp_at env 1927)),
        Transform := Some to_int_range\<rparr>,
      handler0\<lparr>Field := ''episodes'',
        Pattern := Some (FindStringSubmatchIndex (regexp_at env 1932)),
        Transform := Some to_int_range\<rparr>,
      handler0\<lparr>Field := ''episodes'',
        Pattern := Some (FindStringSubmatchIndex (regexp_at env 1937)),
        Transform := Some to_int_range\<rparr>,
      handler0\<lparr>Field := ''episodes'',
        Pattern := Some (FindStringSubmatchIndex (regexp_at env 1942)),
        Transform := Some to_int_range\<rparr>,
      handler0\<lparr>Field := ''episodes'',
        Pattern := Some (FindStringSubmatchIndex (regexp_at env 1947)),
        Transform := Some to_int_range\<rparr>,
      handler0\<lparr>Field := ''episodes'',
        Pattern := Some (FindStringSubmatchIndex (regexp_at env 1953)),
        Transform := Some to_int_range\<rparr>,
      handler0\<lparr>Field := ''episodes'',
        Pattern := Some (FindStringSubmatchIndex (regexp_at env 1960)), Remove := True,
        Transform := Some to_int_array\<rparr>,
      handler0\<lparr>Field := ''episodes'',
        Pattern := Some (FindStringSubmatchIndex (regexp_at env 1973)),
        Transform := Some to_int_array\<rparr>]"

text \<open>Rules 201 to 220 of the table (lines 1976 to 2099).\<close>

definition handlers_201 :: "go_env \<Rightarrow> handler list" where
  "handlers_201 env =
     [handler0\<lparr>Field := ''episodes'',
        Pattern := Some (FindStringSubmatchIndex (regexp_at env 1978)),
        Transform := Some to_int_array\<rparr>,
      handler0\<lparr>Field := ''episodes'',
        Pattern := Some (FindStringSubmatchIndex (regexp_at env 1983)),
        Transform := Some to_int_range\<rparr>,
      handler0\<lparr>Field := ''episodes'',
        Pattern := Some (FindStringSubmatchIndex (regexp_at env 1988)),
        ValidateMatch := Some (validate_not_match (regexp_at env 1989)),
        Transform := Some to_int_range\<rparr>,
      handler0\<lparr>Field := ''episodes'',
        Pattern := Some (FindStringSubmatchIndex (regexp_at env 1994)),
        Transform := Some to_int_range\<rparr>,
      handler0\<lparr>Field := ''episodes'',
        Pattern := Some (FindStringSubmatchIndex (regexp_at env 1999)),
        ValidateMatch := Some (validate_not_match (regexp_at env 2000)),
        Transform := Some to_int_array\<rparr>,
      handler0\<lparr>Field := ''episodes'',
        Pattern := Some (FindStringSubmatchIndex (regexp_at env 2005)),
        ValidateMatch := Some (validate_not_match (regexp_at env 2006)),
        Transform := Some to_int_array\<rparr>,
      handler0\<lparr>Field := ''episodes'',
        Pattern := Some (FindStringSubmatchIndex (regexp_at env 2012)),
        Transform := Some to_int_array, ValueGroup := 2, MatchGroup := 1\<rparr>,
      handler0\<lparr>Field := ''episodes'',
        Pattern := Some (FindStringSubmatchIndex (regexp_at env 2020)),
        ValidateMatch := Some (validate_not_match (regexp_at env 2021)),
        Transform := Some to_int_range\<rparr>,
      handler0\<lparr>Field := ''episodes'',
        Pattern := Some (FindStringSubmatchIndex (regexp_at env 2027)),
        ValidateMatch := Some (validate_not_match (regexp_at env 2028)),
        Transform := Some to_int_range\<rparr>,
      handler0\<lparr>Field := ''episodes'',
        Pattern := Some (FindStringSubmatchIndex (regexp_at env 2034)),
        Transform := Some to_int_array\<rparr>,
      handler0\<lparr>Field := ''episodes'',
        Pattern := Some (FindStringSubmatchIndex (regexp_at env 2040)),
        Transform := Some to_int_range, Remove := True\<rparr>,
      handler0\<lparr>Field := ''episodes'',
        Pattern := Some (FindStringSubmatchIndex (regexp_at env 2056)),
        Transform := Some to_int_array\<rparr>,
      handler0\<lparr>Field := ''episodes'',
        Pattern := Some (FindStringSubmatchIndex (regexp_at env 2061)),
        Transform := Some to_int_array\<rparr>,
      handler0\<lparr>Field := ''episodes'',
        Pattern := Some (FindStringSubmatchIndex (regexp_at env 2066)),
        Transform := Some to_int_array\<rparr>,
      handler0\<lparr>Field := ''episodes'',
        Pattern := Some (FindStringSubmatchIndex (regexp_at env 2071)),
        Transform := Some to_int_array\<rparr>,
      handler0\<lparr>Field := ''episodes'',
        Pattern := Some (FindStringSubmatchIndex (regexp_at env 2076)),
        Transform := Some to_int_array\<rparr>,
      handler0\<lparr>Field := ''episodes'',
        Pattern := Some (FindStringSubmatchIndex (regexp_at env 2081)),
        Transform := Some to_int_array\<rparr>,
      handler0\<lparr>Field := ''episodes'',
        Pattern := Some (FindStringSubmatchIndex (regexp_at env 2086)),
        SkipIfBefore := [''year'', ''source'', ''resolution''], Transform := Some to_int_array\<rparr>,
      handler0\<lparr>Field := ''episodes'',
        Pattern := Some (FindStringSubmatchIndex (regexp_at env 2092)),
        Transform := Some to_int_array\<rparr>,
      handler0\<lparr>Field := ''episodes'',
        Pattern := Some (FindStringSubmatchIndex (regexp_at env 2097)),
        Transform := Some to_int_array\<rparr>]"

text \<open>Rules 221 to 240 of the table (lines 2100 to 2340).\<close>

definition handlers_221 :: "go_env \<Rightarrow> handler list" where
  "handlers_221 env =
     [handler0\<lparr>Field := ''episodes'',
        Pattern := Some (FindStringSubmatchIndex (regexp_at env 2102)),
        ValidateMatch := Some (validate_and [validate_not_at_start, validate_not_at_end, validate_not_match (regexp_at env 2106)]),
        Transform := Some to_int_array\<rparr>,
      handler0\<lparr>Field := ''episodes'',
        Pattern := Some (FindStringSubmatchIndex (regexp_at env 2113)),
        Transform := Some to_int_array\<rparr>,
      handler0\<lparr>Field := ''episodes'',
        Pattern := Some (FindStringSubmatchIndex (regexp_at env 2119)),
        ValidateMatch := Some (validate_no_codec_before env), Transform := Some to_int_array,
        Remove := True\<rparr>,
      handler0\<lparr>Field := ''episodes'',
        Pattern := Some (FindStringSubmatchIndex (regexp_at env 2132)),
        Transform := Some to_int_array, Remove := True\<rparr>,
      handler0\<lparr>Field := ''episodes'',
        Pattern := Some (FindStringSubmatchIndex (regexp_at env 2139)),
        Transform := Some to_int_range, Remove := True\<rparr>,
      handler0\<lparr>Field := ''episodes'',
        Pattern := Some (FindStringSubmatchIndex (regexp_at env 2146)),
        Transform := Some to_int_range\<rparr>,
      handler0\<lparr>Field := ''episodes'', Process := Some (episodes_processor env)\<rparr>,
      handler0\<lparr>Field := ''subbed'',
        Pattern := Some (FindStringSubmatchIndex (regexp_at env 2248)),
        Transform := Some to_boolean\<rparr>,
      handler0\<lparr>Field := ''languages'',
        Pattern := Some (FindStringSubmatchIndex (regexp_at env 2255)),
        Transform := Some (to_value_set (VStr ''multi subs'')), KeepMatching := True,
        Remove := True\<rparr>,
      handler0\<lparr>Field := ''languages'',
        Pattern := Some (FindStringSubmatchIndex (regexp_at env 2264)),
        Transform := Some (to_value_set (VStr ''multi audio'')), KeepMatching := True\<rparr>,
      handler0\<lparr>Field := ''languages'',
        Pattern := Some (FindStringSubmatchIndex (regexp_at env 2270)),
        Transform := Some (to_value_set (VStr ''multi audio'')), KeepMatching := True\<rparr>,
      handler0\<lparr>Field := ''languages'',
        Pattern := Some (FindStringSubmatchIndex (regexp_at env 2278)),
        Transform := Some (to_value_set (VStr ''dual audio'')), KeepMatching := True\<rparr>,
      handler0\<lparr>Field := ''languages'',
        Pattern := Some (FindStringSubmatchIndex (regexp_at env 2284)),
        ValidateMatch := Some (validate_not_match (regexp_at env 2285)),
        Transform := Some (to_value_set (VStr ''dual audio'')), KeepMatching := True\<rparr>,
      handler0\<lparr>Field := ''languages'',
        Pattern := Some (FindStringSubmatchIndex (regexp_at env 2294)),
        Transform := Some (to_value_set (VStr ''en'')), KeepMatching := True\<rparr>,
      handler0\<lparr>Field := ''languages'',
        Pattern := Some (FindStringSubmatchIndex (regexp_at env 2300)),
        Transform := Some (to_value_set (VStr ''en'')), KeepMatching := True\<rparr>,
      handler0\<lparr>Field := ''languages'',
        Pattern := Some (FindStringSubmatchIndex (regexp_at env 2306)),
        Transform := Some (to_value_set (VStr ''en'')), KeepMatching := True\<rparr>,
      handler0\<lparr>Field := ''languages'',
        Pattern := Some (FindStringSubmatchIndex (regexp_at env 2313)),
        Transform := Some (to_value_set (VStr ''en'')), KeepMatching := True, Remove := True\<rparr>,
      handler0\<lparr>Field := ''languages'',
        Pattern := Some (FindStringSubmatchIndex (regexp_at env 2323)),
        Transform := Some (to_value_set (VStr ''en'')), KeepMatching := True\<rparr>,
      handler0\<lparr>Field := ''languages'',
        Pattern := Some (FindStringSubmatchIndex (regexp_at env 2329)),
        Transform := Some (to_value_set (VStr ''en'')), KeepMatching := True,
        SkipFromTitle := True\<rparr>,
      handler0\<lparr>Field := ''languages'',
        Pattern := Some (FindStringSubmatchIndex (regexp_at env 2336)),
        Transform := Some (to_value_set (VStr ''en'')), KeepMatching := True,
        SkipIfFirst := True\<rparr>]"

text \<open>Rules 241 to 260 of the table (lines 2343 to 2519).\<close>

definition handlers_241 :: "go_env \<Rightarrow> handler list" where
  "handlers_241 env =
     [handler0\<lparr>Field := ''languages'',
        Pattern := Some (FindStringSubmatchIndex (regexp_at env 2345)),
        Transform := Some (to_value_set (VStr ''ja'')), KeepMatching := True\<rparr>,
      handler0\<lparr>Field := ''languages'',
        Pattern := Some (FindStringSubmatchIndex (regexp_at env 2351)),
        Transform := Some (to_value_set (VStr ''ja'')), KeepMatching := True,
        SkipIfFirst := True\<rparr>,
      handler0\<lparr>Field := ''languages'',
        Pattern := Some (FindStringSubmatchIndex (regexp_at env 2360)),
        Transform := Some (to_value_set (VStr ''ko'')), KeepMatching := True\<rparr>,
      handler0\<lparr>Field := ''languages'',
        Pattern := Some (FindStringSubmatchIndex (regexp_at env 2366)),
        Transform := Some (to_value_set (VStr ''ko'')), KeepMatching := True,
        SkipIfFirst := True\<rparr>,
      handler0\<lparr>Field := ''languages'',
        Pattern := Some (FindStringSubmatchIndex (regexp_at env 2375)),
        Transform := Some (to_value_set (VStr ''zh-tw'')), KeepMatching := True, Remove := True\<rparr>,
      handler0\<lparr>Field := ''languages'',
        Pattern := Some (FindStringSubmatchIndex (regexp_at env 2382)),
        Transform := Some (to_value_set (VStr ''zh-tw'')), KeepMatching := True\<rparr>,
      handler0\<lparr>Field := ''languages'',
        Pattern := Some (FindStringSubmatchIndex (regexp_at env 2389)),
        Transform := Some (to_value_set (VStr ''zh'')), KeepMatching := True\<rparr>,
      handler0\<lparr>Field := ''languages'',
        Pattern := Some (FindStringSubmatchIndex (regexp_at env 2396)),
        ValidateMatch := Some (validate_not_match (regexp_at env 2397)),
        Transform := Some (to_value_set (VStr ''zh'')), KeepMatching := True,
        SkipFromTitle := True\<rparr>,
      handler0\<lparr>Field := ''languages'',
        Pattern := Some (FindStringSubmatchIndex (regexp_at env 2415)),
        Transform := Some (to_value_set (VStr ''zh'')), KeepMatching := True,
        SkipIfFirst := True\<rparr>,
      handler0\<lparr>Field := ''languages'',
        Pattern := Some (FindStringSubmatchIndex (regexp_at env 2422)),
        Transform := Some (to_value_set (VStr ''zh'')), KeepMatching := True\<rparr>,
      handler0\<lparr>Field := ''languages'',
        Pattern := Some (FindStringSubmatchIndex (regexp_at env 2429)),
        Transform := Some (to_value_set (VStr ''fr'')), KeepMatching := True,
        SkipFromTitle := True\<rparr>,
      handler0\<lparr>Field := ''languages'',
        Pattern := Some (FindStringSubmatchIndex (regexp_at env 2437)),
        Transform := Some (to_value_set (VStr ''fr'')), KeepMatching := True\<rparr>,
      handler0\<lparr>Field := ''languages'',
        Pattern := Some (FindStringSubmatchIndex (regexp_at env 2444)),
        Transform := Some (to_value_set (VStr ''fr'')), KeepMatching := True\<rparr>,
      handler0\<lparr>Field := ''languages'',
        Pattern := Some (FindStringSubmatchIndex (regexp_at env 2451)),
        Transform := Some (to_value_set (VStr ''fr'')), KeepMatching := True\<rparr>,
      handler0\<lparr>Field := ''languages'',
        Pattern := Some (FindStringSubmatchIndex (regexp_at env 2458)),
        Transform := Some (to_value_set (VStr ''es-419'')), KeepMatching := True, Remove := True,
        SkipFromTitle := True\<rparr>,
      handler0\<lparr>Field := ''languages'',
        Pattern := Some (FindStringSubmatchIndex (regexp_at env 2474)),
        Transform := Some (to_value_set (VStr ''es-419'')), KeepMatching := True\<rparr>,
      handler0\<lparr>Field := ''languages'',
        Pattern := Some (FindStringSubmatchIndex (regexp_at env 2487)),
        Transform := Some (to_value_set (VStr ''es'')), KeepMatching := True, Remove := True\<rparr>,
      handler0\<lparr>Field := ''languages'',
        Pattern := Some (FindStringSubmatchIndex (regexp_at env 2501)),
        Transform := Some (to_value_set (VStr ''es'')), KeepMatching := True,
        SkipFromTitle := True\<rparr>,
      handler0\<lparr>Field := ''languages'',
        Pattern := Some (FindStringSubmatchIndex (regexp_at env 2508)),
        Transform := Some (to_value_set (VStr ''es'')), KeepMatching := True,
        SkipFromTitle := True\<rparr>,
      handler0\<lparr>Field := ''languages'',
        Pattern := Some (FindStringSubmatchIndex (regexp_at env 2515)),
        Transform := Some (to_value_set (VStr ''es'')), KeepMatching := True,
        SkipFromTitle := True\<rparr>]"

text \<open>Rules 261 to 280 of the table (lines 2520 to 2680).\<close>

definition handlers_261 :: "go_env \<Rightarrow> handler list" where
  "handlers_261 env =
     [handler0\<lparr>Field := ''languages'',
        Pattern := Some (FindStringSubmatchIndex (regexp_at env 2522)),
        Transform := Some (to_value_set (VStr ''es'')), KeepMatching := True\<rparr>,
      handler0\<lparr>Field := ''languages'',
        Pattern := Some (FindStringSubmatchIndex (regexp_at env 2528)),
        Transform := Some (to_value_set (VStr ''es'')), KeepMatching := True,
        SkipIfFirst := True\<rparr>,
      handler0\<lparr>Field := ''languages'',
        Pattern := Some (FindStringSubmatchIndex (regexp_at env 2543)),
        Transform := Some (to_value_set (VStr ''pt'')), KeepMatching := True, Remove := True\<rparr>,
      handler0\<lparr>Field := ''languages'',
        Pattern := Some (FindStringSubmatchIndex (regexp_at env 2550)),
        Transform := Some (to_value_set (VStr ''pt'')), KeepMatching := True, Remove := True\<rparr>,
      handler0\<lparr>Field := ''languages'',
        Pattern := Some (FindStringSubmatchIndex (regexp_at env 2557)),
        Transform := Some (to_value_set (VStr ''pt'')), KeepMatching := True\<rparr>,
      handler0\<lparr>Field := ''languages'',
        Pattern := Some (FindStringSubmatchIndex (regexp_at env 2563)),
        Transform := Some (to_value_set (VStr ''pt'')), KeepMatching := True\<rparr>,
      handler0\<lparr>Field := ''languages'',
        Pattern := Some (FindStringSubmatchIndex (regexp_at env 2569)),
        Transform := Some (to_value_set (VStr ''pt'')), KeepMatching := True\<rparr>,
      handler0\<lparr>Field := ''languages'',
        Pattern := Some (FindStringSubmatchIndex (regexp_at env 2575)),
        Transform := Some (to_value_set (VStr ''pt'')), KeepMatching := True\<rparr>,
      handler0\<lparr>Field := ''languages'',
        Pattern := Some (FindStringSubmatchIndex (regexp_at env 2581)),
        Transform := Some (to_value_set (VStr ''pt'')), KeepMatching := True,
        SkipFromTitle := True\<rparr>,
      handler0\<lparr>Field := ''languages'',
        Pattern := Some (FindStringSubmatchIndex (regexp_at env 2588)),
        Transform := Some (to_value_set (VStr ''pt'')), KeepMatching := True,
        SkipFromTitle := True\<rparr>,
      handler0\<lparr>Field := ''languages'',
        Pattern := Some (FindStringSubmatchIndex (regexp_at env 2599)),
        Transform := Some (to_value_set (VStr ''it'')), KeepMatching := True\<rparr>,
      handler0\<lparr>Field := ''languages'',
        Pattern := Some (FindStringSubmatchIndex (regexp_at env 2605)),
        ValidateMatch := Some (validate_not_match (regexp_at env 2606)),
        Transform := Some (to_value_set (VStr ''it'')), KeepMatching := True,
        SkipFromTitle := True\<rparr>,
      handler0\<lparr>Field := ''languages'',
        Pattern := Some (FindStringSubmatchIndex (regexp_at env 2613)),
        Transform := Some (to_value_set (VStr ''it'')), KeepMatching := True,
        SkipFromTitle := True\<rparr>,
      handler0\<lparr>Field := ''languages'',
        Pattern := Some (FindStringSubmatchIndex (regexp_at env 2620)),
        Transform := Some (to_value_set (VStr ''it'')), KeepMatching := True,
        SkipIfFirst := True\<rparr>,
      handler0\<lparr>Field := ''languages'',
        Pattern := Some (FindStringSubmatchIndex (regexp_at env 2628)),
        Transform := Some (to_value_set (VStr ''el'')), KeepMatching := True,
        SkipIfFirst := True\<rparr>,
      handler0\<lparr>Field := ''languages'',
        Pattern := Some (FindStringSubmatchIndex (regexp_at env 2641)),
        Transform := Some (to_value_set (VStr ''de'')), KeepMatching := True,
        SkipFromTitle := True\<rparr>,
      handler0\<lparr>Field := ''languages'',
        Pattern := Some (FindStringSubmatchIndex (regexp_at env 2648)),
        Transform := Some (to_value_set (VStr ''de'')), KeepMatching := True,
        SkipFromTitle := True\<rparr>,
      handler0\<lparr>Field := ''languages'',
        Pattern := Some (FindStringSubmatchIndex (regexp_at env 2655)),
        Transform := Some (to_value_set (VStr ''de'')), KeepMatching := True,
        SkipFromTitle := True\<rparr>,
      handler0\<lparr>Field := ''languages'',
        Pattern := Some (FindStringSubmatchIndex (regexp_at env 2669)),
        Transform := Some (to_value_set (VStr ''de'')), KeepMatching := True,
        SkipFromTitle := True\<rparr>,
      handler0\<lparr>Field := ''languages'',
        Pattern := Some (FindStringSubmatchIndex (regexp_at env 2676)),
        Transform := Some (to_value_set (VStr ''de'')), KeepMatching := True,
        SkipIfFirst := True\<rparr>]"

text \<open>Rules 281 to 300 of the table (lines 2683 to 2843).\<close>

definition handlers_281 :: "go_env \<Rightarrow> handler list" where
  "handlers_281 env =
     [handler0\<lparr>Field := ''languages'',
        Pattern := Some (FindStringSubmatchIndex (regexp_at env 2685)),
        Transform := Some (to_value_set (VStr ''ru'')), KeepMatching := True\<rparr>,
      handler0\<lparr>Field := ''languages'',
        Pattern := Some (FindStringSubmatchIndex (regexp_at env 2691)),
        Transform := Some (to_value_set (VStr ''ru'')), KeepMatching := True,
        SkipIfFirst := True\<rparr>,
      handler0\<lparr>Field := ''languages'',
        Pattern := Some (FindStringSubmatchIndex (regexp_at env 2700)),
        Transform := Some (to_value_set (VStr ''uk'')), KeepMatching := True\<rparr>,
      handler0\<lparr>Field := ''languages'',
        Pattern := Some (FindStringSubmatchIndex (regexp_at env 2706)),
        Transform := Some (to_value_set (VStr ''uk'')), KeepMatching := True,
        SkipIfFirst := True\<rparr>,
      handler0\<lparr>Field := ''languages'',
        Pattern := Some (FindStringSubmatchIndex (regexp_at env 2714)),
        Transform := Some (to_value_set (VStr ''hi'')), KeepMatching := True\<rparr>,
      handler0\<lparr>Field := ''languages'',
        Pattern := Some (FindStringSubmatchIndex (regexp_at env 2721)),
        ValidateMatch := Some (validate_not_match (regexp_at env 2722)),
        Transform := Some (to_value_set (VStr ''te'')), KeepMatching := True\<rparr>,
      handler0\<lparr>Field := ''languages'',
        Pattern := Some (FindStringSubmatchIndex (regexp_at env 2729)),
        Transform := Some (to_value_set (VStr ''ta'')), KeepMatching := True\<rparr>,
      handler0\<lparr>Field := ''languages'',
        Pattern := Some (FindStringSubmatchIndex (regexp_at env 2736)),
        ValidateMatch := Some (validate_not_match (regexp_at env 2737)),
        Transform := Some (to_value_set (VStr ''ml'')), KeepMatching := True, Remove := True,
        SkipIfFirst := True\<rparr>,
      handler0\<lparr>Field := ''languages'',
        Pattern := Some (FindStringSubmatchIndex (regexp_at env 2746)),
        ValidateMatch := Some (validate_not_match (regexp_at env 2747)),
        Transform := Some (to_value_set (VStr ''kn'')), KeepMatching := True, Remove := True\<rparr>,
      handler0\<lparr>Field := ''languages'',
        Pattern := Some (FindStringSubmatchIndex (regexp_at env 2755)),
        ValidateMatch := Some (validate_not_match (regexp_at env 2756)),
        Transform := Some (to_value_set (VStr ''mr'')), KeepMatching := True\<rparr>,
      handler0\<lparr>Field := ''languages'',
        Pattern := Some (FindStringSubmatchIndex (regexp_at env 2763)),
        ValidateMatch := Some (validate_not_match (regexp_at env 2764)),
        Transform := Some (to_value_set (VStr ''gu'')), KeepMatching := True\<rparr>,
      handler0\<lparr>Field := ''languages'',
        Pattern := Some (FindStringSubmatchIndex (regexp_at env 2771)),
        ValidateMatch := Some (validate_not_match (regexp_at env 2772)),
        Transform := Some (to_value_set (VStr ''pa'')), KeepMatching := True\<rparr>,
      handler0\<lparr>Field := ''languages'',
        Pattern := Some (FindStringSubmatchIndex (regexp_at env 2779)),
        ValidateMatch := Some (validate_not_match (regexp_at env 2780)),
        Transform := Some (to_value_set (VStr ''bn'')), KeepMatching := True,
        SkipIfFirst := True\<rparr>,
      handler0\<lparr>Field := ''languages'',
        Pattern := Some (FindStringSubmatchIndex (regexp_at env 2789)),
        ValidateMatch := Some (validate_not_match (regexp_at env 2790)),
        Transform := Some (to_value_set (VStr ''lt'')), KeepMatching := True,
        SkipFromTitle := True\<rparr>,
      handler0\<lparr>Field := ''languages'',
        Pattern := Some (FindStringSubmatchIndex (regexp_at env 2797)),
        Transform := Some (to_value_set (VStr ''lt'')), KeepMatching := True,
        SkipIfFirst := True\<rparr>,
      handler0\<lparr>Field := ''languages'',
        Pattern := Some (FindStringSubmatchIndex (regexp_at env 2805)),
        Transform := Some (to_value_set (VStr ''lv'')), KeepMatching := True,
        SkipIfFirst := True\<rparr>,
      handler0\<lparr>Field := ''languages'',
        Pattern := Some (FindStringSubmatchIndex (regexp_at env 2813)),
        Transform := Some (to_value_set (VStr ''et'')), KeepMatching := True,
        SkipIfFirst := True\<rparr>,
      handler0\<lparr>Field := ''languages'',
        Pattern := Some (FindStringSubmatchIndex (regexp_at env 2822)),
        Transform := Some (to_value_set (VStr ''pl'')), KeepMatching := True, Remove := True\<rparr>,
      handler0\<lparr>Field := ''languages'',
        Pattern := Some (FindStringSubmatchIndex (regexp_at env 2832)),
        Transform := Some (to_value_set (VStr ''pl'')), KeepMatching := True, Remove := True\<rparr>,
      handler0\<lparr>Field := ''languages'',
        Pattern := Some (FindStringSubmatchIndex (regexp_at env 2839)),
        ValidateMatch := Some (validate_not_match (regexp_at env 2840)),
        Transform := Some (to_value_set (VStr ''pl'')), KeepMatching := True\<rparr>]"

text \<open>Rules 301 to 320 of the table (lines 2844 to 2997).\<close>

definition handlers_301 :: "go_env \<Rightarrow> handler list" where
  "handlers_301 env =
     [handler0\<lparr>Field := ''languages'',
        Pattern := Some (FindStringSubmatchIndex (regexp_at env 2846)),
        Transform := Some (to_value_set (VStr ''pl'')), KeepMatching := True,
        SkipIfFirst := True\<rparr>,
      handler0\<lparr>Field := ''languages'',
        Pattern := Some (FindStringSubmatchIndex (regexp_at env 2855)),
        Transform := Some (to_value_set (VStr ''cs'')), KeepMatching := True,
        SkipIfFirst := True\<rparr>,
      handler0\<lparr>Field := ''languages'',
        Pattern := Some (FindStringSubmatchIndex (regexp_at env 2862)),
        Transform := Some (to_value_set (VStr ''cs'')), KeepMatching := True,
        SkipIfFirst := True\<rparr>,
      handler0\<lparr>Field := ''languages'',
        Pattern := Some (FindStringSubmatchIndex (regexp_at env 2870)),
        Transform := Some (to_value_set (VStr ''sk'')), KeepMatching := True,
        SkipFromTitle := True\<rparr>,
      handler0\<lparr>Field := ''languages'',
        Pattern := Some (FindStringSubmatchIndex (regexp_at env 2879)),
        Transform := Some (to_value_set (VStr ''hu'')), KeepMatching := True,
        SkipFromTitle := True\<rparr>,
      handler0\<lparr>Field := ''languages'',
        Pattern := Some (FindStringSubmatchIndex (regexp_at env 2886)),
        Transform := Some (to_value_set (VStr ''hu'')), KeepMatching := True,
        SkipFromTitle := True\<rparr>,
      handler0\<lparr>Field := ''languages'',
        Pattern := Some (FindStringSubmatchIndex (regexp_at env 2895)),
        Transform := Some (to_value_set (VStr ''ro'')), KeepMatching := True,
        SkipFromTitle := True\<rparr>,
      handler0\<lparr>Field := ''languages'',
        Pattern := Some (FindStringSubmatchIndex (regexp_at env 2902)),
        Transform := Some (to_value_set (VStr ''ro'')), KeepMatching := True\<rparr>,
      handler0\<lparr>Field := ''languages'',
        Pattern := Some (FindStringSubmatchIndex (regexp_at env 2909)),
        Transform := Some (to_value_set (VStr ''bg'')), KeepMatching := True,
        SkipFromTitle := True\<rparr>,
      handler0\<lparr>Field := ''languages'',
        Pattern := Some (FindStringSubmatchIndex (regexp_at env 2917)),
        Transform := Some (to_value_set (VStr ''sr'')), KeepMatching := True\<rparr>,
      handler0\<lparr>Field := ''languages'',
        Pattern := Some (FindStringSubmatchIndex (regexp_at env 2925)),
        Transform := Some (to_value_set (VStr ''hr'')), KeepMatching := True\<rparr>,
      handler0\<lparr>Field := ''languages'',
        Pattern := Some (FindStringSubmatchIndex (regexp_at env 2931)),
        Transform := Some (to_value_set (VStr ''hr'')), KeepMatching := True\<rparr>,
      handler0\<lparr>Field := ''languages'',
        Pattern := Some (FindStringSubmatchIndex (regexp_at env 2938)),
        Transform := Some (to_value_set (VStr ''sl'')), KeepMatching := True,
        SkipFromTitle := True\<rparr>,
      handler0\<lparr>Field := ''languages'',
        Pattern := Some (FindStringSubmatchIndex (regexp_at env 2948)),
        ValidateMatch := Some (validate_not_match (regexp_at env 2949)),
        Transform := Some (to_value_set (VStr ''nl'')), KeepMatching := True\<rparr>,
      handler0\<lparr>Field := ''languages'',
        Pattern := Some (FindStringSubmatchIndex (regexp_at env 2955)),
        Transform := Some (to_value_set (VStr ''nl'')), KeepMatching := True,
        SkipFromTitle := True\<rparr>,
      handler0\<lparr>Field := ''languages'',
        Pattern := Some (FindStringSubmatchIndex (regexp_at env 2962)),
        Transform := Some (to_value_set (VStr ''nl'')), KeepMatching := True\<rparr>,
      handler0\<lparr>Field := ''languages'',
        Pattern := Some (FindStringSubmatchIndex (regexp_at env 2971)),
        Transform := Some (to_value_set (VStr ''da'')), KeepMatching := True\<rparr>,
      handler0\<lparr>Field := ''languages'',
        Pattern := Some (FindStringSubmatchIndex (regexp_at env 2977)),
        Transform := Some (to_value_set (VStr ''da'')), KeepMatching := True,
        SkipFromTitle := True\<rparr>,
      handler0\<lparr>Field := ''languages'',
        Pattern := Some (FindStringSubmatchIndex (regexp_at env 2984)),
        Transform := Some (to_value_set (VStr ''da'')), KeepMatching := True,
        SkipFromTitle := True\<rparr>,
      handler0\<lparr>Field := ''languages'',
        Pattern := Some (FindStringSubmatchIndex (regexp_at env 2993)),
        ValidateMatch := Some (validate_not_match (regexp_at env 2994)),
        Transform := Some (to_value_set (VStr ''fi'')), KeepMatching := True\<rparr>]"

text \<open>Rules 321 to 340 of the table (lines 2998 to 3166).\<close>

definition handlers_321 :: "go_env \<Rightarrow> handler list" where
  "handlers_321 env =
     [handler0\<lparr>Field := ''languages'',
        Pattern := Some (FindStringSubmatchIndex (regexp_at env 3000)),
        Transform := Some (to_value_set (VStr ''fi'')), KeepMatching := True,
        SkipFromTitle := True\<rparr>,
      handler0\<lparr>Field := ''languages'',
        Pattern := Some (FindStringSubmatchIndex (regexp_at env 3009)),
        ValidateMatch := Some (validate_not_match (regexp_at env 3010)),
        Transform := Some (to_value_set (VStr ''sv'')), KeepMatching := True\<rparr>,
      handler0\<lparr>Field := ''languages'',
        Pattern := Some (FindStringSubmatchIndex (regexp_at env 3016)),
        Transform := Some (to_value_set (VStr ''sv'')), KeepMatching := True,
        SkipFromTitle := True\<rparr>,
      handler0\<lparr>Field := ''languages'',
        Pattern := Some (FindStringSubmatchIndex (regexp_at env 3025)),
        Transform := Some (to_value_set (VStr ''no'')), KeepMatching := True\<rparr>,
      handler0\<lparr>Field := ''languages'',
        Pattern := Some (FindStringSubmatchIndex (regexp_at env 3031)),
        Transform := Some (to_value_set (VStr ''no'')), KeepMatching := True,
        SkipFromTitle := True\<rparr>,
      handler0\<lparr>Field := ''languages'',
        Pattern := Some (FindStringSubmatchIndex (regexp_at env 3041)),
        Transform := Some (to_value_set (VStr ''ar'')), KeepMatching := True,
        SkipIfFirst := True\<rparr>,
      handler0\<lparr>Field := ''languages'',
        Pattern := Some (FindStringSubmatchIndex (regexp_at env 3048)),
        Transform := Some (to_value_set (VStr ''ar'')), KeepMatching := True,
        SkipFromTitle := True\<rparr>,
      handler0\<lparr>Field := ''languages'',
        Pattern := Some (FindStringSubmatchIndex (regexp_at env 3055)),
        Transform := Some (to_value_set (VStr ''ar'')), KeepMatching := True,
        SkipFromTitle := True\<rparr>,
      handler0\<lparr>Field := ''languages'',
        Pattern := Some (FindStringSubmatchIndex (regexp_at env 3063)),
        Transform := Some (to_value_set (VStr ''tr'')), KeepMatching := True,
        SkipFromTitle := True\<rparr>,
      handler0\<lparr>Field := ''languages'',
        Pattern := Some (FindStringSubmatchIndex (regexp_at env 3071)),
        Transform := Some (to_value_set (VStr ''tr'')), KeepMatching := True,
        SkipFromTitle := True\<rparr>,
      handler0\<lparr>Field := ''languages'',
        Pattern := Some (FindStringSubmatchIndex (regexp_at env 3079)),
        Transform := Some (to_value_set (VStr ''vi'')), KeepMatching := True,
        SkipFromTitle := True\<rparr>,
      handler0\<lparr>Field := ''languages'',
        Pattern := Some (FindStringSubmatchIndex (regexp_at env 3087)),
        Transform := Some (to_value_set (VStr ''id'')), KeepMatching := True,
        SkipFromTitle := True\<rparr>,
      handler0\<lparr>Field := ''languages'',
        Pattern := Some (FindStringSubmatchIndex (regexp_at env 3096)),
        Transform := Some (to_value_set (VStr ''th'')), KeepMatching := True,
        SkipIfFirst := True\<rparr>,
      handler0\<lparr>Field := ''languages'',
        Pattern := Some (FindStringSubmatchIndex (regexp_at env 3103)),
        Transform := Some (to_value_set (VStr ''th'')), KeepMatching := True,
        SkipFromTitle := True\<rparr>,
      handler0\<lparr>Field := ''languages'',
        Pattern := Some (FindStringSubmatchIndex (regexp_at env 3111)),
        Transform := Some (to_value_set (VStr ''ms'')), KeepMatching := True\<rparr>,
      handler0\<lparr>Field := ''languages'',
        Pattern := Some (FindStringSubmatchIndex (regexp_at env 3119)),
        Transform := Some (to_value_set (VStr ''he'')), KeepMatching := True,
        SkipFromTitle := True\<rparr>,
      handler0\<lparr>Field := ''languages'',
        Pattern := Some (FindStringSubmatchIndex (regexp_at env 3127)),
        Transform := Some (to_value_set (VStr ''fa'')), KeepMatching := True,
        SkipFromTitle := True\<rparr>,
      handler0\<lparr>Field := ''languages'',
        Pattern := Some (FindStringSubmatchIndex (regexp_at env 3148)),
        Transform := Some (to_value_set (VStr ''ja'')), KeepMatching := True,
        SkipFromTitle := True\<rparr>,
      handler0\<lparr>Field := ''languages'',
        Pattern := Some (FindStringSubmatchIndex (regexp_at env 3155)),
        Transform := Some (to_value_set (VStr ''zh'')), KeepMatching := True,
        SkipFromTitle := True\<rparr>,
      handler0\<lparr>Field := ''languages'',
        Pattern := Some (FindStringSubmatchIndex (regexp_at env 3162)),
        Transform := Some (to_value_set (VStr ''zh'')), KeepMatching := True,
        SkipFromTitle := True\<rparr>]"

text \<open>Rules 341 to 360 of the table (lines 3167 to 3355).\<close>

definition handlers_341 :: "go_env \<Rightarrow> handler list" where
  "handlers_341 env =
     [handler0\<lparr>Field := ''languages'',
        Pattern := Some (FindStringSubmatchIndex (regexp_at env 3169)),
        Transform := Some (to_value_set (VStr ''zh'')), KeepMatching := True,
        SkipFromTitle := True\<rparr>,
      handler0\<lparr>Field := ''languages'',
        Pattern := Some (FindStringSubmatchIndex (regexp_at env 3176)),
        Transform := Some (to_value_set (VStr ''ja'')), KeepMatching := True,
        SkipFromTitle := True\<rparr>,
      handler0\<lparr>Field := ''languages'',
        Pattern := Some (FindStringSubmatchIndex (regexp_at env 3183)),
        Transform := Some (to_value_set (VStr ''ru'')), KeepMatching := True,
        SkipFromTitle := True\<rparr>,
      handler0\<lparr>Field := ''languages'',
        Pattern := Some (FindStringSubmatchIndex (regexp_at env 3190)),
        Transform := Some (to_value_set (VStr ''ar'')), KeepMatching := True,
        SkipFromTitle := True\<rparr>,
      handler0\<lparr>Field := ''languages'',
        Pattern := Some (FindStringSubmatchIndex (regexp_at env 3197)),
        Transform := Some (to_value_set (VStr ''ar'')), KeepMatching := True,
        SkipFromTitle := True\<rparr>,
      handler0\<lparr>Field := ''languages'',
        Pattern := Some (FindStringSubmatchIndex (regexp_at env 3204)),
        Transform := Some (to_value_set (VStr ''kn'')), KeepMatching := True,
        SkipFromTitle := True\<rparr>,
      handler0\<lparr>Field := ''languages'',
        Pattern := Some (FindStringSubmatchIndex (regexp_at env 3211)),
        Transform := Some (to_value_set (VStr ''ml'')), KeepMatching := True,
        SkipFromTitle := True\<rparr>,
      handler0\<lparr>Field := ''languages'',
        Pattern := Some (FindStringSubmatchIndex (regexp_at env 3218)),
        Transform := Some (to_value_set (VStr ''th'')), KeepMatching := True,
        SkipFromTitle := True\<rparr>,
      handler0\<lparr>Field := ''languages'',
        Pattern := Some (FindStringSubmatchIndex (regexp_at env 3225)),
        Transform := Some (to_value_set (VStr ''hi'')), KeepMatching := True,
        SkipFromTitle := True\<rparr>,
      handler0\<lparr>Field := ''languages'',
        Pattern := Some (FindStringSubmatchIndex (regexp_at env 3232)),
        Transform := Some (to_value_set (VStr ''bn'')), KeepMatching := True,
        SkipFromTitle := True\<rparr>,
      handler0\<lparr>Field := ''languages'',
        Pattern := Some (FindStringSubmatchIndex (regexp_at env 3239)),
        Transform := Some (to_value_set (VStr ''gu'')), KeepMatching := True,
        SkipFromTitle := True\<rparr>,
      handler0\<lparr>Field := ''languages'', Process := Some (languages_processor env)\<rparr>,
      handler0\<lparr>Field := ''subbed'',
        Pattern := Some (FindStringSubmatchIndex (regexp_at env 3281)),
        Transform := Some to_boolean, Remove := True\<rparr>,
      handler0\<lparr>Field := ''subbed'', Process := Some subbed_processor\<rparr>,
      handler0\<lparr>Field := ''dubbed'',
        Pattern := Some (FindStringSubmatchIndex (regexp_at env 3306)),
        Transform := Some to_boolean, Remove := True, SkipFromTitle := True\<rparr>,
      handler0\<lparr>Field := ''dubbed'',
        Pattern := Some (FindStringSubmatchIndex (regexp_at env 3313)),
        Transform := Some to_boolean, Remove := True\<rparr>,
      handler0\<lparr>Field := ''dubbed'',
        Pattern := Some (FindStringSubmatchIndex (regexp_at env 3319)),
        ValidateMatch := Some (validate_not_match (regexp_at env 3320)),
        Transform := Some to_boolean, Remove := True\<rparr>,
      handler0\<lparr>Field := ''dubbed'',
        Pattern := Some (FindStringSubmatchIndex (regexp_at env 3333)),
        Transform := Some to_boolean\<rparr>,
      handler0\<lparr>Field := ''dubbed'', Process := Some dubbed_processor\<rparr>,
      handler0\<lparr>Field := ''size'',
        Pattern := Some (FindStringSubmatchIndex (regexp_at env 3353)), Remove := True\<rparr>]"

text \<open>Rules 361 to 380 of the table (lines 3359 to 3501).\<close>

definition handlers_361 :: "go_env \<Rightarrow> handler list" where
  "handlers_361 env =
     [handler0\<lparr>Field := ''site'',
        Pattern := Some (FindStringSubmatchIndex (regexp_at env 3361)),
        Transform := Some (to_trimmed env), Remove := True, SkipFromTitle := True,
        MatchGroup := 1\<rparr>,
      handler0\<lparr>Field := ''site'',
        Pattern := Some (FindStringSubmatchIndex (regexp_at env 3370)), Remove := True,
        SkipFromTitle := True\<rparr>,
      handler0\<lparr>Field := ''site'',
        Pattern := Some (FindStringSubmatchIndex (regexp_at env 3377)), Remove := True,
        SkipFromTitle := True\<rparr>,
      handler0\<lparr>Field := ''network'',
        Pattern := Some (FindStringSubmatchIndex (regexp_at env 3402)),
        Transform := Some (to_value ''Apple TV''), Remove := True\<rparr>,
      handler0\<lparr>Field := ''network'',
        Pattern := Some (FindStringSubmatchIndex (regexp_at env 3408)),
        Transform := Some (to_value ''Amazon''), Remove := True\<rparr>,
      handler0\<lparr>Field := ''network'',
        Pattern := Some (FindStringSubmatchIndex (regexp_at env 3414)),
        Transform := Some (to_value ''Netflix''), Remove := True\<rparr>,
      handler0\<lparr>Field := ''network'',
        Pattern := Some (FindStringSubmatchIndex (regexp_at env 3420)),
        Transform := Some (to_value ''Nickelodeon''), Remove := True\<rparr>,
      handler0\<lparr>Field := ''network'',
        Pattern := Some (FindStringSubmatchIndex (regexp_at env 3426)),
        Transform := Some (to_value ''Disney''), Remove := True\<rparr>,
      handler0\<lparr>Field := ''network'',
        Pattern := Some (FindStringSubmatchIndex (regexp_at env 3432)),
        Transform := Some (to_value ''HBO''), Remove := True\<rparr>,
      handler0\<lparr>Field := ''network'',
        Pattern := Some (FindStringSubmatchIndex (regexp_at env 3438)),
        Transform := Some (to_value ''Hulu''), Remove := True\<rparr>,
      handler0\<lparr>Field := ''network'',
        Pattern := Some (FindStringSubmatchIndex (regexp_at env 3444)),
        Transform := Some (to_value ''CBS''), Remove := True\<rparr>,
      handler0\<lparr>Field := ''network'',
        Pattern := Some (FindStringSubmatchIndex (regexp_at env 3450)),
        Transform := Some (to_value ''NBC''), Remove := True\<rparr>,
      handler0\<lparr>Field := ''network'',
        Pattern := Some (FindStringSubmatchIndex (regexp_at env 3456)),
        Transform := Some (to_value ''AMC''), Remove := True\<rparr>,
      handler0\<lparr>Field := ''network'',
        Pattern := Some (FindStringSubmatchIndex (regexp_at env 3462)),
        Transform := Some (to_value ''PBS''), Remove := True\<rparr>,
      handler0\<lparr>Field := ''network'',
        Pattern := Some (FindStringSubmatchIndex (regexp_at env 3468)),
        Transform := Some (to_value ''Crunchyroll''), Remove := True\<rparr>,
      handler0\<lparr>Field := ''network'',
        Pattern := Some (FindStringSubmatchIndex (regexp_at env 3474)),
        Transform := Some (to_value ''VICE''), Remove := True\<rparr>,
      handler0\<lparr>Field := ''network'',
        Pattern := Some (FindStringSubmatchIndex (regexp_at env 3480)),
        Transform := Some (to_value ''Sony''), Remove := True\<rparr>,
      handler0\<lparr>Field := ''network'',
        Pattern := Some (FindStringSubmatchIndex (regexp_at env 3486)),
        Transform := Some (to_value ''Hallmark''), Remove := True\<rparr>,
      handler0\<lparr>Field := ''network'',
        Pattern := Some (FindStringSubmatchIndex (regexp_at env 3492)),
        Transform := Some (to_value ''Adult Swim''), Remove := True\<rparr>,
      handler0\<lparr>Field := ''network'',
        Pattern := Some (FindStringSubmatchIndex (regexp_at env 3498)),
        Transform := Some (to_value ''Animal Planet''), Remove := True\<rparr>]"

text \<open>Rules 381 to 388 of the table (lines 3502 to 3577).\<close>

definition handlers_381 :: "order \<Rightarrow> go_env \<Rightarrow> handler list" where
  "handlers_381 ord env =
     [handler0\<lparr>Field := ''network'',
        Pattern := Some (FindStringSubmatchIndex (regexp_at env 3504)),
        Transform := Some (to_value ''Cartoon Network''), Remove := True\<rparr>,
      handler0\<lparr>Field := ''group'',
        Pattern := Some (FindStringSubmatchIndex (regexp_at env 3513)), Remove := True\<rparr>,
      handler0\<lparr>Field := ''group'',
        Pattern := Some (FindStringSubmatchIndex (regexp_at env 3518)),
        Transform := Some (to_value ''Erai-raws''), Remove := True\<rparr>,
      handler0\<lparr>Field := ''group'',
        Pattern := Some (FindStringSubmatchIndex (regexp_at env 3538))\<rparr>,
      handler0\<lparr>Field := ''group'',
        Pattern := Some (FindStringSubmatchIndex (regexp_at env 3542))\<rparr>,
      handler0\<lparr>Field := ''group'', Process := Some (group_processor ord)\<rparr>,
      handler0\<lparr>Field := ''extension'',
        Pattern := Some (FindStringSubmatchIndex (regexp_at env 3567)),
        Transform := Some (to_lowercase env)\<rparr>,
      handler0\<lparr>Field := ''audio'',
        Pattern := Some (FindStringSubmatchIndex (regexp_at env 3573)),
        Transform := Some (to_value_set (VStr ''MP3'')), Remove := True, KeepMatching := True\<rparr>]"

text \<open>The table, and \<open>Parse\<close> on it.\<close>

definition handlers :: "order \<Rightarrow> go_env \<Rightarrow> handler list" where
  "handlers ord env =
     handlers_001 env @
     handlers_021 env @
     handlers_041 env @
     handlers_061 env @
     handlers_081 env @
     handlers_101 env @
     handlers_121 env @
     handlers_141 env @
     handlers_161 env @
     handlers_181 env @
     handlers_201 env @
     handlers_221 env @
     handlers_241 env @
     handlers_261 env @
     handlers_281 env @
     handlers_301 env @
     handlers_321 env @
     handlers_341 env @
     handlers_361 env @
     handlers_381 ord env"

text \<open>\<open>Parse\<close> and \<open>GetPartialParser\<close> read the package's table.\<close>

definition Parse :: "order \<Rightarrow> go_env \<Rightarrow> (string \<Rightarrow> string) \<Rightarrow> string \<Rightarrow> Result outcome" where
  "Parse ord env clean_title t = parse ord clean_title t (handlers ord env)"

text \<open>
  An assignment of the expressions, as an example: the expression of the resolution
  rule for \<open>1920x...\<close> (line 389) finds \<open>1920x1080\<close>, that of the \<open>year\<close> rule for a
  single year of this century (line 556) finds \<open>2020\<close>, and no other expression
  matches anything.
\<close>

definition example_env :: go_env where
  "example_env =
     \<lparr> regexp_at = (\<lambda>n.
          \<lparr> FindStringSubmatchIndex =
              (if n = 389 then find_literal ''1920x1080''
               else if n = 556 then find_group ''2020'' []
               else (\<lambda>s. [])),
            MatchString = (\<lambda>s. False),
            ReplaceAllString = (\<lambda>s repl. s),
            ReplaceAllStringFunc = (\<lambda>s f. Inr s) \<rparr>),
       ToLower = (\<lambda>s. s), ToUpper = (\<lambda>s. s), TrimSpace = (\<lambda>s. s),
       date_of = (\<lambda>format s. None) \<rparr>"
section \<open>The claims as the specification words them\<close>

text \<open>
  C1 in the specification's words: discard when another field has a match at or before
  the candidate's start and this field has no match of its own.
\<close>

definition spec_skip_if_first :: "string \<Rightarrow> int \<Rightarrow> result_map \<Rightarrow> bool" where
  "spec_skip_if_first field i0 res =
     (list_ex (\<lambda>(f, fm). f \<noteq> field \<and> mIndex fm \<le> i0) res \<and> map_of res field = None)"

text \<open>
  C2 in the specification's words: the retraction by the length of the removed text
  happens whenever the match was removed and is skip-from-title.
\<close>

definition spec_update_boundary :: "bool \<Rightarrow> parseMeta \<Rightarrow> int \<Rightarrow> int" where
  "spec_update_boundary skipFromTitle m e =
     (let e1 = (if \<not> skipFromTitle \<and> mIndex m \<noteq> 0 \<and> mIndex m < e then mIndex m else e) in
      if remove m \<and> skipFromTitle then e1 - int (length (mValue m)) else e1)"

text \<open>
  A rule application that survives rejection: the loop body reaches the title mutation
  and the boundary update (\<open>ptt.go\<close> lines 277 to 292) without a \<open>continue\<close> and without
  a panic. \<open>match_stage\<close> is the pattern branch (lines 172 to 250) and \<open>stages\<close> the loop
  body up to the transform (lines 172 to 266): \<open>None\<close> after a \<open>continue\<close> in the pattern
  branch, otherwise the effective skip-from-title flag, the field state \<open>m\<close>, \<open>mFound\<close>
  and the map. \<open>surviving\<close> adds the two
  rejections that follow (lines 268 to 275) and gives the flag and the field state the
  boundary update reads.
\<close>

definition match_stage ::
  "order \<Rightarrow> handler \<Rightarrow> pstate \<Rightarrow> (bool \<times> parseMeta option \<times> result_map) option outcome" where
  "match_stage ord h st =
     (case Pattern h of
        None \<Rightarrow> Inr (Some (SkipFromTitle h, map_of (result st) (Field h), result st))
      | Some pat \<Rightarrow>
          obind (match_pattern ord h pat (title st) (result st)) (\<lambda>r.
          case r of
            None \<Rightarrow> Inr None
          | Some (skipFromTitle, m, res) \<Rightarrow> Inr (Some (skipFromTitle, Some m, res))))"

definition stages ::
  "order \<Rightarrow> handler \<Rightarrow> pstate \<Rightarrow> (bool \<times> parseMeta \<times> bool \<times> result_map) option outcome" where
  "stages ord h st =
     obind (match_stage ord h st)
       (\<lambda>matched.
        case matched of
          None \<Rightarrow> Inr None
        | Some (skipFromTitle, mo, res) \<Rightarrow>
            obind (run_process h (title st) mo res) (\<lambda>(mo, mFound, res).
            case mo of
              None \<Rightarrow> Inl (RuntimeError ''invalid memory address or nil pointer dereference'')
            | Some m \<Rightarrow>
                obind (run_transform h (title st) m mFound res) (\<lambda>(m, res).
                Inr (Some (skipFromTitle, m, mFound, res)))))"

definition surviving :: "order \<Rightarrow> handler \<Rightarrow> pstate \<Rightarrow> (bool \<times> parseMeta) option" where
  "surviving ord h st =
     (case stages ord h st of
        Inr (Some (skipFromTitle, m, mFound, res)) \<Rightarrow>
          if val m = VNil then None
          else if \<not> mFound \<or> (processed m \<and> \<not> KeepMatching h \<and> \<not> has_value_set (Field h))
          then None
          else Some (skipFromTitle, m)
      | _ \<Rightarrow> None)"

text \<open>The rest of the loop body, lines 268 to 292, on what \<open>stages\<close> returns.\<close>

definition finish ::
  "handler \<Rightarrow> pstate \<Rightarrow> (bool \<times> parseMeta \<times> bool \<times> result_map) option \<Rightarrow> pstate outcome" where
  "finish h st x =
     (case x of
        None \<Rightarrow> Inr st
      | Some (skipFromTitle, m, mFound, res) \<Rightarrow>
          if val m = VNil then Inr (st\<lparr>result := AList.delete (Field h) res\<rparr>)
          else if \<not> mFound \<or> (processed m \<and> \<not> KeepMatching h \<and> \<not> has_value_set (Field h))
          then Inr (st\<lparr>result := res\<rparr>)
          else
            obind
              (if Remove h \<or> remove m then
                 obind (splice_title (title st) m) (\<lambda>t. Inr (m\<lparr>remove := True\<rparr>, t))
               else Inr (m, title st))
              (\<lambda>(m, t).
               Inr \<lparr> title = t,
                     result = AList.update (Field h) (m\<lparr>remove := False, processed := True\<rparr>) res,
                     endOfTitle = update_boundary skipFromTitle m (endOfTitle st) \<rparr>))"

text \<open>
  C8 in the specification's words: the rules of the requested fields plus the rules
  that declare no field.
\<close>

definition spec_select_handlers :: "string list \<Rightarrow> handler list \<Rightarrow> handler list" where
  "spec_select_handlers fieldNames hs =
     filter (\<lambda>h. Field h \<in> set fieldNames \<or> Field h = '''') hs"

text \<open>
  A rule finds nothing in a title while no field is recorded yet: its pattern has no
  match or, for a rule without pattern, its processor returns a field state that has
  no value and leaves the map empty.
\<close>

definition no_match :: "handler \<Rightarrow> string \<Rightarrow> bool" where
  "no_match h t =
     (case Pattern h of
        Some pat \<Rightarrow> pat t = []
      | None \<Rightarrow>
          (case Process h of
             Some p \<Rightarrow>
               (case p t new_parseMeta [] of
                  Inr (m, res) \<Rightarrow> val m = VNil \<and> res = []
                | Inl e \<Rightarrow> False)
           | None \<Rightarrow> False))"

section \<open>The assembly loop without its panics\<close>

text \<open>
  \<open>type_ok\<close>: the type assertion of the field's case succeeds (a field outside the
  switch has none to fail).
\<close>

definition type_ok :: "string \<Rightarrow> anyval \<Rightarrow> bool" where
  "type_ok field v = (case assemble_field field v zero_Result of Inr r' \<Rightarrow> True | Inl e \<Rightarrow> False)"

text \<open>
  For the proofs, the cases of the switch as a type: the case a field name selects, the
  name of a case, the body of a case, and what the body stores when its assertion
  succeeds. \<open>assemble_field_slot\<close> below relates them to \<open>assemble_field\<close>.
\<close>

definition the_string :: "anyval \<Rightarrow> string" where
  "the_string v = (case v of VStr s \<Rightarrow> s | _ \<Rightarrow> [])"

definition the_bool :: "anyval \<Rightarrow> bool" where
  "the_bool v = (case v of VBool b \<Rightarrow> b | _ \<Rightarrow> False)"

definition the_ints :: "anyval \<Rightarrow> int list" where
  "the_ints v = (case v of VInts xs \<Rightarrow> xs | _ \<Rightarrow> [])"

definition the_value_set :: "anyval \<Rightarrow> string list" where
  "the_value_set v = (case as_value_set v of Inr x \<Rightarrow> x | Inl e \<Rightarrow> [])"

datatype slot =
    S_Audio
  | S_BitDepth
  | S_Channels
  | S_Codec
  | S_Commentary
  | S_Complete
  | S_Container
  | S_Convert
  | S_Date
  | S_Documentary
  | S_Dubbed
  | S_Edition
  | S_EpisodeCode
  | S_Episodes
  | S_Extended
  | S_Extension
  | S_Group
  | S_Hardcoded
  | S_HDR
  | S_Languages
  | S_Network
  | S_Proper
  | S_Region
  | S_Remastered
  | S_Repack
  | S_Resolution
  | S_Retail
  | S_Seasons
  | S_Size
  | S_Site
  | S_Quality
  | S_ReleaseTypes
  | S_Subbed
  | S_ThreeD
  | S_Uncensored
  | S_Unrated
  | S_Upscaled
  | S_Volumes
  | S_Year

definition slot_of :: "string \<Rightarrow> slot option" where
  "slot_of field =
     (if field = ''audio'' then Some S_Audio
      else if field = ''bitDepth'' then Some S_BitDepth
      else if field = ''channels'' then Some S_Channels
      else if field = ''codec'' then Some S_Codec
      else if field = ''commentary'' then Some S_Commentary
      else if field = ''complete'' then Some S_Complete
      else if field = ''container'' then Some S_Container
      else if field = ''convert'' then Some S_Convert
      else if field = ''date'' then Some S_Date
      else if field = ''documentary'' then Some S_Documentary
      else if field = ''dubbed'' then Some S_Dubbed
      else if field = ''edition'' then Some S_Edition
      else if field = ''episodeCode'' then Some S_EpisodeCode
      else if field = ''episodes'' then Some S_Episodes
      else if field = ''extended'' then Some S_Extended
      else if field = ''extension'' then Some S_Extension
      else if field = ''group'' then Some S_Group
      else if field = ''hardcoded'' then Some S_Hardcoded
      else if field = ''hdr'' then Some S_HDR
      else if field = ''languages'' then Some S_Languages
      else if field = ''network'' then Some S_Network
      else if field = ''proper'' then Some S_Proper
      else if field = ''region'' then Some S_Region
      else if field = ''remastered'' then Some S_Remastered
      else if field = ''repack'' then Some S_Repack
      else if field = ''resolution'' then Some S_Resolution
      else if field = ''retail'' then Some S_Retail
      else if field = ''seasons'' then Some S_Seasons
      else if field = ''size'' then Some S_Size
      else if field = ''site'' then Some S_Site
      else if field = ''quality'' then Some S_Quality
      else if field = ''releaseTypes'' then Some S_ReleaseTypes
      else if field = ''subbed'' then Some S_Subbed
      else if field = ''threeD'' then Some S_ThreeD
      else if field = ''uncensored'' then Some S_Uncensored
      else if field = ''unrated'' then Some S_Unrated
      else if field = ''upscaled'' then Some S_Upscaled
      else if field = ''volumes'' then Some S_Volumes
      else if field = ''year'' then Some S_Year
      else None)"

fun slot_name :: "slot \<Rightarrow> string" where
  "slot_name S_Audio = ''audio''"
| "slot_name S_BitDepth = ''bitDepth''"
| "slot_name S_Channels = ''channels''"
| "slot_name S_Codec = ''codec''"
| "slot_name S_Commentary = ''commentary''"
| "slot_name S_Complete = ''complete''"
| "slot_name S_Container = ''container''"
| "slot_name S_Convert = ''convert''"
| "slot_name S_Date = ''date''"
| "slot_name S_Documentary = ''documentary''"
| "slot_name S_Dubbed = ''dubbed''"
| "slot_name S_Edition = ''edition''"
| "slot_name S_EpisodeCode = ''episodeCode''"
| "slot_name S_Episodes = ''episodes''"
| "slot_name S_Extended = ''extended''"
| "slot_name S_Extension = ''extension''"
| "slot_name S_Group = ''group''"
| "slot_name S_Hardcoded = ''hardcoded''"
| "slot_name S_HDR = ''hdr''"
| "slot_name S_Languages = ''languages''"
| "slot_name S_Network = ''network''"
| "slot_name S_Proper = ''proper''"
| "slot_name S_Region = ''region''"
| "slot_name S_Remastered = ''remastered''"
| "slot_name S_Repack = ''repack''"
| "slot_name S_Resolution = ''resolution''"
| "slot_name S_Retail = ''retail''"
| "slot_name S_Seasons = ''seasons''"
| "slot_name S_Size = ''size''"
| "slot_name S_Site = ''site''"
| "slot_name S_Quality = ''quality''"
| "slot_name S_ReleaseTypes = ''releaseTypes''"
| "slot_name S_Subbed = ''subbed''"
| "slot_name S_ThreeD = ''threeD''"
| "slot_name S_Uncensored = ''uncensored''"
| "slot_name S_Unrated = ''unrated''"
| "slot_name S_Upscaled = ''upscaled''"
| "slot_name S_Volumes = ''volumes''"
| "slot_name S_Year = ''year''"

fun slot_assign :: "slot \<Rightarrow> anyval \<Rightarrow> Result \<Rightarrow> Result outcome" where
  "slot_assign S_Audio v r = obind (as_value_set v) (\<lambda>x. Inr (r\<lparr>Audio := x\<rparr>))"
| "slot_assign S_BitDepth v r = obind (as_string v) (\<lambda>x. Inr (r\<lparr>BitDepth := x\<rparr>))"
| "slot_assign S_Channels v r = obind (as_value_set v) (\<lambda>x. Inr (r\<lparr>Channels := x\<rparr>))"
| "slot_assign S_Codec v r = obind (as_string v) (\<lambda>x. Inr (r\<lparr>Codec := x\<rparr>))"
| "slot_assign S_Commentary v r = obind (as_bool v) (\<lambda>x. Inr (r\<lparr>Commentary := x\<rparr>))"
| "slot_assign S_Complete v r = obind (as_bool v) (\<lambda>x. Inr (r\<lparr>Complete := x\<rparr>))"
| "slot_assign S_Container v r = obind (as_string v) (\<lambda>x. Inr (r\<lparr>Container := x\<rparr>))"
| "slot_assign S_Convert v r = obind (as_bool v) (\<lambda>x. Inr (r\<lparr>Convert := x\<rparr>))"
| "slot_assign S_Date v r = obind (as_string v) (\<lambda>x. Inr (r\<lparr>Date := x\<rparr>))"
| "slot_assign S_Documentary v r = obind (as_bool v) (\<lambda>x. Inr (r\<lparr>Documentary := x\<rparr>))"
| "slot_assign S_Dubbed v r = obind (as_bool v) (\<lambda>x. Inr (r\<lparr>Dubbed := x\<rparr>))"
| "slot_assign S_Edition v r = obind (as_string v) (\<lambda>x. Inr (r\<lparr>Edition := x\<rparr>))"
| "slot_assign S_EpisodeCode v r = obind (as_string v) (\<lambda>x. Inr (r\<lparr>EpisodeCode := x\<rparr>))"
| "slot_assign S_Episodes v r = obind (as_ints v) (\<lambda>x. Inr (r\<lparr>Episodes := x\<rparr>))"
| "slot_assign S_Extended v r = obind (as_bool v) (\<lambda>x. Inr (r\<lparr>Extended := x\<rparr>))"
| "slot_assign S_Extension v r = obind (as_string v) (\<lambda>x. Inr (r\<lparr>Extension := x\<rparr>))"
| "slot_assign S_Group v r = obind (as_string v) (\<lambda>x. Inr (r\<lparr>Group := x\<rparr>))"
| "slot_assign S_Hardcoded v r = obind (as_bool v) (\<lambda>x. Inr (r\<lparr>Hardcoded := x\<rparr>))"
| "slot_assign S_HDR v r = obind (as_value_set v) (\<lambda>x. Inr (r\<lparr>HDR := x\<rparr>))"
| "slot_assign S_Languages v r = obind (as_value_set v) (\<lambda>x. Inr (r\<lparr>Languages := x\<rparr>))"
| "slot_assign S_Network v r = obind (as_string v) (\<lambda>x. Inr (r\<lparr>Network := x\<rparr>))"
| "slot_assign S_Proper v r = obind (as_bool v) (\<lambda>x. Inr (r\<lparr>Proper := x\<rparr>))"
| "slot_assign S_Region v r = obind (as_string v) (\<lambda>x. Inr (r\<lparr>Region := x\<rparr>))"
| "slot_assign S_Remastered v r = obind (as_bool v) (\<lambda>x. Inr (r\<lparr>Remastered := x\<rparr>))"
| "slot_assign S_Repack v r = obind (as_bool v) (\<lambda>x. Inr (r\<lparr>Repack := x\<rparr>))"
| "slot_assign S_Resolution v r = obind (as_string v) (\<lambda>x. Inr (r\<lparr>Resolution := x\<rparr>))"
| "slot_assign S_Retail v r = obind (as_bool v) (\<lambda>x. Inr (r\<lparr>Retail := x\<rparr>))"
| "slot_assign S_Seasons v r = obind (as_ints v) (\<lambda>x. Inr (r\<lparr>Seasons := x\<rparr>))"
| "slot_assign S_Size v r = obind (as_string v) (\<lambda>x. Inr (r\<lparr>Size := x\<rparr>))"
| "slot_assign S_Site v r = obind (as_string v) (\<lambda>x. Inr (r\<lparr>Site := x\<rparr>))"
| "slot_assign S_Quality v r = obind (as_string v) (\<lambda>x. Inr (r\<lparr>Quality := x\<rparr>))"
| "slot_assign S_ReleaseTypes v r = obind (as_value_set v) (\<lambda>x. Inr (r\<lparr>ReleaseTypes := x\<rparr>))"
| "slot_assign S_Subbed v r = obind (as_bool v) (\<lambda>x. Inr (r\<lparr>Subbed := x\<rparr>))"
| "slot_assign S_ThreeD v r = obind (as_string v) (\<lambda>x. Inr (r\<lparr>ThreeD := x\<rparr>))"
| "slot_assign S_Uncensored v r = obind (as_bool v) (\<lambda>x. Inr (r\<lparr>Uncensored := x\<rparr>))"
| "slot_assign S_Unrated v r = obind (as_bool v) (\<lambda>x. Inr (r\<lparr>Unrated := x\<rparr>))"
| "slot_assign S_Upscaled v r = obind (as_bool v) (\<lambda>x. Inr (r\<lparr>Upscaled := x\<rparr>))"
| "slot_assign S_Volumes v r = obind (as_ints v) (\<lambda>x. Inr (r\<lparr>Volumes := x\<rparr>))"
| "slot_assign S_Year v r = obind (as_string v) (\<lambda>x. Inr (r\<lparr>Year := x\<rparr>))"

fun slot_update :: "slot \<Rightarrow> anyval \<Rightarrow> Result \<Rightarrow> Result" where
  "slot_update S_Audio v r = r\<lparr>Audio := the_value_set v\<rparr>"
| "slot_update S_BitDepth v r = r\<lparr>BitDepth := the_string v\<rparr>"
| "slot_update S_Channels v r = r\<lparr>Channels := the_value_set v\<rparr>"
| "slot_update S_Codec v r = r\<lparr>Codec := the_string v\<rparr>"
| "slot_update S_Commentary v r = r\<lparr>Commentary := the_bool v\<rparr>"
| "slot_update S_Complete v r = r\<lparr>Complete := the_bool v\<rparr>"
| "slot_update S_Container v r = r\<lparr>Container := the_string v\<rparr>"
| "slot_update S_Convert v r = r\<lparr>Convert := the_bool v\<rparr>"
| "slot_update S_Date v r = r\<lparr>Date := the_string v\<rparr>"
| "slot_update S_Documentary v r = r\<lparr>Documentary := the_bool v\<rparr>"
| "slot_update S_Dubbed v r = r\<lparr>Dubbed := the_bool v\<rparr>"
| "slot_update S_Edition v r = r\<lparr>Edition := the_string v\<rparr>"
| "slot_update S_EpisodeCode v r = r\<lparr>EpisodeCode := the_string v\<rparr>"
| "slot_update S_Episodes v r = r\<lparr>Episodes := the_ints v\<rparr>"
| "slot_update S_Extended v r = r\<lparr>Extended := the_bool v\<rparr>"
| "slot_update S_Extension v r = r\<lparr>Extension := the_string v\<rparr>"
| "slot_update S_Group v r = r\<lparr>Group := the_string v\<rparr>"
| "slot_update S_Hardcoded v r = r\<lparr>Hardcoded := the_bool v\<rparr>"
| "slot_update S_HDR v r = r\<lparr>HDR := the_value_set v\<rparr>"
| "slot_update S_Languages v r = r\<lparr>Languages := the_value_set v\<rparr>"
| "slot_update S_Network v r = r\<lparr>Network := the_string v\<rparr>"
| "slot_update S_Proper v r = r\<lparr>Proper := the_bool v\<rparr>"
| "slot_update S_Region v r = r\<lparr>Region := the_string v\<rparr>"
| "slot_update S_Remastered v r = r\<lparr>Remastered := the_bool v\<rparr>"
| "slot_update S_Repack v r = r\<lparr>Repack := the_bool v\<rparr>"
| "slot_update S_Resolution v r = r\<lparr>Resolution := the_string v\<rparr>"
| "slot_update S_Retail v r = r\<lparr>Retail := the_bool v\<rparr>"
| "slot_update S_Seasons v r = r\<lparr>Seasons := the_ints v\<rparr>"
| "slot_update S_Size v r = r\<lparr>Size := the_string v\<rparr>"
| "slot_update S_Site v r = r\<lparr>Site := the_string v\<rparr>"
| "slot_update S_Quality v r = r\<lparr>Quality := the_string v\<rparr>"
| "slot_update S_ReleaseTypes v r = r\<lparr>ReleaseTypes := the_value_set v\<rparr>"
| "slot_update S_Subbed v r = r\<lparr>Subbed := the_bool v\<rparr>"
| "slot_update S_ThreeD v r = r\<lparr>ThreeD := the_string v\<rparr>"
| "slot_update S_Uncensored v r = r\<lparr>Uncensored := the_bool v\<rparr>"
| "slot_update S_Unrated v r = r\<lparr>Unrated := the_bool v\<rparr>"
| "slot_update S_Upscaled v r = r\<lparr>Upscaled := the_bool v\<rparr>"
| "slot_update S_Volumes v r = r\<lparr>Volumes := the_ints v\<rparr>"
| "slot_update S_Year v r = r\<lparr>Year := the_string v\<rparr>"

definition field_update :: "string \<Rightarrow> anyval \<Rightarrow> Result \<Rightarrow> Result" where
  "field_update field v r = (case slot_of field of None \<Rightarrow> r | Some s \<Rightarrow> slot_update s v r)"

subsection \<open>Typing of the field-state map\<close>

text \<open>
  The final loop of \<open>parse\<close> asserts a type for the value of every field. A map is typed
  when its keys are distinct and every value passes that assertion; a rule keeps the
  typing when no application of it to a typed map leaves an untyped one.

  The loop body hands the field state of the rule from the pattern branch to the
  processor and on to the transform. After the pattern branch the value is the matched
  text, or the value set of a value-set field (\<open>entry_ok\<close>); at the end it must be nil or
  of the field's type (\<open>post_ok\<close>); in between it may be either (\<open>pre_ok\<close>). Meanwhile
  the map is typed but for the entry of the rule's field (\<open>typed_except\<close>). A processor
  or transform is typed from one condition to another (\<open>stage_typed\<close>) when it takes
  field states of the first to field states of the second and keeps the rest of the
  map typed; a rule is typed (\<open>handler_typed\<close>) when its processor and its transform
  are, from what the rule has before them to \<open>post_ok\<close>.
\<close>

definition typed_map :: "result_map \<Rightarrow> bool" where
  "typed_map res = (distinct (map fst res) \<and> list_all (\<lambda>(f, m). type_ok f (val m)) res)"

definition keeps_typed :: "handler \<Rightarrow> bool" where
  "keeps_typed h =
     (\<forall>ord st st'. typed_map (result st) \<longrightarrow> apply_handler ord h st = Inr st' \<longrightarrow>
        typed_map (result st'))"

definition entry_ok :: "string \<Rightarrow> parseMeta \<Rightarrow> bool" where
  "entry_ok field m =
     (if has_value_set field then type_ok field (val m) else (case val m of VStr s \<Rightarrow> True | _ \<Rightarrow> False))"

definition typed_except :: "string \<Rightarrow> result_map \<Rightarrow> bool" where
  "typed_except f res =
     (distinct (map fst res) \<and> list_all (\<lambda>(g, m). g = f \<or> type_ok g (val m)) res)"

definition post_ok :: "string \<Rightarrow> parseMeta \<Rightarrow> bool" where
  "post_ok f m = (val m = VNil \<or> type_ok f (val m))"

definition pre_ok :: "string \<Rightarrow> parseMeta \<Rightarrow> bool" where
  "pre_ok f m = (post_ok f m \<or> entry_ok f m)"

definition stage_typed ::
  "string \<Rightarrow> (parseMeta \<Rightarrow> bool) \<Rightarrow> (parseMeta \<Rightarrow> bool) \<Rightarrow> hTransformer \<Rightarrow> bool" where
  "stage_typed f pre post fn =
     (\<forall>t m res m' res'. fn t m res = Inr (m', res') \<longrightarrow> typed_except f res \<longrightarrow> pre m \<longrightarrow>
        typed_except f res' \<and> post m')"

definition string_ok :: "string \<Rightarrow> bool" where
  "string_ok f = (\<forall>s. type_ok f (VStr s))"

definition bool_ok :: "string \<Rightarrow> bool" where
  "bool_ok f = type_ok f (VBool True)"

definition ints_ok :: "string \<Rightarrow> bool" where
  "ints_ok f = (\<forall>xs. type_ok f (VInts xs))"

definition handler_typed :: "handler \<Rightarrow> bool" where
  "handler_typed h =
     (let f = Field h;
          pre0 = (if Pattern h = None then post_ok f else entry_ok f) in
      case Transform h of
        None \<Rightarrow>
          (case Process h of
             None \<Rightarrow> Pattern h \<noteq> None \<longrightarrow> has_value_set f \<or> string_ok f
           | Some p \<Rightarrow> stage_typed f pre0 (post_ok f) p)
      | Some tr \<Rightarrow>
          stage_typed f (pre_ok f) (post_ok f) tr \<and>
          (case Process h of
             None \<Rightarrow> True
           | Some p \<Rightarrow> stage_typed f pre0 (pre_ok f) p))"

definition keeps_or_ints :: "parseMeta \<Rightarrow> result_map \<Rightarrow> (parseMeta \<times> result_map) outcome \<Rightarrow> bool" where
  "keeps_or_ints m res y =
     (case y of
        Inl e \<Rightarrow> True
      | Inr (m', res') \<Rightarrow> res' = res \<and> (val m' = val m \<or> (\<exists>xs. val m' = VInts xs)))"

section \<open>Lemmas on the tokenizers and on 64-bit arithmetic\<close>


lemma dropWhile_non_digit_digits:
  "list_all is_digit e \<Longrightarrow> dropWhile (\<lambda>x. \<not> is_digit x) e = e"
  by (cases e) auto

lemma split_non_digits_nonempty: "split_non_digits s \<noteq> []"
  by (induction s rule: split_non_digits.induct) (auto split: list.splits)

lemma split_non_digits_digits: "list_all is_digit e \<Longrightarrow> split_non_digits e = [e]"
  by (induction e) (auto split: list.splits)

lemma split_non_digits_append:
  "list_all is_digit s \<Longrightarrow>
   split_non_digits (s @ r) = (s @ hd (split_non_digits r)) # tl (split_non_digits r)"
proof (induction s)
  case Nil
  then show ?case using split_non_digits_nonempty [of r] by simp
next
  case (Cons c s)
  then show ?case by (simp split: list.splits)
qed

lemma split_non_digits_sep:
  assumes "sep \<noteq> []" "list_all (\<lambda>x. \<not> is_digit x) sep" "list_all is_digit e"
  shows "split_non_digits (sep @ e) = [[], e]"
proof -
  obtain c sep' where sep: "sep = c # sep'" using assms(1) by (cases sep) auto
  have "dropWhile (\<lambda>x. \<not> is_digit x) (sep' @ e) = dropWhile (\<lambda>x. \<not> is_digit x) e"
    using assms(2) sep by (intro dropWhile_append2) (auto simp: list_all_iff)
  then show ?thesis
    using assms sep by (simp add: dropWhile_non_digit_digits split_non_digits_digits)
qed

lemma split_non_digits_two:
  assumes "list_all is_digit s" "sep \<noteq> []" "list_all (\<lambda>x. \<not> is_digit x) sep" "list_all is_digit e"
  shows "split_non_digits (s @ sep @ e) = [s, e]"
  by (simp add: split_non_digits_append [OF assms(1)] split_non_digits_sep [OF assms(2-4)])

lemma digits_val_nonneg: "list_all is_digit ds \<Longrightarrow> 0 \<le> acc \<Longrightarrow> 0 \<le> digits_val acc ds"
  by (induction ds arbitrary: acc) (auto simp: is_digit_def digit_val_def)

lemma Atoi_digits_range:
  "list_all is_digit p \<Longrightarrow> Atoi p = Some n \<Longrightarrow> 0 \<le> n \<and> n \<le> int64_max"
  using digits_val_nonneg [of p 0]
  by (cases p) (auto simp: Atoi_def Let_def is_digit_def split: if_splits)

lemma wrap64_id: "int64_min \<le> x \<Longrightarrow> x \<le> int64_max \<Longrightarrow> wrap64 x = x"
  by (simp add: wrap64_def int64_min_def int64_max_def)

lemma two_digit_bound:
  assumes len: "length e = 2" and dig: "list_all is_digit e" and at: "Atoi e = Some ey"
  shows "ey < 100"
proof -
  obtain a b where e: "e = [a, b]"
    using len by (cases e; cases "tl e") auto
  have "digits_val 0 e = 10 * digit_val a + digit_val b" by (simp add: e)
  moreover have "digit_val a \<le> 9" "digit_val b \<le> 9"
    using dig by (auto simp: e is_digit_def digit_val_def)
  ultimately have "digits_val 0 e < 100" by simp
  then show ?thesis
    using at dig by (auto simp: e Atoi_def Let_def is_digit_def split: if_splits)
qed


















section \<open>Lemmas on the rule loop\<close>

lemma apply_handler_no_match:
  assumes "no_match h t" "title st = t" "result st = []"
  shows "apply_handler ord h st = Inr st"
proof (cases "Pattern h")
  case (Some pat)
  then show ?thesis
    using assms by (simp add: no_match_def apply_handler_def match_pattern_def obind_def Let_def)
next
  case None
  then obtain p m where p: "Process h = Some p" "p t new_parseMeta [] = Inr (m, [])" "val m = VNil"
    using assms(1) by (auto simp: no_match_def split: option.splits sum.splits)
  have "st\<lparr>result := []\<rparr> = st" using assms(3) by simp
  then show ?thesis
    using None p assms(2,3)
    by (cases "Transform h")
      (simp_all add: apply_handler_def run_process_def run_transform_def obind_def)
qed

lemma kt_apply_handler_no_match:
  assumes "no_match h t" "title st = t" "result st = []"
  shows "kt_apply_handler h st = Inr st"
proof (cases "Pattern h")
  case (Some pat)
  then show ?thesis
    using assms
    by (simp add: no_match_def kt_apply_handler_def kt_match_pattern_def obind_def Let_def)
next
  case None
  then obtain p m where p: "Process h = Some p" "p t new_parseMeta [] = Inr (m, [])" "val m = VNil"
    using assms(1) by (auto simp: no_match_def split: option.splits sum.splits)
  have "st\<lparr>result := []\<rparr> = st" using assms(3) by simp
  then show ?thesis
    using None p assms(2,3)
    by (simp add: kt_apply_handler_def kt_run_process_def obind_def)
qed

lemma run_handlers_no_match:
  "list_all (\<lambda>h. no_match h t) hs \<Longrightarrow> title st = t \<Longrightarrow> result st = [] \<Longrightarrow>
   run_handlers ord hs st = Inr st"
  by (induction hs) (auto simp: obind_def apply_handler_no_match)

lemma kt_run_handlers_no_match:
  "list_all (\<lambda>h. no_match h t) hs \<Longrightarrow> title st = t \<Longrightarrow> result st = [] \<Longrightarrow>
   kt_run_handlers hs st = Inr st"
  by (induction hs) (auto simp: obind_def kt_apply_handler_no_match)

lemma kt_assemble_empty: "kt_assemble toStr [] s = zero_Result\<lparr>Title := s\<rparr>"
  by (simp add: kt_assemble_def zero_Result_def extractString_def extractBoolean_def
      extractStringList_def extractIntList_def)

lemma run_handlers_append:
  "run_handlers ord (xs @ ys) st = obind (run_handlers ord xs st) (run_handlers ord ys)"
  by (induction xs arbitrary: st) (auto simp: obind_def split: sum.splits)

lemma kt_run_handlers_append:
  "kt_run_handlers (xs @ ys) st = obind (kt_run_handlers xs st) (kt_run_handlers ys)"
  by (induction xs arbitrary: st) (auto simp: obind_def split: sum.splits)

lemma select_handlers_filter:
  "select_handlers fieldNames hs acc = acc @ filter (\<lambda>h. Field h \<in> set fieldNames) hs"
  by (induction hs arbitrary: acc) auto

section \<open>The rule table\<close>

text \<open>Every rule of the table declares a field.\<close>

lemma handlers_001_declare_field: "list_all (\<lambda>h. Field h \<noteq> []) (handlers_001 env)"
  by (simp add: handlers_001_def handler0_def)

lemma handlers_021_declare_field: "list_all (\<lambda>h. Field h \<noteq> []) (handlers_021 env)"
  by (simp add: handlers_021_def handler0_def)

lemma handlers_041_declare_field: "list_all (\<lambda>h. Field h \<noteq> []) (handlers_041 env)"
  by (simp add: handlers_041_def handler0_def)

lemma handlers_061_declare_field: "list_all (\<lambda>h. Field h \<noteq> []) (handlers_061 env)"
  by (simp add: handlers_061_def handler0_def)

lemma handlers_081_declare_field: "list_all (\<lambda>h. Field h \<noteq> []) (handlers_081 env)"
  by (simp add: handlers_081_def handler0_def)

lemma handlers_101_declare_field: "list_all (\<lambda>h. Field h \<noteq> []) (handlers_101 env)"
  by (simp add: handlers_101_def handler0_def)

lemma handlers_121_declare_field: "list_all (\<lambda>h. Field h \<noteq> []) (handlers_121 env)"
  by (simp add: handlers_121_def handler0_def)

lemma handlers_141_declare_field: "list_all (\<lambda>h. Field h \<noteq> []) (handlers_141 env)"
  by (simp add: handlers_141_def handler0_def)

lemma handlers_161_declare_field: "list_all (\<lambda>h. Field h \<noteq> []) (handlers_161 env)"
  by (simp add: handlers_161_def handler0_def)

lemma handlers_181_declare_field: "list_all (\<lambda>h. Field h \<noteq> []) (handlers_181 env)"
  by (simp add: handlers_181_def handler0_def)

lemma handlers_201_declare_field: "list_all (\<lambda>h. Field h \<noteq> []) (handlers_201 env)"
  by (simp add: handlers_201_def handler0_def)

lemma handlers_221_declare_field: "list_all (\<lambda>h. Field h \<noteq> []) (handlers_221 env)"
  by (simp add: handlers_221_def handler0_def)

lemma handlers_241_declare_field: "list_all (\<lambda>h. Field h \<noteq> []) (handlers_241 env)"
  by (simp add: handlers_241_def handler0_def)

lemma handlers_261_declare_field: "list_all (\<lambda>h. Field h \<noteq> []) (handlers_261 env)"
  by (simp add: handlers_261_def handler0_def)

lemma handlers_281_declare_field: "list_all (\<lambda>h. Field h \<noteq> []) (handlers_281 env)"
  by (simp add: handlers_281_def handler0_def)

lemma handlers_301_declare_field: "list_all (\<lambda>h. Field h \<noteq> []) (handlers_301 env)"
  by (simp add: handlers_301_def handler0_def)

lemma handlers_321_declare_field: "list_all (\<lambda>h. Field h \<noteq> []) (handlers_321 env)"
  by (simp add: handlers_321_def handler0_def)

lemma handlers_341_declare_field: "list_all (\<lambda>h. Field h \<noteq> []) (handlers_341 env)"
  by (simp add: handlers_341_def handler0_def)

lemma handlers_361_declare_field: "list_all (\<lambda>h. Field h \<noteq> []) (handlers_361 env)"
  by (simp add: handlers_361_def handler0_def)

lemma handlers_381_declare_field: "list_all (\<lambda>h. Field h \<noteq> []) (handlers_381 ord env)"
  by (simp add: handlers_381_def handler0_def)

lemma handlers_declare_field: "list_all (\<lambda>h. Field h \<noteq> []) (handlers ord env)"
  unfolding handlers_def list_all_append
  by (intro conjI handlers_001_declare_field handlers_021_declare_field handlers_041_declare_field handlers_061_declare_field handlers_081_declare_field handlers_101_declare_field handlers_121_declare_field handlers_141_declare_field handlers_161_declare_field handlers_181_declare_field handlers_201_declare_field handlers_221_declare_field handlers_241_declare_field handlers_261_declare_field handlers_281_declare_field handlers_301_declare_field handlers_321_declare_field handlers_341_declare_field handlers_361_declare_field handlers_381_declare_field)
section \<open>The integer-range transform\<close>



section \<open>Normalize is idempotent\<close>

text \<open>
  C6. \<open>Normalize(Normalize(r)) = Normalize(r)\<close> for every Result, in the Go code and in
  the Kotlin port; a Result whose flag is set comes back unchanged, and the flag is set
  after the first call on a Result that has not failed.
\<close>

theorem Normalize_idempotent:
  "Normalize lower (Normalize lower r) = Normalize lower r \<and>
   kt_normalized lower (kt_normalized lower r) = kt_normalized lower r \<and>
   Normalize lower (r\<lparr>is_normalized := True\<rparr>) = r\<lparr>is_normalized := True\<rparr> \<and>
   kt_normalized lower (r\<lparr>is_normalized := True\<rparr>) = r\<lparr>is_normalized := True\<rparr> \<and>
   (is_normalized (Normalize lower r) \<or> err r \<noteq> None) \<and>
   (is_normalized (kt_normalized lower r) \<or> err r \<noteq> None)"
  by (simp add: Normalize_def kt_normalized_def)

theorem Normalize_idempotent_witness:
  "Normalize (\<lambda>s. s) (Normalize (\<lambda>s. s) (zero_Result\<lparr>Audio := [''AC3'', ''DD''], Codec := ''x264''\<rparr>))
     = zero_Result\<lparr>Audio := [''DD''], Codec := ''AVC'', is_normalized := True\<rparr>"
proof -
  have "Normalize (\<lambda>s. s) (zero_Result\<lparr>Audio := [''AC3'', ''DD''], Codec := ''x264''\<rparr>)
      = zero_Result\<lparr>Audio := [''DD''], Codec := ''AVC'', is_normalized := True\<rparr>"
    by (simp add: Normalize_def zero_Result_def normalize_audio_def normalize_codec_def
        normalize_resolution_def)
  then show ?thesis
    using Normalize_idempotent [of "\<lambda>s. s" "zero_Result\<lparr>Audio := [''AC3'', ''DD''], Codec := ''x264''\<rparr>"]
    by simp
qed

section \<open>The year-range transform\<close>

text \<open>
  C7. The year-range transform on a string. A value that is one run of digits comes
  back unchanged. For a value made of a start year, a run of non-digits and an end
  year, both of which \<open>Atoi\<close> reads: an end year below 100 is moved into the century of
  the start year, and the value is emptied when the computed end year is not above the
  start year; otherwise it is the two years joined by a dash. For an end year of two
  digits (and a start year that leaves room for the sum in 64 bits) the computed end
  year is \<open>100 * (start div 100) + end\<close>, the same century as the start.
\<close>

theorem to_year_range:
  assumes "list_all is_digit s" and "list_all is_digit e"
    and "sep \<noteq> []" and "list_all (\<lambda>x. \<not> is_digit x) sep"
    and "Atoi s = Some sy" and "Atoi e = Some ey"
  shows "to_year_value (VStr s) = VStr s \<and>
         to_year_value (VStr (s @ sep @ e)) =
           (let endYear = (if ey < 100 then wrap64 (wrap64 (ey + sy) - go_rem sy 100) else ey) in
            if endYear \<le> sy then VStr '''' else VStr (Itoa sy @ ''-'' @ Itoa endYear)) \<and>
         (length e = 2 \<and> sy + 100 \<le> int64_max \<longrightarrow>
            ey < 100 \<and>
            wrap64 (wrap64 (ey + sy) - go_rem sy 100) = 100 * (sy div 100) + ey \<and>
            (100 * (sy div 100) + ey) div 100 = sy div 100)"
proof (intro conjI impI)
  show "to_year_value (VStr s) = VStr s"
    by (simp add: to_year_value_def split_non_digits_digits [OF assms(1)])
  have "split_non_digits (s @ sep @ e) = [s, e]"
    using assms(1-4) by (simp add: split_non_digits_two)
  then show "to_year_value (VStr (s @ sep @ e)) =
           (let endYear = (if ey < 100 then wrap64 (wrap64 (ey + sy) - go_rem sy 100) else ey) in
            if endYear \<le> sy then VStr '''' else VStr (Itoa sy @ ''-'' @ Itoa endYear))"
    using assms(5,6) by (simp add: to_year_value_def Let_def)
next
  assume h: "length e = 2 \<and> sy + 100 \<le> int64_max"
  have sr: "0 \<le> sy" using Atoi_digits_range [OF assms(1,5)] by simp
  have er: "0 \<le> ey" using Atoi_digits_range [OF assms(2,6)] by simp
  show e100: "ey < 100" using h two_digit_bound [OF _ assms(2,6)] by simp
  have g: "go_rem sy 100 = sy mod 100" using sr by (simp add: go_rem_def sgn_if)
  have m: "0 \<le> sy mod 100" "sy mod 100 < 100" by simp_all
  have w1: "wrap64 (ey + sy) = ey + sy"
    using sr er e100 h by (intro wrap64_id) (simp_all add: int64_min_def)
  have "sy mod 100 \<le> sy" using sr by (simp add: zmod_le_nonneg_dividend)
  then have lo: "int64_min \<le> ey + sy - sy mod 100"
    using er by (simp add: int64_min_def)
  have hi: "ey + sy - sy mod 100 \<le> int64_max"
    using e100 m(1) h by linarith
  have w2: "wrap64 (ey + sy - sy mod 100) = ey + sy - sy mod 100"
    using lo hi by (rule wrap64_id)
  have "sy = 100 * (sy div 100) + sy mod 100" by simp
  then show "wrap64 (wrap64 (ey + sy) - go_rem sy 100) = 100 * (sy div 100) + ey"
    unfolding g w1 w2 by linarith
  show "(100 * (sy div 100) + ey) div 100 = sy div 100"
    using er e100 by simp
qed

theorem to_year_range_witness:
  "to_year_value (VStr ''2007'') = VStr ''2007'' \<and>
   to_year_value (VStr ''2007-12'') = VStr ''2007-2012'' \<and>
   to_year_value (VStr ''2007-05'') = VStr ''''"
proof -
  have d1: "list_all is_digit ''2007''" by code_simp
  have d2: "list_all is_digit ''12''" by code_simp
  have d3: "list_all is_digit ''05''" by code_simp
  have s1: "''-'' \<noteq> []" by simp
  have s2: "list_all (\<lambda>x. \<not> is_digit x) ''-''" by code_simp
  have a1: "Atoi ''2007'' = Some 2007" by code_simp
  have a2: "Atoi ''12'' = Some 12" by code_simp
  have a3: "Atoi ''05'' = Some 5" by code_simp
  have v1: "(let endYear = (if (12::int) < 100 then wrap64 (wrap64 (12 + 2007) - go_rem 2007 100) else 12) in
            if endYear \<le> 2007 then VStr '''' else VStr (Itoa 2007 @ ''-'' @ Itoa endYear)) = VStr ''2007-2012''"
    by code_simp
  have v2: "(let endYear = (if (5::int) < 100 then wrap64 (wrap64 (5 + 2007) - go_rem 2007 100) else 5) in
            if endYear \<le> 2007 then VStr '''' else VStr (Itoa 2007 @ ''-'' @ Itoa endYear)) = VStr ''''"
    by code_simp
  show ?thesis
    using to_year_range [OF d1 d2 s1 s2 a1 a2] to_year_range [OF d1 d3 s1 s2 a1 a3]
    unfolding v1 v2 by simp
qed

section \<open>The skip-if-first policy\<close>

lemma skip_if_first_scan_eq:
  "skip_if_first_scan field i0 xs (ho, hb) =
     (if list_ex (\<lambda>(f, fm). f \<noteq> field \<and> mIndex fm \<le> i0) xs then (True, True)
      else (ho \<or> list_ex (\<lambda>(f, fm). f \<noteq> field) xs, hb))"
proof (induction xs arbitrary: ho hb)
  case Nil
  then show ?case by simp
next
  case (Cons p xs)
  obtain f fm where p: "p = (f, fm)" by (cases p)
  show ?case
    by (cases "f = field"; cases "mIndex fm \<le> i0") (simp_all add: Cons.IH p)
qed

lemma skip_if_first_set:
  "skip_if_first ord field i0 res =
     ((\<exists>(f, fm) \<in> set (ord res). f \<noteq> field) \<and>
      (\<forall>(f, fm) \<in> set (ord res). f \<noteq> field \<longrightarrow> i0 < mIndex fm))"
proof (cases "list_ex (\<lambda>(f, fm). f \<noteq> field \<and> mIndex fm \<le> i0) (ord res)")
  case True
  then obtain f fm where "(f, fm) \<in> set (ord res)" "f \<noteq> field" "mIndex fm \<le> i0"
    by (auto simp: list_ex_iff)
  then have "\<not> (\<forall>(f, fm) \<in> set (ord res). f \<noteq> field \<longrightarrow> i0 < mIndex fm)"
    by (auto intro!: bexI [of _ "(f, fm)"])
  then show ?thesis
    using True by (simp add: skip_if_first_def skip_if_first_scan_eq)
next
  case False
  then have "\<forall>(f, fm) \<in> set (ord res). f \<noteq> field \<longrightarrow> i0 < mIndex fm"
    by (auto simp: list_ex_iff)
  then show ?thesis
    using False by (simp add: skip_if_first_def skip_if_first_scan_eq list_ex_iff)
qed

text \<open>
  C1, as stated, fails: with the year matched at offset 3 and a skip-if-first region
  candidate at offset 8, another field has a match at or before the candidate and the
  region has none, yet the candidate is kept (by the Go engine and by the port).
\<close>

theorem skip_if_first_counterexample:
  "spec_skip_if_first ''region'' 8 [(''year'', new_parseMeta\<lparr>mIndex := 3\<rparr>)] \<and>
   \<not> skip_if_first id ''region'' 8 [(''year'', new_parseMeta\<lparr>mIndex := 3\<rparr>)] \<and>
   \<not> kt_skip_if_first ''region'' 8 [(''year'', new_parseMeta\<lparr>mIndex := 3\<rparr>)] \<and>
   parse id id ''ab 2020 R5''
     [rule ''year'' (find_literal ''2020''),
      (rule ''region'' (find_literal ''R5''))\<lparr>SkipIfFirst := True\<rparr>]
     = Inr (zero_Result\<lparr>Region := ''R5'', Year := ''2020'', Title := ''ab ''\<rparr>)"
  by code_simp

text \<open>
  C1, amended. A validated candidate of a skip-if-first rule is discarded exactly when
  some other field is recorded and every other field's recorded offset is strictly
  after the candidate's start (the candidate would be the first match in the title),
  in whatever order the map is visited; whether this field has a match of its own
  plays no part. A discarded candidate leaves the state as it was; otherwise the
  candidate is kept (a skip-if-before list may still discard it).
\<close>

theorem skip_if_first_decision:
  "(mset (ord res) = mset res \<longrightarrow>
      skip_if_first ord field i0 res =
        ((\<exists>(f, fm) \<in> set res. f \<noteq> field) \<and>
         (\<forall>(f, fm) \<in> set res. f \<noteq> field \<longrightarrow> i0 < mIndex fm))) \<and>
   (Pattern h = Some pat \<and> SkipIfFirst h \<and>
    (map_of (result st) (Field h) = None \<or> KeepMatching h) \<and> pat (title st) \<noteq> [] \<and>
    (case ValidateMatch h of None \<Rightarrow> Inr True | Some v \<Rightarrow> v (title st) (pat (title st))) = Inr True \<longrightarrow>
      (skip_if_first ord (Field h) (pat (title st) ! 0) (result st) \<longrightarrow>
         apply_handler ord h st = Inr st) \<and>
      (\<not> skip_if_first ord (Field h) (pat (title st) ! 0) (result st) \<and> SkipIfBefore h = [] \<longrightarrow>
         match_pattern ord h pat (title st) (result st) \<noteq> Inr None))"
proof (intro conjI impI)
  assume "mset (ord res) = mset res"
  then have "set (ord res) = set res" by (rule mset_eq_setD)
  then show "skip_if_first ord field i0 res =
        ((\<exists>(f, fm) \<in> set res. f \<noteq> field) \<and>
         (\<forall>(f, fm) \<in> set res. f \<noteq> field \<longrightarrow> i0 < mIndex fm))"
    by (simp add: skip_if_first_set)
next
  assume c: "Pattern h = Some pat \<and> SkipIfFirst h \<and>
    (map_of (result st) (Field h) = None \<or> KeepMatching h) \<and> pat (title st) \<noteq> [] \<and>
    (case ValidateMatch h of None \<Rightarrow> Inr True | Some v \<Rightarrow> v (title st) (pat (title st))) = Inr True"
  {
    assume "skip_if_first ord (Field h) (pat (title st) ! 0) (result st)"
    then have "match_pattern ord h pat (title st) (result st) = Inr None"
      using c by (auto simp: match_pattern_def Let_def obind_def)
    then show "apply_handler ord h st = Inr st"
      using c by (simp add: apply_handler_def obind_def)
  next
    assume "\<not> skip_if_first ord (Field h) (pat (title st) ! 0) (result st) \<and> SkipIfBefore h = []"
    then show "match_pattern ord h pat (title st) (result st) \<noteq> Inr None"
      using c by (auto simp: match_pattern_def Let_def obind_def split: sum.splits)
  }
qed

theorem skip_if_first_decision_witness:
  "skip_if_first (\<lambda>m. m) ''region'' 0 [(''year'', new_parseMeta\<lparr>mIndex := 3\<rparr>)] \<and>
   apply_handler (\<lambda>m. m) ((rule ''region'' (find_literal ''R5''))\<lparr>SkipIfFirst := True\<rparr>)
     \<lparr> title = ''R5 2020'', result = [(''year'', new_parseMeta\<lparr>mIndex := 3\<rparr>)], endOfTitle = 3 \<rparr>
   = Inr \<lparr> title = ''R5 2020'', result = [(''year'', new_parseMeta\<lparr>mIndex := 3\<rparr>)], endOfTitle = 3 \<rparr> \<and>
   match_pattern (\<lambda>m. m) ((rule ''region'' (find_literal ''R5''))\<lparr>SkipIfFirst := True\<rparr>)
     (find_literal ''R5'') ''ab 2020 R5'' [(''year'', new_parseMeta\<lparr>mIndex := 3\<rparr>)] \<noteq> Inr None"
proof -
  let ?h = "(rule ''region'' (find_literal ''R5''))\<lparr>SkipIfFirst := True\<rparr>"
  let ?res = "[(''year'', new_parseMeta\<lparr>mIndex := 3\<rparr>)]"
  let ?st = "\<lparr> title = ''R5 2020'', result = ?res, endOfTitle = 3 \<rparr>"
  let ?st' = "\<lparr> title = ''ab 2020 R5'', result = ?res, endOfTitle = 3 \<rparr>"
  have p: "Pattern ?h = Some (find_literal ''R5'')" "SkipIfFirst ?h" "SkipIfBefore ?h = []"
    "ValidateMatch ?h = None" "Field ?h = ''region''"
    by (simp_all add: rule_def)
  have f: "find_literal ''R5'' ''R5 2020'' = [0, 2]" "find_literal ''R5'' ''ab 2020 R5'' = [8, 10]"
    by code_simp+
  have s: "skip_if_first (\<lambda>m. m) ''region'' 0 ?res" "\<not> skip_if_first (\<lambda>m. m) ''region'' 8 ?res"
    by code_simp+
  have c: "Pattern ?h = Some (find_literal ''R5'') \<and> SkipIfFirst ?h \<and>
      (map_of (result ?st) (Field ?h) = None \<or> KeepMatching ?h) \<and>
      find_literal ''R5'' (title ?st) \<noteq> [] \<and>
      (case ValidateMatch ?h of None \<Rightarrow> Inr True
       | Some v \<Rightarrow> v (title ?st) (find_literal ''R5'' (title ?st))) = Inr True"
    using p f by simp
  have c': "Pattern ?h = Some (find_literal ''R5'') \<and> SkipIfFirst ?h \<and>
      (map_of (result ?st') (Field ?h) = None \<or> KeepMatching ?h) \<and>
      find_literal ''R5'' (title ?st') \<noteq> [] \<and>
      (case ValidateMatch ?h of None \<Rightarrow> Inr True
       | Some v \<Rightarrow> v (title ?st') (find_literal ''R5'' (title ?st'))) = Inr True"
    using p f by simp
  have 1: "apply_handler (\<lambda>m. m) ?h ?st = Inr ?st"
    using skip_if_first_decision [of "\<lambda>m. m" ?res "''region''" 0 ?h "find_literal ''R5''" ?st]
      c s p f by simp
  have 2: "match_pattern (\<lambda>m. m) ?h (find_literal ''R5'') ''ab 2020 R5'' ?res \<noteq> Inr None"
    using skip_if_first_decision [of "\<lambda>m. m" ?res "''region''" 8 ?h "find_literal ''R5''" ?st']
      c' s p f by simp
  show ?thesis using s(1) 1 2 by simp
qed

section \<open>Title boundary tracking\<close>

lemma update_boundary_cases:
  "update_boundary skipFromTitle m e =
     (if \<not> skipFromTitle \<and> mIndex m \<noteq> 0 \<and> mIndex m < e then mIndex m
      else if remove m \<and> skipFromTitle \<and> mIndex m < e then e - int (length (mValue m))
      else e)"
  by (auto simp: update_boundary_def Let_def)

lemma apply_handler_stages: "apply_handler ord h st = obind (stages ord h st) (finish h st)"
proof (cases "match_stage ord h st")
  case (Inl e)
  then show ?thesis
    unfolding apply_handler_def stages_def match_stage_def [symmetric] by (simp add: obind_def)
next
  case (Inr matched)
  show ?thesis
  proof (cases matched)
    case None
    then show ?thesis
      unfolding apply_handler_def stages_def match_stage_def [symmetric]
      by (simp add: obind_def Inr finish_def)
  next
    case (Some x)
    obtain skip mo res where x: "x = (skip, mo, res)" by (cases x)
    show ?thesis
    proof (cases "run_process h (title st) mo res")
      case e: (Inl e)
      then show ?thesis
        unfolding apply_handler_def stages_def match_stage_def [symmetric]
        by (simp add: obind_def Inr Some x)
    next
      case rp: (Inr y)
      obtain mo' mFound res' where y: "y = (mo', mFound, res')" by (cases y)
      show ?thesis
      proof (cases mo')
        case None
        then show ?thesis
          unfolding apply_handler_def stages_def match_stage_def [symmetric]
          by (simp add: obind_def Inr Some x rp y)
      next
        case sm: (Some m)
        show ?thesis
        proof (cases "run_transform h (title st) m mFound res'")
          case (Inl e)
          then show ?thesis
            unfolding apply_handler_def stages_def match_stage_def [symmetric]
            by (simp add: obind_def Inr Some x rp y sm)
        next
          case rt: (Inr z)
          obtain m' res'' where z: "z = (m', res'')" by (cases z)
          show ?thesis
            unfolding apply_handler_def stages_def match_stage_def [symmetric]
            by (simp add: obind_def Inr Some x rp y sm rt z finish_def)
        qed
      qed
    qed
  qed
qed

lemma stages_cases:
  assumes "stages ord h st = Inr (Some (skip, m, mFound, res))"
  obtains mo res0 m1 res1 where
    "match_stage ord h st = Inr (Some (skip, mo, res0))"
    "run_process h (title st) mo res0 = Inr (Some m1, mFound, res1)"
    "run_transform h (title st) m1 mFound res1 = Inr (m, res)"
  using assms unfolding stages_def
  by (auto simp: obind_def split: sum.splits option.splits prod.splits)

lemma finish_surviving:
  assumes "stages ord h st = Inr (Some (skipFromTitle, m, mFound, res))"
    and "surviving ord h st = Some (sk, m')"
  shows "sk = skipFromTitle \<and> m' = m \<and>
     apply_handler ord h st =
       obind
         (if Remove h \<or> remove m then
            obind (splice_title (title st) m) (\<lambda>t. Inr (m\<lparr>remove := True\<rparr>, t))
          else Inr (m, title st))
         (\<lambda>(m, t).
          Inr \<lparr> title = t,
                result = AList.update (Field h) (m\<lparr>remove := False, processed := True\<rparr>) res,
                endOfTitle = update_boundary skipFromTitle m (endOfTitle st) \<rparr>)"
  using assms
  by (auto simp: surviving_def apply_handler_stages obind_def finish_def split: if_splits)

lemma surviving_boundary:
  assumes "surviving ord h st = Some (skipFromTitle, m)"
  shows "case apply_handler ord h st of
           Inr st' \<Rightarrow>
             endOfTitle st' =
               (if \<not> skipFromTitle \<and> mIndex m \<noteq> 0 \<and> mIndex m < endOfTitle st then mIndex m
                else if (Remove h \<or> remove m) \<and> skipFromTitle \<and> mIndex m < endOfTitle st
                then endOfTitle st - int (length (mValue m))
                else endOfTitle st)
         | Inl e \<Rightarrow> (Remove h \<or> remove m) \<and> splice_title (title st) m = Inl e"
proof -
  from assms obtain mFound res where s: "stages ord h st = Inr (Some (skipFromTitle, m, mFound, res))"
    by (auto simp: surviving_def split: sum.splits option.splits if_splits)
  note eq = finish_surviving [OF s assms, THEN conjunct2, THEN conjunct2]
  show ?thesis
  proof (cases "Remove h \<or> remove m")
    case True
    then show ?thesis
      unfolding eq
      by (cases "splice_title (title st) m") (simp_all add: obind_def update_boundary_cases)
  next
    case False
    then show ?thesis
      unfolding eq by (simp add: obind_def update_boundary_cases)
  qed
qed

lemma not_surviving_boundary:
  assumes "surviving ord h st = None" and "apply_handler ord h st = Inr st'"
  shows "endOfTitle st' = endOfTitle st \<and> title st' = title st"
proof (cases "stages ord h st")
  case (Inl e)
  then show ?thesis using assms(2) by (simp add: apply_handler_stages obind_def)
next
  case (Inr x)
  show ?thesis
  proof (cases x)
    case None
    then show ?thesis using assms(2) Inr by (simp add: apply_handler_stages obind_def finish_def)
  next
    case (Some y)
    obtain sk m mFound res where y: "y = (sk, m, mFound, res)" by (cases y)
    have "val m = VNil \<or> \<not> mFound \<or> (processed m \<and> \<not> KeepMatching h \<and> \<not> has_value_set (Field h))"
      using assms(1) Inr Some y by (auto simp: surviving_def split: if_splits)
    then show ?thesis
      using assms(2) Inr Some y
      by (auto simp: apply_handler_stages obind_def finish_def split: if_splits)
  qed
qed


text \<open>
  C2, as stated, fails twice. A removed skip-from-title match at offset 10, with the
  boundary already at 5, does not retract the boundary by the length of the removed
  text: the retraction has the guard \<open>m.mIndex < endOfTitle\<close>. And a match at offset 0
  does move the boundary when it is removed and skip-from-title: the retraction takes
  the boundary from 13 to 10.
\<close>

theorem update_boundary_counterexample:
  "update_boundary True
     \<lparr> mIndex = 10, mValue = ''PPV'', val = VStr ''PPV'', remove = True, processed = False \<rparr> 5 = 5 \<and>
   spec_update_boundary True
     \<lparr> mIndex = 10, mValue = ''PPV'', val = VStr ''PPV'', remove = True, processed = False \<rparr> 5 = 2 \<and>
   parse id id ''Show 2020 PPV x''
     [rule ''year'' (find_literal ''2020''),
      (rule ''ppv'' (find_literal ''PPV''))\<lparr>Remove := True, SkipFromTitle := True\<rparr>]
     = Inr (zero_Result\<lparr>Year := ''2020'', Title := ''Show ''\<rparr>) \<and>
   apply_handler id ((rule ''ppv'' (find_literal ''PPV''))\<lparr>Remove := True, SkipFromTitle := True\<rparr>)
     \<lparr> title = ''PPV Show 2020'', result = [], endOfTitle = 13 \<rparr>
     = Inr \<lparr> title = '' Show 2020'',
             result = [(''ppv'', \<lparr> mIndex = 0, mValue = ''PPV'', val = VStr ''PPV'',
                                  remove = False, processed = True \<rparr>)],
             endOfTitle = 10 \<rparr>"
  by code_simp

text \<open>
  C2, amended. For a rule application that survives rejection the boundary becomes the
  match's offset exactly when the application is not skip-from-title, the offset is not
  0 and the offset is below the recorded boundary; when the match was removed and is
  skip-from-title, the boundary is retracted by the length of the removed text provided
  the match's offset is below the boundary; in every other case it stays, and so it
  does when the application is rejected. A match at offset 0 that is not both removed
  and skip-from-title leaves the boundary as it is. For a title on which no rule finds
  anything (no pattern matches, no pattern-less processor yields a value), the Result
  is empty but for the clean title, which is the cleanup of the whole input: the
  engine's replacement of whitespace and underscore runs, then the title cleanup; so
  for the Kotlin port.
\<close>

theorem boundary_tracking:
  "(surviving ord h st = Some (skipFromTitle, m) \<longrightarrow>
      (case apply_handler ord h st of
         Inr st' \<Rightarrow>
           endOfTitle st' =
             (if \<not> skipFromTitle \<and> mIndex m \<noteq> 0 \<and> mIndex m < endOfTitle st then mIndex m
              else if (Remove h \<or> remove m) \<and> skipFromTitle \<and> mIndex m < endOfTitle st
              then endOfTitle st - int (length (mValue m))
              else endOfTitle st)
       | Inl e \<Rightarrow> (Remove h \<or> remove m) \<and> splice_title (title st) m = Inl e)) \<and>
   (surviving ord h st = Some (skipFromTitle, m) \<and> apply_handler ord h st = Inr st' \<and>
    mIndex m = 0 \<and> \<not> ((Remove h \<or> remove m) \<and> skipFromTitle) \<longrightarrow>
      endOfTitle st' = endOfTitle st) \<and>
   (surviving ord h st = None \<and> apply_handler ord h st = Inr st' \<longrightarrow>
      endOfTitle st' = endOfTitle st \<and> title st' = title st) \<and>
   (ord [] = [] \<and> list_all (\<lambda>h. no_match h (normalize_title t)) hs \<longrightarrow>
      parse ord clean_title t hs = Inr (zero_Result\<lparr>Title := clean_title (normalize_title t)\<rparr>)) \<and>
   (list_all (\<lambda>h. no_match h (kt_normalize_title t)) hs \<longrightarrow>
      kt_parse toStr clean_title t hs = Inr (zero_Result\<lparr>Title := clean_title (kt_normalize_title t)\<rparr>))"
proof (intro conjI impI)
  show "case apply_handler ord h st of
         Inr st' \<Rightarrow>
           endOfTitle st' =
             (if \<not> skipFromTitle \<and> mIndex m \<noteq> 0 \<and> mIndex m < endOfTitle st then mIndex m
              else if (Remove h \<or> remove m) \<and> skipFromTitle \<and> mIndex m < endOfTitle st
              then endOfTitle st - int (length (mValue m))
              else endOfTitle st)
       | Inl e \<Rightarrow> (Remove h \<or> remove m) \<and> splice_title (title st) m = Inl e"
    if "surviving ord h st = Some (skipFromTitle, m)"
    using that by (rule surviving_boundary)
  show "endOfTitle st' = endOfTitle st"
    if "surviving ord h st = Some (skipFromTitle, m) \<and> apply_handler ord h st = Inr st' \<and>
      mIndex m = 0 \<and> \<not> ((Remove h \<or> remove m) \<and> skipFromTitle)"
    using surviving_boundary [of ord h st skipFromTitle m] that by auto
  show "endOfTitle st' = endOfTitle st" "title st' = title st"
    if "surviving ord h st = None \<and> apply_handler ord h st = Inr st'"
    using not_surviving_boundary [of ord h st st'] that by simp_all
next
  assume h: "ord [] = [] \<and> list_all (\<lambda>h. no_match h (normalize_title t)) hs"
  let ?st = "\<lparr> title = normalize_title t, result = [], endOfTitle = int (length (normalize_title t)) \<rparr>"
  have "run_handlers ord hs ?st = Inr ?st"
    using h by (intro run_handlers_no_match [of "normalize_title t"]) simp_all
  then show "parse ord clean_title t hs = Inr (zero_Result\<lparr>Title := clean_title (normalize_title t)\<rparr>)"
    using h by (simp add: parse_def Let_def recover_parse_def)
next
  assume h: "list_all (\<lambda>h. no_match h (kt_normalize_title t)) hs"
  let ?st = "\<lparr> title = kt_normalize_title t, result = [], endOfTitle = int (length (kt_normalize_title t)) \<rparr>"
  have "kt_run_handlers hs ?st = Inr ?st"
    using h by (intro kt_run_handlers_no_match [of "kt_normalize_title t"]) simp_all
  then show "kt_parse toStr clean_title t hs = Inr (zero_Result\<lparr>Title := clean_title (kt_normalize_title t)\<rparr>)"
    by (simp add: kt_parse_def Let_def kt_assemble_empty)
qed

theorem boundary_tracking_witness:
  "(case apply_handler (\<lambda>m. m) (rule ''year'' (find_literal ''2020''))
           \<lparr> title = ''Show 2020 PPV x'', result = [], endOfTitle = 15 \<rparr> of
      Inr st' \<Rightarrow> endOfTitle st' = 5
    | Inl e \<Rightarrow> False) \<and>
   (case apply_handler (\<lambda>m. m)
           ((rule ''ppv'' (find_literal ''PPV''))\<lparr>Remove := True, SkipFromTitle := True\<rparr>)
           \<lparr> title = ''Show PPV 2020'', result = [], endOfTitle = 13 \<rparr> of
      Inr st' \<Rightarrow> endOfTitle st' = 10
    | Inl e \<Rightarrow> False) \<and>
   (case apply_handler (\<lambda>m. m) (rule ''group'' (find_literal ''Show''))
           \<lparr> title = ''Show 2020'', result = [], endOfTitle = 9 \<rparr> of
      Inr st' \<Rightarrow> endOfTitle st' = 9
    | Inl e \<Rightarrow> False) \<and>
   (case apply_handler (\<lambda>m. m) (rule ''year'' (find_literal ''2020''))
           \<lparr> title = ''The Show x'', result = [], endOfTitle = 10 \<rparr> of
      Inr st' \<Rightarrow> endOfTitle st' = 10 \<and> title st' = ''The Show x''
    | Inl e \<Rightarrow> False) \<and>
   parse id id ''The_Show  x''
     [rule ''year'' (find_literal ''2020''),
      process_rule ''group'' (group_processor id)]
     = Inr (zero_Result\<lparr>Title := ''The Show x''\<rparr>) \<and>
   kt_parse (\<lambda>v. []) id ''The_Show  x''
     [rule ''year'' (find_literal ''2020''),
      process_rule ''group'' (group_processor id)]
     = Inr (zero_Result\<lparr>Title := ''The Show x''\<rparr>)"
proof -
  let ?year = "rule ''year'' (find_literal ''2020'')"
  let ?ppv = "(rule ''ppv'' (find_literal ''PPV''))\<lparr>Remove := True, SkipFromTitle := True\<rparr>"
  let ?group = "rule ''group'' (find_literal ''Show'')"
  let ?s1 = "\<lparr> title = ''Show 2020 PPV x'', result = [], endOfTitle = 15 \<rparr>"
  let ?s2 = "\<lparr> title = ''Show PPV 2020'', result = [], endOfTitle = 13 \<rparr>"
  let ?s3 = "\<lparr> title = ''Show 2020'', result = [], endOfTitle = 9 \<rparr>"
  let ?s4 = "\<lparr> title = ''The Show x'', result = [], endOfTitle = 10 \<rparr>"
  let ?m1 = "\<lparr> mIndex = 5, mValue = ''2020'', val = VStr ''2020'', remove = False, processed = False \<rparr>"
  let ?m2 = "\<lparr> mIndex = 5, mValue = ''PPV'', val = VStr ''PPV'', remove = False, processed = False \<rparr>"
  let ?m3 = "\<lparr> mIndex = 0, mValue = ''Show'', val = VStr ''Show'', remove = False, processed = False \<rparr>"
  let ?hs = "[rule ''year'' (find_literal ''2020''),
      process_rule ''group'' (group_processor id)]"
  have sv: "surviving (\<lambda>m. m) ?year ?s1 = Some (False, ?m1)"
    "surviving (\<lambda>m. m) ?ppv ?s2 = Some (True, ?m2)"
    "surviving (\<lambda>m. m) ?group ?s3 = Some (False, ?m3)"
    "surviving (\<lambda>m. m) ?year ?s4 = None"
    by code_simp+
  have ok: "case apply_handler (\<lambda>m. m) ?year ?s1 of Inr st' \<Rightarrow> True | Inl e \<Rightarrow> False"
    "case apply_handler (\<lambda>m. m) ?ppv ?s2 of Inr st' \<Rightarrow> True | Inl e \<Rightarrow> False"
    "case apply_handler (\<lambda>m. m) ?group ?s3 of Inr st' \<Rightarrow> True | Inl e \<Rightarrow> False"
    "case apply_handler (\<lambda>m. m) ?year ?s4 of Inr st' \<Rightarrow> True | Inl e \<Rightarrow> False"
    by code_simp+
  then have ap: "\<exists>st'. apply_handler (\<lambda>m. m) ?year ?s1 = Inr st'"
    "\<exists>st'. apply_handler (\<lambda>m. m) ?ppv ?s2 = Inr st'"
    "\<exists>st'. apply_handler (\<lambda>m. m) ?group ?s3 = Inr st'"
    "\<exists>st'. apply_handler (\<lambda>m. m) ?year ?s4 = Inr st'"
    by (auto split: sum.splits)
  have fl: "Remove ?year = False" "Remove ?ppv = True" "Remove ?group = False"
    by (simp_all add: rule_def)
  have 1: "case apply_handler (\<lambda>m. m) ?year ?s1 of Inr st' \<Rightarrow> endOfTitle st' = 5 | Inl e \<Rightarrow> False"
    using boundary_tracking [of "\<lambda>m. m" ?year ?s1 False ?m1] sv(1) ap(1) fl
    by (auto split: sum.splits)
  have 2: "case apply_handler (\<lambda>m. m) ?ppv ?s2 of Inr st' \<Rightarrow> endOfTitle st' = 10 | Inl e \<Rightarrow> False"
    using boundary_tracking [of "\<lambda>m. m" ?ppv ?s2 True ?m2] sv(2) ap(2) fl
    by (auto split: sum.splits)
  have 3: "case apply_handler (\<lambda>m. m) ?group ?s3 of Inr st' \<Rightarrow> endOfTitle st' = 9 | Inl e \<Rightarrow> False"
  proof -
    from ap(3) obtain st' where a: "apply_handler (\<lambda>m. m) ?group ?s3 = Inr st'" by blast
    have "surviving (\<lambda>m. m) ?group ?s3 = Some (False, ?m3) \<and>
        apply_handler (\<lambda>m. m) ?group ?s3 = Inr st' \<and>
        mIndex ?m3 = 0 \<and> \<not> ((Remove ?group \<or> remove ?m3) \<and> False)"
      using sv(3) a by simp
    then have "endOfTitle st' = endOfTitle ?s3"
      using boundary_tracking [of "\<lambda>m. m" ?group ?s3 False ?m3 st'] by blast
    then show ?thesis using a by simp
  qed
  have 4: "case apply_handler (\<lambda>m. m) ?year ?s4 of
      Inr st' \<Rightarrow> endOfTitle st' = 10 \<and> title st' = ''The Show x'' | Inl e \<Rightarrow> False"
  proof -
    from ap(4) obtain st' where a: "apply_handler (\<lambda>m. m) ?year ?s4 = Inr st'" by blast
    have "surviving (\<lambda>m. m) ?year ?s4 = None \<and> apply_handler (\<lambda>m. m) ?year ?s4 = Inr st'"
      using sv(4) a by simp
    then have "endOfTitle st' = endOfTitle ?s4 \<and> title st' = title ?s4"
      using boundary_tracking [of "\<lambda>m. m" ?year ?s4 _ _ st'] by blast
    then show ?thesis using a by simp
  qed
  have n: "normalize_title ''The_Show  x'' = ''The Show x''"
    "kt_normalize_title ''The_Show  x'' = ''The Show x''"
    by code_simp+
  have f: "find_literal ''2020'' ''The Show x'' = []" by code_simp
  have g: "group_processor id ''The Show x'' new_parseMeta [] = Inr (new_parseMeta, [])"
    by (simp add: group_processor_def new_parseMeta_def)
  have nm: "list_all (\<lambda>h. no_match h ''The Show x'') ?hs"
    using f g by (simp add: no_match_def rule_def process_rule_def new_parseMeta_def)
  have b: "id [] = ([] :: result_map) \<and> list_all (\<lambda>h. no_match h (normalize_title ''The_Show  x'')) ?hs"
    using nm by (simp add: n)
  have c: "list_all (\<lambda>h. no_match h (kt_normalize_title ''The_Show  x'')) ?hs"
    using nm by (simp add: n)
  have 5: "parse id id ''The_Show  x'' ?hs = Inr (zero_Result\<lparr>Title := ''The Show x''\<rparr>) \<and>
      kt_parse (\<lambda>v. []) id ''The_Show  x'' ?hs = Inr (zero_Result\<lparr>Title := ''The Show x''\<rparr>)"
    using boundary_tracking [of id _ _ _ _ _ "''The_Show  x''" ?hs id "\<lambda>v. []"] b c
    by (simp add: n)
  show ?thesis using 1 2 3 4 5 by simp
qed
section \<open>The recover barrier\<close>

text \<open>
  C3. When the rules before some rule have run and that rule's application raises a
  runtime fault, \<open>parse\<close> does not propagate it: it returns the Result whose error field
  holds the fault and whose other fields are all at their zero values, whatever the
  earlier rules had resolved and whatever rules follow. So for the Kotlin port and an
  exception.
\<close>

theorem parse_fault_recovered:
  "(run_handlers ord before
      \<lparr> title = normalize_title t, result = [], endOfTitle = int (length (normalize_title t)) \<rparr> = Inr st \<and>
    apply_handler ord h st = Inl (RuntimeError e) \<longrightarrow>
      parse ord clean_title t (before @ h # after) = Inr (zero_Result\<lparr>err := Some (RuntimeError e)\<rparr>)) \<and>
   (kt_run_handlers before
      \<lparr> title = kt_normalize_title t, result = [], endOfTitle = int (length (kt_normalize_title t)) \<rparr> = Inr st \<and>
    kt_apply_handler h st = Inl (RuntimeError e) \<longrightarrow>
      kt_parse toStr clean_title t (before @ h # after) = Inr (zero_Result\<lparr>err := Some (RuntimeError e)\<rparr>))"
  by (simp add: parse_def kt_parse_def Let_def run_handlers_append kt_run_handlers_append
      obind_def recover_parse_def)

theorem parse_fault_recovered_witness:
  "parse (\<lambda>m. m) (\<lambda>s. s) ''A.2020.RIP.x264''
     ([rule ''year'' (find_literal ''2020'')] @ rule ''quality'' (find_optional ''DVD-'' ''RIP'')
        # [rule ''codec'' (find_literal ''x264'')])
     = Inr (zero_Result\<lparr>err := Some (RuntimeError ''slice bounds out of range'')\<rparr>)"
proof -
  let ?st = "\<lparr> title = ''A.2020.RIP.x264'',
      result = [(''year'', \<lparr> mIndex = 2, mValue = ''2020'', val = VStr ''2020'', remove = False, processed = True \<rparr>)],
      endOfTitle = 2 \<rparr>"
  have n: "normalize_title ''A.2020.RIP.x264'' = ''A.2020.RIP.x264''" by code_simp
  have 1: "run_handlers (\<lambda>m. m) [rule ''year'' (find_literal ''2020'')]
      \<lparr> title = normalize_title ''A.2020.RIP.x264'', result = [],
        endOfTitle = int (length (normalize_title ''A.2020.RIP.x264'')) \<rparr> = Inr ?st"
    by code_simp
  have 2: "apply_handler (\<lambda>m. m) (rule ''quality'' (find_optional ''DVD-'' ''RIP'')) ?st
      = Inl (RuntimeError ''slice bounds out of range'')"
    by code_simp
  show ?thesis
    using parse_fault_recovered [of "\<lambda>m. m" "[rule ''year'' (find_literal ''2020'')]"
        "''A.2020.RIP.x264''" ?st "rule ''quality'' (find_optional ''DVD-'' ''RIP'')"
        "''slice bounds out of range''" "\<lambda>s. s" "[rule ''codec'' (find_literal ''x264'')]"] 1 2
    by blast
qed

section \<open>The partial parser\<close>

lemma spec_select_handlers_declared:
  "list_all (\<lambda>h. Field h \<noteq> []) hs \<Longrightarrow>
   spec_select_handlers fieldNames hs = filter (\<lambda>h. Field h \<in> set fieldNames) hs"
  unfolding spec_select_handlers_def
  by (induction hs) auto

text \<open>
  C8. Every rule of the table declares a field, so the rules with no declared field
  that the specification adds to the reduced list are none: for every list of
  requested field names the selection loop of \<open>GetPartialParser\<close> builds the list of
  the rules of the requested fields (plus the rules with no declared field), in the
  order of the table, and the returned function on any title is the engine run with
  that list. The same holds of any table whose rules all declare a field, and of the
  port's \<open>getPartialParser\<close> on such a table; the port's \<open>Handler\<close> cannot be built
  without a field, and its \<open>getPartialParser\<close> filters any table by the requested
  names.
\<close>

theorem partial_parser:
  "list_all (\<lambda>h. Field h \<noteq> []) (handlers ord env) \<and>
   select_handlers fieldNames (handlers ord env) [] = spec_select_handlers fieldNames (handlers ord env) \<and>
   subseq (spec_select_handlers fieldNames (handlers ord env)) (handlers ord env) \<and>
   GetPartialParser ord clean_title (handlers ord env) fieldNames t
     = parse ord clean_title t (spec_select_handlers fieldNames (handlers ord env)) \<and>
   (list_all (\<lambda>h. Field h \<noteq> []) table \<longrightarrow>
      select_handlers fieldNames table [] = spec_select_handlers fieldNames table \<and>
      subseq (spec_select_handlers fieldNames table) table \<and>
      GetPartialParser ord clean_title table fieldNames t
        = parse ord clean_title t (spec_select_handlers fieldNames table) \<and>
      kt_getPartialParser toStr clean_title table fieldNames t
        = kt_parse toStr clean_title t (spec_select_handlers fieldNames table)) \<and>
   kt_getPartialParser toStr clean_title table fieldNames t
     = kt_parse toStr clean_title t (filter (\<lambda>h. Field h \<in> set fieldNames) table)"
proof -
  have gen: "select_handlers fieldNames hs [] = spec_select_handlers fieldNames hs \<and>
      subseq (spec_select_handlers fieldNames hs) hs \<and>
      GetPartialParser ord clean_title hs fieldNames t
        = parse ord clean_title t (spec_select_handlers fieldNames hs) \<and>
      kt_getPartialParser toStr clean_title hs fieldNames t
        = kt_parse toStr clean_title t (spec_select_handlers fieldNames hs)"
    if "list_all (\<lambda>h. Field h \<noteq> []) hs" for hs
    using spec_select_handlers_declared [OF that, of fieldNames]
    by (simp add: select_handlers_filter GetPartialParser_def kt_getPartialParser_def)
  have kt: "kt_getPartialParser toStr clean_title table fieldNames t
     = kt_parse toStr clean_title t (filter (\<lambda>h. Field h \<in> set fieldNames) table)"
    by (simp add: kt_getPartialParser_def)
  show ?thesis
    using gen [OF handlers_declare_field [of ord env]] gen [of table]
      handlers_declare_field [of ord env] kt
    by blast
qed

theorem partial_parser_witness:
  "GetPartialParser id id
     [rule ''year'' (find_literal ''2020''), rule ''codec'' (find_literal ''x264''),
      rule ''year'' (find_literal ''1999'')] [''year''] ''A 1999 x264''
   = Inr (zero_Result\<lparr>Year := ''1999'', Title := ''A ''\<rparr>)"
proof -
  let ?table = "[rule ''year'' (find_literal ''2020''), rule ''codec'' (find_literal ''x264''),
      rule ''year'' (find_literal ''1999'')]"
  have d: "list_all (\<lambda>h. Field h \<noteq> []) ?table" by (simp add: rule_def)
  have s: "spec_select_handlers [''year''] ?table
      = [rule ''year'' (find_literal ''2020''), rule ''year'' (find_literal ''1999'')]"
    by (simp add: spec_select_handlers_def rule_def)
  have "parse id id ''A 1999 x264''
      [rule ''year'' (find_literal ''2020''), rule ''year'' (find_literal ''1999'')]
    = Inr (zero_Result\<lparr>Year := ''1999'', Title := ''A ''\<rparr>)"
    by code_simp
  then show ?thesis
    using partial_parser [of id _ "[''year'']" id "''A 1999 x264''" ?table] d s
    by simp
qed
section \<open>Matches inside the leading bracket group\<close>

lemma match_pattern_bracket:
  assumes "match_pattern ord h pat t res = Inr (Some (skipFromTitle, m, res'))"
    and "group_text t (pat t) 0 = Inr rawMatchedPart"
    and "Contains (before_title t) rawMatchedPart"
  shows "skipFromTitle"
  using assms
  by (auto simp: match_pattern_def Let_def obind_def split: if_splits sum.splits)

lemma update_boundary_skip:
  "update_boundary True m e =
     (if remove m \<and> mIndex m < e then e - int (length (mValue m)) else e)"
  by (simp add: update_boundary_def)

text \<open>
  C9 holds of the Go engine (\<open>match_pattern_bracket\<close>, \<open>update_boundary_skip\<close>) and fails
  in the Kotlin port, which computes the bracket test and does not use it. On
  \<open>"[720p] Show Name"\<close> the resolution match lies in the leading bracket group and its
  rule is not skip-from-title: the Go engine keeps the boundary at the end of the
  title, the port shrinks it to the match's offset 1 and cleans the title \<open>"["\<close>.
\<close>

theorem kt_bracket_match_shrinks_boundary:
  "kt_parse toStr clean_title ''[720p] Show Name'' (kt_table [resolution_rule ''720''])
     = Inr (zero_Result\<lparr>Resolution := ''720p'', Title := clean_title ''[''\<rparr>) \<and>
   parse (\<lambda>m. m) clean_title ''[720p] Show Name'' [resolution_rule ''720'']
     = Inr (zero_Result\<lparr>Resolution := ''720p'', Title := clean_title ''[] Show Name''\<rparr>)"
  by code_simp

section \<open>The Kotlin port against the Go engine\<close>

text \<open>
  C10 fails on the code: on the same rules the two engines return different Results.
  On \<open>"Show JPN korean 1080p"\<close> the skip-if-first rule for Korean starts at offset 9,
  after the field's own earlier match (offset 5) and before the only other field
  (offset 16). The Go engine looks at the other fields only and discards the
  candidate; the port counts the field's own match as one before the candidate and
  keeps it.
\<close>

theorem kt_parse_differs_from_parse:
  "parse (\<lambda>m. m) clean_title ''Show JPN korean 1080p'' language_rules
     = Inr (zero_Result\<lparr>Languages := [''ja''], Resolution := ''1080p'',
                        Title := clean_title ''Show ''\<rparr>) \<and>
   kt_parse toStr clean_title ''Show JPN korean 1080p'' (kt_table language_rules)
     = Inr (zero_Result\<lparr>Languages := [''ja'', ''ko''], Resolution := ''1080p'',
                        Title := clean_title ''Show ''\<rparr>)"
  by code_simp

section \<open>Determinism\<close>

lemma case_option_if:
  "(case (if c then a else b) of None \<Rightarrow> x | Some s \<Rightarrow> g s) =
   (if c then (case a of None \<Rightarrow> x | Some s \<Rightarrow> g s) else (case b of None \<Rightarrow> x | Some s \<Rightarrow> g s))"
  by simp

lemma assemble_field_slot:
  "assemble_field f v r = (case slot_of f of None \<Rightarrow> Inr r | Some s \<Rightarrow> slot_assign s v r)"
  unfolding assemble_field_def slot_of_def
  by (simp only: case_option_if option.case slot_assign.simps cong: if_cong)

lemma slot_of_name: "slot_of f = Some s \<Longrightarrow> f = slot_name s"
  by (auto simp: slot_of_def split: if_splits)

lemma slot_assign_update:
  "slot_assign s v r =
     (case slot_assign s v zero_Result of Inl e \<Rightarrow> Inl e | Inr r' \<Rightarrow> Inr (slot_update s v r))"
  by (cases s; cases v)
    (simp_all add: obind_def as_string_def as_bool_def as_ints_def as_value_set_def
      the_string_def the_bool_def the_ints_def the_value_set_def split: sum.splits)

lemma assemble_field_ok:
  "type_ok f v \<Longrightarrow> assemble_field f v r = Inr (field_update f v r)"
proof (cases "slot_of f")
  case None
  then show ?thesis by (simp add: assemble_field_slot field_update_def)
next
  case (Some s)
  assume "type_ok f v"
  then obtain r' where "slot_assign s v zero_Result = Inr r'"
    using Some by (auto simp: type_ok_def assemble_field_slot split: sum.splits)
  then show ?thesis
    using Some slot_assign_update [of s v r]
    by (simp add: assemble_field_slot field_update_def)
qed

lemma assemble_ok:
  "list_all (\<lambda>(f, m). type_ok f (val m)) xs \<Longrightarrow>
   assemble xs r = Inr (fold (\<lambda>(f, m). field_update f (val m)) xs r)"
  by (induction xs arbitrary: r) (auto simp: assemble_field_ok)

lemma slot_update_commute:
  "s \<noteq> t \<Longrightarrow> slot_update s v (slot_update t w r) = slot_update t w (slot_update s v r)"
  by (cases s; cases t; simp)

lemma field_update_commute:
  assumes "f \<noteq> g"
  shows "field_update f v (field_update g w r) = field_update g w (field_update f v r)"
proof (cases "slot_of f")
  case None
  then show ?thesis by (simp add: field_update_def)
next
  case sf: (Some s)
  show ?thesis
  proof (cases "slot_of g")
    case None
    then show ?thesis by (simp add: field_update_def)
  next
    case (Some t)
    have "s \<noteq> t" using assms slot_of_name [OF sf] slot_of_name [OF Some] by auto
    then show ?thesis using sf Some by (simp add: field_update_def slot_update_commute)
  qed
qed

lemma fold_field_update_perm:
  assumes d: "distinct (map fst xs)" and p: "mset xs = mset ys"
  shows "fold (\<lambda>(f, m). field_update f (val m)) xs r = fold (\<lambda>(f, m). field_update f (val m)) ys r"
proof -
  have "(\<lambda>(f, m). field_update f (val m)) x \<circ> (\<lambda>(f, m). field_update f (val m)) y
      = (\<lambda>(f, m). field_update f (val m)) y \<circ> (\<lambda>(f, m). field_update f (val m)) x"
    if "x \<in> set xs" "y \<in> set xs" for x y
  proof (cases "fst x = fst y")
    case True
    then have "x = y"
      using d that by (metis eq_key_imp_eq_value prod.collapse)
    then show ?thesis by simp
  next
    case False
    then show ?thesis
      by (auto simp: fun_eq_iff field_update_commute split: prod.splits)
  qed
  then have "fold (\<lambda>(f, m). field_update f (val m)) xs = fold (\<lambda>(f, m). field_update f (val m)) ys"
    using p by (rule fold_multiset_equiv)
  then show ?thesis by simp
qed

lemma assemble_perm:
  assumes "distinct (map fst xs)" "list_all (\<lambda>(f, m). type_ok f (val m)) xs"
    and "mset ys = mset xs" "mset zs = mset xs"
  shows "assemble ys r = assemble zs r"
proof -
  have s: "set ys = set xs" "set zs = set xs"
    using assms(3,4) mset_eq_setD by blast+
  then have t: "list_all (\<lambda>(f, m). type_ok f (val m)) ys" "list_all (\<lambda>(f, m). type_ok f (val m)) zs"
    using assms(2) by (simp_all add: list_all_iff)
  have "fold (\<lambda>(f, m). field_update f (val m)) ys r = fold (\<lambda>(f, m). field_update f (val m)) xs r"
    using fold_field_update_perm [OF assms(1), of ys r] assms(3) by simp
  moreover have "fold (\<lambda>(f, m). field_update f (val m)) zs r = fold (\<lambda>(f, m). field_update f (val m)) xs r"
    using fold_field_update_perm [OF assms(1), of zs r] assms(4) by simp
  ultimately show ?thesis by (simp add: assemble_ok t)
qed

lemma skip_if_first_order:
  assumes "\<And>m. mset (ord1 m) = mset m" "\<And>m. mset (ord2 m) = mset m"
  shows "skip_if_first ord1 field i0 res = skip_if_first ord2 field i0 res"
proof -
  have "set (ord1 res) = set res" "set (ord2 res) = set res"
    using assms mset_eq_setD by blast+
  then show ?thesis by (simp add: skip_if_first_set)
qed

lemma apply_handler_order:
  assumes "\<And>m. mset (ord1 m) = mset m" "\<And>m. mset (ord2 m) = mset m"
  shows "apply_handler ord1 h st = apply_handler ord2 h st"
proof -
  have "match_pattern ord1 h pat t res = match_pattern ord2 h pat t res" for pat t res
    by (simp add: match_pattern_def Let_def skip_if_first_order [OF assms] cong: if_cong)
  then show ?thesis by (cases "Pattern h") (simp_all add: apply_handler_def)
qed

lemma run_handlers_order:
  assumes "\<And>m. mset (ord1 m) = mset m" "\<And>m. mset (ord2 m) = mset m"
  shows "run_handlers ord1 hs st = run_handlers ord2 hs st"
  by (induction hs arbitrary: st)
    (auto simp: apply_handler_order [OF assms] obind_def split: sum.splits)

lemma group_overlap_set:
  "group_overlap xs e = (\<exists>(k, km) \<in> set xs. 0 < mIndex km \<and> mIndex km < e)"
  by (induction xs) auto

lemma group_processor_order:
  assumes "\<And>m. mset (ord1 m) = mset m" "\<And>m. mset (ord2 m) = mset m"
  shows "group_processor ord1 = group_processor ord2"
proof -
  have "set (ord1 res) = set (ord2 res)" for res
    using assms mset_eq_setD by metis
  then show ?thesis
    by (simp add: fun_eq_iff group_processor_def group_overlap_set)
qed

subsection \<open>Rules that keep the field-state map typed\<close>

lemma run_handlers_typed:
  "list_all keeps_typed hs \<Longrightarrow> typed_map (result st) \<Longrightarrow>
   run_handlers ord hs st = Inr st' \<Longrightarrow> typed_map (result st')"
proof (induction hs arbitrary: st)
  case Nil
  then show ?case by simp
next
  case (Cons h hs)
  from Cons.prems(3) obtain st1 where 1: "apply_handler ord h st = Inr st1"
    and 2: "run_handlers ord hs st1 = Inr st'"
    by (auto simp: obind_def split: sum.splits)
  have "typed_map (result st1)"
    using Cons.prems(1,2) 1 by (auto simp: keeps_typed_def)
  then show ?case using Cons.IH [OF _ _ 2] Cons.prems(1) by simp
qed

lemma typed_map_alt:
  "typed_map res =
     (distinct (map fst res) \<and> (\<forall>f m. map_of res f = Some m \<longrightarrow> type_ok f (val m)))"
  unfolding typed_map_def list_all_iff
  by (auto simp: map_of_eq_Some_iff dest: map_of_SomeD)

lemma typed_map_update:
  "typed_map res \<Longrightarrow> type_ok f (val m) \<Longrightarrow> typed_map (AList.update f m res)"
  by (simp add: typed_map_alt distinct_update update_conv')

lemma typed_map_delete: "typed_map res \<Longrightarrow> typed_map (AList.delete f res)"
  by (simp add: typed_map_alt distinct_delete delete_conv')

lemma typed_map_delete_update:
  "typed_map res \<Longrightarrow> typed_map (AList.delete f (AList.update f m res))"
  by (simp add: delete_update_same typed_map_delete)

lemma typed_map_lookup: "typed_map res \<Longrightarrow> map_of res f = Some m \<Longrightarrow> type_ok f (val m)"
  by (simp add: typed_map_alt)

lemma value_set_empty_ok:
  assumes "has_value_set f"
  shows "type_ok f (VSet [])"
proof -
  have "type_ok ''audio'' (VSet [])" "type_ok ''channels'' (VSet [])" "type_ok ''hdr'' (VSet [])"
    "type_ok ''languages'' (VSet [])" "type_ok ''releaseTypes'' (VSet [])"
    by code_simp+
  then show ?thesis using assms by (auto simp: has_value_set_def)
qed

lemma match_pattern_entry:
  assumes "match_pattern ord h pat t res = Inr (Some (skip, m, res'))" and "typed_map res"
  shows "res' = AList.update (Field h) m res \<and> entry_ok (Field h) m"
proof -
  have v: "has_value_set (Field h) \<Longrightarrow> map_of res (Field h) = Some m0 \<Longrightarrow> type_ok (Field h) (val m0)" for m0
    using assms(2) by (simp add: typed_map_lookup)
  show ?thesis
    using assms(1) v
    by (auto simp: match_pattern_def Let_def obind_def entry_ok_def value_set_empty_ok
        new_parseMeta_def split: if_splits sum.splits option.splits)
qed

lemma value_set_type_ok:
  assumes "has_value_set f"
  shows "type_ok f v = (case as_value_set v of Inr x \<Rightarrow> True | Inl e \<Rightarrow> False)"
proof -
  have "type_ok g v = (case as_value_set v of Inr x \<Rightarrow> True | Inl e \<Rightarrow> False)"
    if "g = ''audio'' \<or> g = ''channels'' \<or> g = ''hdr'' \<or> g = ''languages'' \<or> g = ''releaseTypes''"
    for g
    using that
    by (elim disjE) (simp_all add: type_ok_def assemble_field_def obind_def split: sum.splits)
  then show ?thesis using assms by (auto simp: has_value_set_def)
qed

lemma typed_except_alt:
  "typed_except f res =
     (distinct (map fst res) \<and> (\<forall>g m. map_of res g = Some m \<longrightarrow> g = f \<or> type_ok g (val m)))"
proof (cases "distinct (map fst res)")
  case True
  have "(\<forall>x \<in> set res. case x of (g, m) \<Rightarrow> g = f \<or> type_ok g (val m)) =
        (\<forall>g m. (g, m) \<in> set res \<longrightarrow> g = f \<or> type_ok g (val m))"
    by auto
  then show ?thesis
    unfolding typed_except_def list_all_iff using True by simp
next
  case False
  then show ?thesis by (simp add: typed_except_def)
qed

lemma typed_map_except: "typed_map res \<Longrightarrow> typed_except f res"
  by (simp add: typed_map_alt typed_except_alt del: map_of_eq_Some_iff)

lemma typed_except_update_own: "typed_except f res \<Longrightarrow> typed_except f (AList.update f m res)"
  by (simp add: typed_except_alt distinct_update update_conv' del: map_of_eq_Some_iff) blast

lemma typed_except_update_other:
  "typed_except f res \<Longrightarrow> type_ok g (val m) \<Longrightarrow> typed_except f (AList.update g m res)"
  by (simp add: typed_except_alt distinct_update update_conv' del: map_of_eq_Some_iff)

lemma typed_except_delete: "typed_except f res \<Longrightarrow> typed_map (AList.delete f res)"
  by (simp add: typed_except_alt typed_map_alt distinct_delete delete_conv' del: map_of_eq_Some_iff)
    blast

lemma typed_except_update_typed:
  "typed_except f res \<Longrightarrow> type_ok f (val m) \<Longrightarrow> typed_map (AList.update f m res)"
  by (simp add: typed_except_alt typed_map_alt distinct_update update_conv'
      del: map_of_eq_Some_iff) blast

lemma typed_except_entry:
  "typed_except f res \<Longrightarrow> map_of res f = Some m \<Longrightarrow> type_ok f (val m) \<Longrightarrow> typed_map res"
  unfolding typed_except_alt typed_map_alt by (metis option.inject)

lemma map_of_update_same: "map_of (AList.update f m res) f = Some m"
  by (simp add: update_conv')

lemma match_stage_typed:
  assumes ms: "match_stage ord h st = Inr (Some (skip, mo, res0))" and tm: "typed_map (result st)"
  shows "typed_except (Field h) res0 \<and>
     (case mo of
        None \<Rightarrow> Pattern h = None
      | Some m0 \<Rightarrow>
          (if Pattern h = None then post_ok (Field h) m0 else entry_ok (Field h) m0) \<and>
          map_of res0 (Field h) = Some m0)"
proof (cases "Pattern h")
  case None
  then have mo: "mo = map_of (result st) (Field h)" and r: "res0 = result st"
    using ms by (auto simp: match_stage_def)
  show ?thesis
    using None mo r tm typed_map_lookup [OF tm, of "Field h"]
    by (auto simp: typed_map_except post_ok_def split: option.splits)
next
  case (Some pat)
  then obtain m0 where mp: "match_pattern ord h pat (title st) (result st) = Inr (Some (skip, m0, res0))"
    and mo: "mo = Some m0"
    using ms by (auto simp: match_stage_def obind_def split: sum.splits option.splits)
  from match_pattern_entry [OF mp tm]
  have r: "res0 = AList.update (Field h) m0 (result st)" and e: "entry_ok (Field h) m0" by simp_all
  show ?thesis
    using Some mo r e tm
    by (simp add: typed_except_update_own typed_map_except map_of_update_same)
qed

lemma run_process_typed:
  assumes rp: "run_process h t mo res0 = Inr (Some m1, mFound, res1)"
    and te: "typed_except (Field h) res0"
    and mo: "case mo of None \<Rightarrow> pre0 new_parseMeta
             | Some m0 \<Rightarrow> pre0 m0 \<and> map_of res0 (Field h) = Some m0"
    and pt: "case Process h of None \<Rightarrow> (\<forall>m. pre0 m \<longrightarrow> Q m) | Some p \<Rightarrow> stage_typed (Field h) pre0 Q p"
  shows "typed_except (Field h) res1 \<and> Q m1 \<and> (mFound \<longrightarrow> map_of res1 (Field h) = Some m1) \<and>
         (\<not> mFound \<longrightarrow> val m1 = VNil)"
proof (cases "Process h")
  case None
  then have "mo = Some m1" "mFound" "res1 = res0"
    using rp by (auto simp: run_process_def)
  then show ?thesis using te mo pt None by simp
next
  case (Some p)
  then have st: "stage_typed (Field h) pre0 Q p" using pt by simp
  show ?thesis
  proof (cases mo)
    case mo_none: None
    then obtain r' where p: "p t new_parseMeta res0 = Inr (m1, r')"
      and res: "res1 = (if val m1 \<noteq> VNil then AList.update (Field h) m1 r' else r')"
      and mf: "mFound = (val m1 \<noteq> VNil)"
      using rp Some by (auto simp: run_process_def obind_def split: sum.splits if_splits)
    from st p te mo mo_none have "typed_except (Field h) r' \<and> Q m1"
      unfolding stage_typed_def by (metis option.simps(4))
    then show ?thesis
      using res mf by (simp add: typed_except_update_own map_of_update_same)
  next
    case mo_some: (Some m0)
    then obtain r' where p: "p t m0 res0 = Inr (m1, r')"
      and res: "res1 = AList.update (Field h) m1 r'" and mf: "mFound"
      using rp Some by (auto simp: run_process_def obind_def split: sum.splits)
    from mo mo_some have "pre0 m0" by simp
    with st p te have "typed_except (Field h) r' \<and> Q m1"
      unfolding stage_typed_def by blast
    then show ?thesis
      using res mf by (simp add: typed_except_update_own map_of_update_same)
  qed
qed

lemma run_transform_stage_typed:
  assumes rt: "run_transform h t m1 mFound res1 = Inr (m, res)"
    and te: "typed_except (Field h) res1" and q: "Q m1"
    and inv: "mFound \<longrightarrow> map_of res1 (Field h) = Some m1" "\<not> mFound \<longrightarrow> val m1 = VNil"
    and tt: "case Transform h of None \<Rightarrow> (\<forall>m. Q m \<longrightarrow> post_ok (Field h) m)
             | Some tr \<Rightarrow> stage_typed (Field h) Q (post_ok (Field h)) tr"
  shows "typed_except (Field h) res \<and> post_ok (Field h) m \<and>
         (mFound \<longrightarrow> map_of res (Field h) = Some m) \<and> (\<not> mFound \<longrightarrow> val m = VNil)"
proof (cases "Transform h")
  case None
  then have "m = m1" "res = res1" using rt by (simp_all add: run_transform_def)
  then show ?thesis using te q inv tt None by simp
next
  case (Some tr)
  then have st: "stage_typed (Field h) Q (post_ok (Field h)) tr" using tt by simp
  show ?thesis
  proof (cases "val m1 = VNil")
    case True
    then have "m = m1" "res = res1" using rt Some by (simp_all add: run_transform_def)
    then show ?thesis using te inv True by (simp add: post_ok_def)
  next
    case False
    then have mf: mFound using inv by blast
    from False obtain r' where p: "tr t m1 res1 = Inr (m, r')"
      and res: "res = AList.update (Field h) m r'"
      using rt Some mf by (auto simp: run_transform_def obind_def split: sum.splits)
    from st p te q have "typed_except (Field h) r' \<and> post_ok (Field h) m"
      unfolding stage_typed_def by blast
    then show ?thesis
      using res mf by (simp add: typed_except_update_own map_of_update_same)
  qed
qed

lemma entry_ok_pre_ok: "entry_ok f m \<Longrightarrow> pre_ok f m"
  by (simp add: pre_ok_def)

lemma post_ok_pre_ok: "post_ok f m \<Longrightarrow> pre_ok f m"
  by (simp add: pre_ok_def)

lemma entry_ok_post_ok:
  "has_value_set f \<or> (\<forall>s. type_ok f (VStr s)) \<Longrightarrow> entry_ok f m \<Longrightarrow> post_ok f m"
  by (auto simp: entry_ok_def post_ok_def split: if_splits anyval.splits)

lemma stages_typed:
  assumes ht: "handler_typed h" and tm: "typed_map (result st)"
    and sg: "stages ord h st = Inr (Some (skip, m, mFound, res))"
  shows "typed_except (Field h) res \<and> post_ok (Field h) m \<and>
         (mFound \<longrightarrow> map_of res (Field h) = Some m) \<and> (\<not> mFound \<longrightarrow> val m = VNil)"
proof -
  let ?f = "Field h"
  define pre0 where "pre0 = (if Pattern h = None then post_ok ?f else entry_ok ?f)"
  define Q where "Q = (if Transform h = None then post_ok ?f else pre_ok ?f)"
  from sg obtain mo res0 m1 res1 where
    ms: "match_stage ord h st = Inr (Some (skip, mo, res0))" and
    rp: "run_process h (title st) mo res0 = Inr (Some m1, mFound, res1)" and
    rt: "run_transform h (title st) m1 mFound res1 = Inr (m, res)"
    by (rule stages_cases)
  from match_stage_typed [OF ms tm]
  have te0: "typed_except ?f res0"
    and mo: "case mo of None \<Rightarrow> Pattern h = None
             | Some m0 \<Rightarrow> pre0 m0 \<and> map_of res0 ?f = Some m0"
    by (auto simp: pre0_def split: option.splits)
  have mo': "case mo of None \<Rightarrow> pre0 new_parseMeta
             | Some m0 \<Rightarrow> pre0 m0 \<and> map_of res0 ?f = Some m0"
    using mo by (auto simp: pre0_def post_ok_def new_parseMeta_def split: option.splits)
  have pimp: "pre0 x \<Longrightarrow> pre_ok ?f x" for x
    by (auto simp: pre0_def entry_ok_pre_ok post_ok_pre_ok split: if_splits)
  have pt: "case Process h of None \<Rightarrow> (\<forall>m. pre0 m \<longrightarrow> Q m)
            | Some p \<Rightarrow> stage_typed ?f pre0 Q p"
  proof (cases "Transform h")
    case None
    show ?thesis
    proof (cases "Process h")
      case pn: None
      have "pre0 x \<Longrightarrow> post_ok ?f x" for x
        using ht None pn
        by (cases "Pattern h")
          (auto simp: handler_typed_def Let_def pre0_def string_ok_def intro: entry_ok_post_ok)
      then show ?thesis using None pn by (simp add: Q_def)
    next
      case (Some p)
      then show ?thesis
        using ht None by (simp add: handler_typed_def Let_def pre0_def Q_def)
    qed
  next
    case (Some tr)
    show ?thesis
    proof (cases "Process h")
      case None
      then show ?thesis using Some pimp by (simp add: Q_def)
    next
      case sp: (Some p)
      then show ?thesis
        using ht Some by (simp add: handler_typed_def Let_def pre0_def Q_def)
    qed
  qed
  from run_process_typed [OF rp te0 mo' pt]
  have te1: "typed_except ?f res1" and q1: "Q m1"
    and inv: "mFound \<longrightarrow> map_of res1 ?f = Some m1" "\<not> mFound \<longrightarrow> val m1 = VNil"
    by simp_all
  have tt: "case Transform h of None \<Rightarrow> (\<forall>m. Q m \<longrightarrow> post_ok ?f m)
            | Some tr \<Rightarrow> stage_typed ?f Q (post_ok ?f) tr"
    using ht by (auto simp: handler_typed_def Let_def Q_def split: option.splits)
  from run_transform_stage_typed [OF rt te1 q1 inv tt] show ?thesis .
qed

lemma handler_typed_keeps:
  assumes "handler_typed h"
  shows "keeps_typed h"
  unfolding keeps_typed_def
proof (intro allI impI)
  fix ord st st'
  assume tm: "typed_map (result st)" and ap: "apply_handler ord h st = Inr st'"
  let ?f = "Field h"
  from ap obtain x where sg: "stages ord h st = Inr x" and fin: "finish h st x = Inr st'"
    by (auto simp: apply_handler_stages obind_def split: sum.splits)
  show "typed_map (result st')"
  proof (cases x)
    case None
    then show ?thesis using fin tm by (simp add: finish_def)
  next
    case (Some y)
    obtain skip m mFound res where y: "y = (skip, m, mFound, res)" by (cases y)
    from stages_typed [OF assms tm sg [unfolded Some y]]
    have te: "typed_except ?f res" and po: "post_ok ?f m"
      and inv: "mFound \<longrightarrow> map_of res ?f = Some m" "\<not> mFound \<longrightarrow> val m = VNil"
      by simp_all
    show ?thesis
    proof (cases "val m = VNil")
      case True
      then show ?thesis
        using fin Some y te by (auto simp: finish_def typed_except_delete)
    next
      case nn: False
      then have mf: mFound and ok: "type_ok ?f (val m)"
        using inv po by (auto simp: post_ok_def)
      have whole: "typed_map res"
        using te inv mf ok by (auto intro: typed_except_entry)
      show ?thesis
      proof (cases "processed m \<and> \<not> KeepMatching h \<and> \<not> has_value_set ?f")
        case True
        then show ?thesis
          using fin Some y nn whole by (auto simp: finish_def)
      next
        case False
        then have "\<exists>m'. result st' = AList.update ?f m' res \<and> val m' = val m"
          using fin Some y nn mf
          by (cases "Remove h \<or> remove m"; cases "splice_title (title st) m")
            (auto simp: finish_def obind_def)
        then obtain m' where r: "result st' = AList.update ?f m' res" and v: "val m' = val m"
          by blast
        show ?thesis
          using r v ok te by (simp add: typed_except_update_typed)
      qed
    qed
  qed
qed

lemma string_ok_fields:
  "string_ok ''bitDepth''" "string_ok ''codec''" "string_ok ''container''" "string_ok ''date''"
  "string_ok ''edition''" "string_ok ''episodeCode''" "string_ok ''extension''"
  "string_ok ''group''" "string_ok ''network''" "string_ok ''quality''" "string_ok ''region''"
  "string_ok ''resolution''" "string_ok ''site''" "string_ok ''size''" "string_ok ''threeD''"
  "string_ok ''year''" "string_ok ''country''" "string_ok ''ppv''" "string_ok ''title''"
  by (simp_all add: string_ok_def type_ok_def assemble_field_def obind_def as_string_def)

lemma bool_ok_fields:
  "bool_ok ''commentary''" "bool_ok ''complete''" "bool_ok ''convert''" "bool_ok ''documentary''"
  "bool_ok ''dubbed''" "bool_ok ''extended''" "bool_ok ''hardcoded''" "bool_ok ''proper''"
  "bool_ok ''remastered''" "bool_ok ''repack''" "bool_ok ''retail''" "bool_ok ''subbed''"
  "bool_ok ''uncensored''" "bool_ok ''unrated''" "bool_ok ''upscaled''"
  by (simp_all add: bool_ok_def type_ok_def assemble_field_def obind_def as_bool_def)

lemma ints_ok_fields:
  "ints_ok ''episodes''" "ints_ok ''seasons''" "ints_ok ''volumes''"
  by (simp_all add: ints_ok_def type_ok_def assemble_field_def obind_def as_ints_def)

lemma value_set_fields:
  "has_value_set ''audio''" "has_value_set ''channels''" "has_value_set ''hdr''"
  "has_value_set ''languages''" "has_value_set ''releaseTypes''"
  by (simp_all add: has_value_set_def)

lemma to_value_stage: "string_ok f \<Longrightarrow> stage_typed f pre (post_ok f) (to_value v)"
  by (auto simp: stage_typed_def to_value_def post_ok_def string_ok_def)

lemma to_boolean_stage: "bool_ok f \<Longrightarrow> stage_typed f pre (post_ok f) to_boolean"
  by (auto simp: stage_typed_def to_boolean_def post_ok_def bool_ok_def)

lemma to_lowercase_stage: "string_ok f \<Longrightarrow> stage_typed f pre (post_ok f) (to_lowercase env)"
  by (auto simp: stage_typed_def to_lowercase_def post_ok_def string_ok_def split: anyval.splits)

lemma to_uppercase_stage: "string_ok f \<Longrightarrow> stage_typed f pre (post_ok f) (to_uppercase env)"
  by (auto simp: stage_typed_def to_uppercase_def post_ok_def string_ok_def split: anyval.splits)

lemma to_trimmed_stage: "string_ok f \<Longrightarrow> stage_typed f pre (post_ok f) (to_trimmed env)"
  by (auto simp: stage_typed_def to_trimmed_def post_ok_def string_ok_def split: anyval.splits)

lemma to_with_suffix_stage: "string_ok f \<Longrightarrow> stage_typed f pre (post_ok f) (to_with_suffix sfx)"
  by (auto simp: stage_typed_def to_with_suffix_def post_ok_def string_ok_def split: anyval.splits)

lemma to_date_stage: "string_ok f \<Longrightarrow> stage_typed f pre (post_ok f) (to_date env format)"
  by (auto simp: stage_typed_def to_date_def post_ok_def string_ok_def
      split: anyval.splits option.splits)

lemma to_clean_date_res: "to_clean_date env t m res = Inr (m', res') \<Longrightarrow> res' = res"
  by (auto simp: to_clean_date_def split: anyval.splits)

lemma to_clean_month_res: "to_clean_month env t m res = Inr (m', res') \<Longrightarrow> res' = res"
  by (auto simp: to_clean_month_def obind_def split: anyval.splits sum.splits)

lemma clean_date_transform_stage:
  assumes "string_ok f"
  shows "stage_typed f pre (post_ok f) (clean_date_transform env format)"
  unfolding stage_typed_def
proof (intro allI impI)
  fix t m res m' res'
  assume a: "clean_date_transform env format t m res = Inr (m', res')"
    and te: "typed_except f res"
  from a obtain m1 r1 m2 r2 where 1: "to_clean_date env t m res = Inr (m1, r1)"
    and 2: "to_clean_month env t m1 r1 = Inr (m2, r2)"
    and 3: "to_date env format t m2 r2 = Inr (m', res')"
    by (auto simp: clean_date_transform_def obind_def split: sum.splits)
  have "r2 = res" using to_clean_date_res [OF 1] to_clean_month_res [OF 2] by simp
  then have "typed_except f r2" using te by simp
  with to_date_stage [OF assms, of "\<lambda>m. True" env format] 3
  show "typed_except f res' \<and> post_ok f m'"
    unfolding stage_typed_def by blast
qed

lemma to_year_stage: "string_ok f \<Longrightarrow> stage_typed f pre (post_ok f) to_year"
  by (auto simp: stage_typed_def to_year_def to_year_value_def Let_def post_ok_def string_ok_def
      split: anyval.splits option.splits)

lemma to_year_string: "to_year t m res = Inr (m', res') \<Longrightarrow> res' = res \<and> (\<exists>s. val m' = VStr s)"
  by (auto simp: to_year_def to_year_value_def Let_def split: anyval.splits option.splits)

lemma year_range_transform_stage:
  assumes "string_ok f" "f \<noteq> ''complete''"
  shows "stage_typed f pre (post_ok f) year_range_transform"
  unfolding stage_typed_def
proof (intro allI impI)
  fix t m res m' res'
  assume a: "year_range_transform t m res = Inr (m', res')" and te: "typed_except f res"
  from a obtain m1 r1 where 1: "to_year t m res = Inr (m1, r1)"
    by (auto simp: year_range_transform_def obind_def split: sum.splits)
  from to_year_string [OF 1] obtain s where r1: "r1 = res" and v: "val m1 = VStr s" by blast
  have m': "m' = m1" and
    res': "res' = res \<or> res' = AList.update ''complete'' (m1\<lparr>val := VBool True\<rparr>) res"
    using a 1 r1 v
    by (auto simp: year_range_transform_def obind_def split: if_splits)
  have "type_ok ''complete'' (val (m1\<lparr>val := VBool True\<rparr>))"
    using bool_ok_fields(2) by (simp add: bool_ok_def)
  then have "typed_except f res'"
    using res' te by (auto intro: typed_except_update_other)
  moreover have "post_ok f m'" using m' v assms(1) by (simp add: post_ok_def string_ok_def)
  ultimately show "typed_except f res' \<and> post_ok f m'" by simp
qed

lemma to_int_array_stage: "ints_ok f \<Longrightarrow> stage_typed f pre (post_ok f) to_int_array"
  by (auto simp: stage_typed_def to_int_array_def post_ok_def ints_ok_def
      split: anyval.splits option.splits)

lemma to_int_range_stage: "ints_ok f \<Longrightarrow> stage_typed f pre (post_ok f) to_int_range"
  by (auto simp: stage_typed_def to_int_range_def to_int_range_value_def Let_def obind_def
      post_ok_def ints_ok_def split: anyval.splits sum.splits if_splits)

lemma as_strings_append_str:
  "as_strings (vs @ [VStr s]) = obind (as_strings vs) (\<lambda>xs. Inr (xs @ [s]))"
  by (induction vs) (auto simp: obind_def as_string_def split: sum.splits anyval.splits)

lemma value_set_append_ok:
  assumes "has_value_set f" "type_ok f (VSet vs)"
  shows "type_ok f (VSet (value_set_append vs (VStr s)))"
  using assms
  by (auto simp: value_set_type_ok as_value_set_def value_set_append_def
      as_strings_append_str obind_def split: sum.splits)

lemma value_set_foldl_ok:
  assumes "has_value_set f" "list_all (\<lambda>v. \<exists>s. v = VStr s) xs" "type_ok f (VSet vs)"
  shows "type_ok f (VSet (foldl value_set_append vs xs))"
  using assms(2,3)
proof (induction xs arbitrary: vs)
  case Nil
  then show ?case by simp
next
  case (Cons x xs)
  then obtain s where "x = VStr s" by auto
  then show ?case
    using Cons value_set_append_ok [OF assms(1), of vs s] by simp
qed

lemma pre_ok_value_set:
  "has_value_set f \<Longrightarrow> pre_ok f m \<Longrightarrow> post_ok f m"
  by (auto simp: pre_ok_def post_ok_def entry_ok_def)

lemma to_value_set_stage:
  assumes "has_value_set f"
  shows "stage_typed f (pre_ok f) (post_ok f) (to_value_set (VStr s))"
  unfolding stage_typed_def
proof (intro allI impI)
  fix t m res m' res'
  assume a: "to_value_set (VStr s) t m res = Inr (m', res')" and te: "typed_except f res"
    and p: "pre_ok f m"
  have po: "post_ok f m" using p assms by (rule pre_ok_value_set [rotated])
  show "typed_except f res' \<and> post_ok f m'"
  proof (cases "val m")
    case (VSet vs)
    then have "type_ok f (VSet vs)" using po by (simp add: post_ok_def)
    then show ?thesis
      using a te VSet value_set_append_ok [OF assms, of vs s]
      by (auto simp: to_value_set_def post_ok_def)
  qed (use a te po in \<open>auto simp: to_value_set_def\<close>)
qed

lemma to_value_set_with_transform_stage:
  assumes "has_value_set f" "\<And>v. \<exists>s. to_v v = VStr s"
  shows "stage_typed f (pre_ok f) (post_ok f) (to_value_set_with_transform to_v)"
  unfolding stage_typed_def
proof (intro allI impI)
  fix t m res m' res'
  assume a: "to_value_set_with_transform to_v t m res = Inr (m', res')"
    and te: "typed_except f res" and p: "pre_ok f m"
  have po: "post_ok f m" using p assms(1) by (rule pre_ok_value_set [rotated])
  obtain s where s: "to_v (mValue m) = VStr s" using assms(2) by blast
  show "typed_except f res' \<and> post_ok f m'"
  proof (cases "val m")
    case (VSet vs)
    then have "type_ok f (VSet vs)" using po by (simp add: post_ok_def)
    then show ?thesis
      using a te VSet s value_set_append_ok [OF assms(1), of vs s]
      by (auto simp: to_value_set_with_transform_def post_ok_def)
  qed (use a te po in \<open>auto simp: to_value_set_with_transform_def\<close>)
qed

lemma to_value_set_multi_with_transform_stage:
  assumes "has_value_set f" "\<And>v. list_all (\<lambda>x. \<exists>s. x = VStr s) (to_v v)"
  shows "stage_typed f (pre_ok f) (post_ok f) (to_value_set_multi_with_transform to_v)"
  unfolding stage_typed_def
proof (intro allI impI)
  fix t m res m' res'
  assume a: "to_value_set_multi_with_transform to_v t m res = Inr (m', res')"
    and te: "typed_except f res" and p: "pre_ok f m"
  have po: "post_ok f m" using p assms(1) by (rule pre_ok_value_set [rotated])
  show "typed_except f res' \<and> post_ok f m'"
  proof (cases "val m")
    case (VSet vs)
    then have "type_ok f (VSet vs)" using po by (simp add: post_ok_def)
    then show ?thesis
      using a te VSet value_set_foldl_ok [OF assms(1) assms(2), of vs "mValue m"]
      by (auto simp: to_value_set_multi_with_transform_def post_ok_def)
  qed (use a te po in \<open>auto simp: to_value_set_multi_with_transform_def\<close>)
qed

lemma upper_value_str: "\<exists>s. upper_value env v = VStr s"
  by (simp add: upper_value_def)

lemma lower_value_str: "\<exists>s. lower_value env v = VStr s"
  by (simp add: lower_value_def)

lemma upper_values_str: "list_all (\<lambda>x. \<exists>s. x = VStr s) (upper_values env v)"
  by (simp add: upper_values_def list_all_iff)

lemma remove_from_value_stage:
  "string_ok f \<Longrightarrow> stage_typed f (post_ok f) (post_ok f) (remove_from_value re)"
  by (auto simp: stage_typed_def remove_from_value_def post_ok_def string_ok_def
      split: anyval.splits if_splits)

lemma edition_processor_stage:
  "f \<noteq> ''remastered'' \<Longrightarrow> stage_typed f (post_ok f) (post_ok f) edition_processor"
  using bool_ok_fields(9)
  by (auto simp: stage_typed_def edition_processor_def bool_ok_def
      intro!: typed_except_update_other split: if_splits)

lemma value_set_single_ok: "has_value_set f \<Longrightarrow> type_ok f (VSet [VStr s])"
  using value_set_append_ok [of f "[]" s] value_set_empty_ok [of f]
  by (simp add: value_set_append_def)

lemma languages_processor_stage:
  assumes "has_value_set f"
  shows "stage_typed f (post_ok f) (post_ok f) (languages_processor env)"
  unfolding stage_typed_def
proof (intro allI impI)
  fix t m res m' res'
  assume a: "languages_processor env t m res = Inr (m', res')" and te: "typed_except f res"
    and po: "post_ok f m"
  have r: "res' = res" using a by (auto simp: languages_processor_def Let_def split: if_splits)
  have "val m' = val m \<or>
      val m' = VSet (value_set_append (case val m of VSet values \<Rightarrow> values | _ \<Rightarrow> []) (VStr ''pt''))"
    using a by (auto simp: languages_processor_def Let_def split: if_splits)
  moreover have "type_ok f
      (VSet (value_set_append (case val m of VSet values \<Rightarrow> values | _ \<Rightarrow> []) (VStr ''pt'')))"
  proof (cases "val m")
    case (VSet vs)
    then have "type_ok f (VSet vs)" using po by (simp add: post_ok_def)
    then show ?thesis using VSet value_set_append_ok [OF assms] by simp
  qed (use value_set_single_ok [OF assms] in \<open>simp_all add: value_set_append_def\<close>)
  ultimately show "typed_except f res' \<and> post_ok f m'"
    using r te po by (auto simp: post_ok_def)
qed

lemma subbed_processor_stage:
  "bool_ok f \<Longrightarrow> stage_typed f (post_ok f) (post_ok f) subbed_processor"
  by (auto simp: stage_typed_def subbed_processor_def post_ok_def bool_ok_def split: if_splits)

lemma dubbed_processor_stage:
  "bool_ok f \<Longrightarrow> stage_typed f (post_ok f) (post_ok f) dubbed_processor"
  by (auto simp: stage_typed_def dubbed_processor_def post_ok_def bool_ok_def split: if_splits)

lemma group_processor_stage:
  "string_ok f \<Longrightarrow> stage_typed f (post_ok f) (post_ok f) (group_processor ord)"
  by (auto simp: stage_typed_def group_processor_def post_ok_def string_ok_def split: if_splits)

lemma keeps_or_ints_obind:
  "(\<And>a. keeps_or_ints m res (f a)) \<Longrightarrow> keeps_or_ints m res (obind x f)"
  by (cases x) (simp_all add: obind_def keeps_or_ints_def)

lemma keeps_or_ints_Inr:
  "keeps_or_ints m res (Inr (m', res')) = (res' = res \<and> (val m' = val m \<or> (\<exists>xs. val m' = VInts xs)))"
  by (simp add: keeps_or_ints_def)

lemma volumes_processor_val: "keeps_or_ints m res (volumes_processor env t m res)"
  unfolding volumes_processor_def Let_def
  by (intro keeps_or_ints_obind)
    (auto simp: keeps_or_ints_Inr intro!: keeps_or_ints_obind split: option.splits)

lemma episodes_processor_val: "keeps_or_ints m res (episodes_processor env t m res)"
  unfolding episodes_processor_def Let_def
  by (auto simp: keeps_or_ints_Inr intro!: keeps_or_ints_obind split: option.splits
      simp del: episodes_start.simps episodes_end.simps)

lemma keeps_or_ints_stage:
  assumes "\<And>t m res. keeps_or_ints m res (p t m res)" "ints_ok f"
  shows "stage_typed f (post_ok f) (post_ok f) p"
  unfolding stage_typed_def
proof (intro allI impI)
  fix t m res m' res'
  assume a: "p t m res = Inr (m', res')" and te: "typed_except f res" and po: "post_ok f m"
  from assms(1) [of m res t] a have "res' = res \<and> (val m' = val m \<or> (\<exists>xs. val m' = VInts xs))"
    by (simp add: keeps_or_ints_Inr)
  then show "typed_except f res' \<and> post_ok f m'"
    using te po assms(2) by (auto simp: post_ok_def ints_ok_def)
qed

lemma volumes_processor_stage:
  "ints_ok f \<Longrightarrow> stage_typed f (post_ok f) (post_ok f) (volumes_processor env)"
  by (rule keeps_or_ints_stage [OF volumes_processor_val])

lemma episodes_processor_stage:
  "ints_ok f \<Longrightarrow> stage_typed f (post_ok f) (post_ok f) (episodes_processor env)"
  by (rule keeps_or_ints_stage [OF episodes_processor_val])

lemma string_okD: "string_ok f \<Longrightarrow> type_ok f (VStr s)"
  by (simp add: string_ok_def)

lemma upper_value_stage:
  "has_value_set f \<Longrightarrow>
   stage_typed f (pre_ok f) (post_ok f) (to_value_set_with_transform (upper_value env))"
  by (rule to_value_set_with_transform_stage) (simp_all add: upper_value_def)

lemma lower_value_stage:
  "has_value_set f \<Longrightarrow>
   stage_typed f (pre_ok f) (post_ok f) (to_value_set_with_transform (lower_value env))"
  by (rule to_value_set_with_transform_stage) (simp_all add: lower_value_def)

lemma upper_values_stage:
  "has_value_set f \<Longrightarrow>
   stage_typed f (pre_ok f) (post_ok f) (to_value_set_multi_with_transform (upper_values env))"
  by (rule to_value_set_multi_with_transform_stage) (simp_all add: upper_values_str)

lemmas typed_rules =
  handler_typed_def Let_def handler0_def string_okD
  string_ok_fields bool_ok_fields ints_ok_fields value_set_fields
  to_value_stage to_boolean_stage to_lowercase_stage to_uppercase_stage to_trimmed_stage
  to_with_suffix_stage to_date_stage clean_date_transform_stage to_year_stage
  year_range_transform_stage to_int_array_stage to_int_range_stage to_value_set_stage
  upper_value_stage lower_value_stage upper_values_stage
  remove_from_value_stage edition_processor_stage volumes_processor_stage
  episodes_processor_stage languages_processor_stage subbed_processor_stage
  dubbed_processor_stage group_processor_stage

lemma handlers_001_typed: "list_all handler_typed (handlers_001 env)"
  by (simp add: handlers_001_def typed_rules)

lemma handlers_021_typed: "list_all handler_typed (handlers_021 env)"
  by (simp add: handlers_021_def typed_rules)

lemma handlers_041_typed: "list_all handler_typed (handlers_041 env)"
  by (simp add: handlers_041_def typed_rules)

lemma handlers_061_typed: "list_all handler_typed (handlers_061 env)"
  by (simp add: handlers_061_def typed_rules)

lemma handlers_081_typed: "list_all handler_typed (handlers_081 env)"
  by (simp add: handlers_081_def typed_rules)

lemma handlers_101_typed: "list_all handler_typed (handlers_101 env)"
  by (simp add: handlers_101_def typed_rules)

lemma handlers_121_typed: "list_all handler_typed (handlers_121 env)"
  by (simp add: handlers_121_def typed_rules)

lemma handlers_141_typed: "list_all handler_typed (handlers_141 env)"
  by (simp add: handlers_141_def typed_rules)

lemma handlers_161_typed: "list_all handler_typed (handlers_161 env)"
  by (simp add: handlers_161_def typed_rules)

lemma handlers_181_typed: "list_all handler_typed (handlers_181 env)"
  by (simp add: handlers_181_def typed_rules)

lemma handlers_201_typed: "list_all handler_typed (handlers_201 env)"
  by (simp add: handlers_201_def typed_rules)

lemma handlers_221_typed: "list_all handler_typed (handlers_221 env)"
  by (simp add: handlers_221_def typed_rules)

lemma handlers_241_typed: "list_all handler_typed (handlers_241 env)"
  by (simp add: handlers_241_def typed_rules)

lemma handlers_261_typed: "list_all handler_typed (handlers_261 env)"
  by (simp add: handlers_261_def typed_rules)

lemma handlers_281_typed: "list_all handler_typed (handlers_281 env)"
  by (simp add: handlers_281_def typed_rules)

lemma handlers_301_typed: "list_all handler_typed (handlers_301 env)"
  by (simp add: handlers_301_def typed_rules)

lemma handlers_321_typed: "list_all handler_typed (handlers_321 env)"
  by (simp add: handlers_321_def typed_rules)

lemma handlers_341_typed: "list_all handler_typed (handlers_341 env)"
  by (simp add: handlers_341_def typed_rules)

lemma handlers_361_typed: "list_all handler_typed (handlers_361 env)"
  by (simp add: handlers_361_def typed_rules)

lemma handlers_381_typed: "list_all handler_typed (handlers_381 ord env)"
  by (simp add: handlers_381_def typed_rules)

lemma handlers_typed: "list_all handler_typed (handlers ord env)"
  unfolding handlers_def list_all_append
  by (intro conjI handlers_001_typed handlers_021_typed handlers_041_typed handlers_061_typed handlers_081_typed handlers_101_typed handlers_121_typed handlers_141_typed handlers_161_typed handlers_181_typed handlers_201_typed handlers_221_typed handlers_241_typed handlers_261_typed handlers_281_typed handlers_301_typed handlers_321_typed handlers_341_typed handlers_361_typed handlers_381_typed)

lemma typed_rules_final_map:
  assumes "list_all keeps_typed hs"
    and "run_handlers ord hs \<lparr> title = t, result = [], endOfTitle = e \<rparr> = Inr st"
  shows "distinct (map fst (result st)) \<and> list_all (\<lambda>(f, m). type_ok f (val m)) (result st)"
proof -
  have "typed_map (result \<lparr> title = t, result = [], endOfTitle = e \<rparr>)"
    by (simp add: typed_map_def)
  from run_handlers_typed [OF assms(1) this assms(2)] show ?thesis
    by (simp add: typed_map_def)
qed

lemma handlers_keep_typed: "list_all keeps_typed (handlers ord env)"
  using handlers_typed [of ord env] by (simp add: list_all_iff handler_typed_keeps)
section \<open>Determinism\<close>

text \<open>
  For any table, two visiting orders give the same Result when the map the rules leave
  behind is typed: the rule loop does not depend on the order at all, and the final
  loop then stores each field in its own place.
\<close>

lemma parse_order_independent:
  assumes "\<And>m. mset (ord1 m) = mset m" and "\<And>m. mset (ord2 m) = mset m"
    and "\<And>st. run_handlers ord1 hs
            \<lparr> title = normalize_title t, result = [],
              endOfTitle = int (length (normalize_title t)) \<rparr> = Inr st \<Longrightarrow>
          distinct (map fst (result st)) \<and> list_all (\<lambda>(f, m). type_ok f (val m)) (result st)"
  shows "parse ord1 clean_title t hs = parse ord2 clean_title t hs"
proof -
  let ?st0 = "\<lparr> title = normalize_title t, result = [],
              endOfTitle = int (length (normalize_title t)) \<rparr>"
  have r: "run_handlers ord2 hs ?st0 = run_handlers ord1 hs ?st0"
    using run_handlers_order [OF assms(1,2)] by simp
  show ?thesis
  proof (cases "run_handlers ord1 hs ?st0")
    case (Inl e)
    then show ?thesis using r by (simp add: parse_def Let_def)
  next
    case (Inr st)
    from assms(3) [OF Inr]
    have "assemble (ord1 (result st)) zero_Result = assemble (ord2 (result st)) zero_Result"
      using assms(1,2) by (intro assemble_perm [of "result st"]) simp_all
    then show ?thesis using r Inr by (simp add: parse_def Let_def)
  qed
qed

lemma handlers_order:
  assumes "\<And>m. mset (ord1 m) = mset m" and "\<And>m. mset (ord2 m) = mset m"
  shows "handlers ord1 env = handlers ord2 env"
  using group_processor_order [OF assms]
  by (simp add: handlers_def handlers_381_def)

text \<open>
  C5. Two invocations of \<open>Parse\<close> on the same title differ at most in the order in
  which the runtime visits the field-state map: in the skip-if-first check, in the
  group processor and in the final loop that fills the Result. A \<open>range\<close> over a map
  visits every entry once, so a visiting order is a rearrangement of the entries. For
  any two of them, and whatever the regular expressions of the table match, the
  skip-if-first check and the group processor decide alike and \<open>Parse\<close> returns equal
  Results, in every field and in the error: every rule of the table leaves in the map
  values of the type the final loop asserts, so that loop never stops half way. (In
  the instance below the map is visited in the order of insertion in one run and in
  the reverse order in the other, on a title in which a resolution rule and a year
  rule of the table match.)
\<close>

theorem parse_deterministic:
  assumes "\<And>m. mset (ord1 m) = mset m" and "\<And>m. mset (ord2 m) = mset m"
  shows "Parse ord1 env clean_title t = Parse ord2 env clean_title t \<and>
         skip_if_first ord1 = skip_if_first ord2 \<and>
         group_processor ord1 = group_processor ord2"
proof (intro conjI)
  have "parse ord1 clean_title t (handlers ord1 env) = parse ord2 clean_title t (handlers ord1 env)"
    using assms
  proof (rule parse_order_independent)
    fix st
    assume "run_handlers ord1 (handlers ord1 env)
        \<lparr> title = normalize_title t, result = [],
          endOfTitle = int (length (normalize_title t)) \<rparr> = Inr st"
    then show "distinct (map fst (result st)) \<and>
        list_all (\<lambda>(f, m). type_ok f (val m)) (result st)"
      by (rule typed_rules_final_map [OF handlers_keep_typed])
  qed
  then show "Parse ord1 env clean_title t = Parse ord2 env clean_title t"
    using handlers_order [OF assms, of env] by (simp add: Parse_def)
  show "skip_if_first ord1 = skip_if_first ord2"
    using skip_if_first_order [OF assms(1,2)] by (simp add: fun_eq_iff)
  show "group_processor ord1 = group_processor ord2"
    using assms(1,2) by (rule group_processor_order)
qed

theorem parse_deterministic_witness:
  "Parse (\<lambda>m. m) example_env (\<lambda>s. s) ''Show 2020 1920x1080''
     = Parse rev example_env (\<lambda>s. s) ''Show 2020 1920x1080'' \<and>
   Parse (\<lambda>m. m) example_env (\<lambda>s. s) ''Show 2020 1920x1080''
     = Inr (zero_Result\<lparr>Resolution := ''1080p'', Year := ''2020'', Title := ''Show ''\<rparr>)"
proof -
  have "Parse (\<lambda>m. m) example_env (\<lambda>s. s) ''Show 2020 1920x1080''
     = Inr (zero_Result\<lparr>Resolution := ''1080p'', Year := ''2020'', Title := ''Show ''\<rparr>)"
    by code_simp
  then show ?thesis
    using parse_deterministic [of "\<lambda>m. m" rev example_env "\<lambda>s. s" "''Show 2020 1920x1080''"]
    by simp
qed

text \<open>
  The typing of the rules is needed. With a rule that stores a boolean in the year, as
  no rule of the table does, the final loop panics at the year, and the Result keeps
  the codec or not according to which of the two fields the runtime visits first.
\<close>

lemma parse_order_matters_when_ill_typed:
  "parse (\<lambda>m. m) (\<lambda>s. s) ''A 2020 x264''
     [rule ''codec'' (find_literal ''x264''),
      (rule ''year'' (find_literal ''2020''))\<lparr>Transform := Some to_boolean\<rparr>]
     = Inr (zero_Result\<lparr>Codec := ''x264'', err := Some (RuntimeError ''interface conversion'')\<rparr>) \<and>
   parse rev (\<lambda>s. s) ''A 2020 x264''
     [rule ''codec'' (find_literal ''x264''),
      (rule ''year'' (find_literal ''2020''))\<lparr>Transform := Some to_boolean\<rparr>]
     = Inr (zero_Result\<lparr>err := Some (RuntimeError ''interface conversion'')\<rparr>)"
  by code_simp

lemma ill_typed_rule_is_not_typed:
  "\<not> handler_typed ((rule ''year'' (find_literal ''2020''))\<lparr>Transform := Some to_boolean\<rparr>)"
proof
  assume "handler_typed ((rule ''year'' (find_literal ''2020''))\<lparr>Transform := Some to_boolean\<rparr>)"
  then have "stage_typed ''year'' (pre_ok ''year'') (post_ok ''year'') to_boolean"
    by (simp add: handler_typed_def rule_def Let_def)
  then have "post_ok ''year'' (new_parseMeta\<lparr>val := VBool True\<rparr>)"
    unfolding stage_typed_def
    by (elim allE [of _ "[]"] allE [of _ new_parseMeta] allE [of _ "new_parseMeta\<lparr>val := VBool True\<rparr>"])
      (simp add: to_boolean_def typed_except_def pre_ok_def post_ok_def new_parseMeta_def)
  then show False
    by (simp add: post_ok_def type_ok_def assemble_field_def obind_def as_string_def new_parseMeta_def)
qed
end
